theory Spec2Isabelle
  imports Complex_Main "HOL-Library.Multiset"
begin

section \<open>Conventions shared by the four scripts\<close>

text \<open>
  Every script throws JavaScript \<open>Error\<close> objects carrying a message; a thrown error is
  the \<open>Inl\<close> branch of a sum.  The external collaborators (store, model providers, file
  system, clock, random source, Node library functions) are parameters of the model: a
  field of a world record or a function argument, never a fixed implementation.
\<close>

datatype error = Error string

text \<open>
  Truthiness of a \<open>string | null\<close> (or \<open>string | undefined\<close>) value, as tested by
  \<open>if (x)\<close>, \<open>!x\<close> and \<open>x || y\<close>: \<open>null\<close>, \<open>undefined\<close> and the empty string are falsy.
\<close>

fun truthy :: "string option \<Rightarrow> bool" where
  "truthy None = False"
| "truthy (Some s) = (s \<noteq> [])"

definition or_else :: "string option \<Rightarrow> string \<Rightarrow> string" where
  "or_else x d = (if truthy x then the x else d)"

text \<open>The store's \<open>.eq(column, value)\<close> and \<open>.in(column, values)\<close> predicates on a result set.
  A \<open>NULL\<close> column never satisfies \<open>in\<close>.\<close>

definition eq_rows :: "('r \<Rightarrow> string) \<Rightarrow> string \<Rightarrow> 'r list \<Rightarrow> 'r list" where
  "eq_rows col v rows = filter (\<lambda>r. col r = v) rows"

definition in_rows :: "('r \<Rightarrow> 'a option) \<Rightarrow> 'a list \<Rightarrow> 'r list \<Rightarrow> 'r list" where
  "in_rows col vs rows = filter (\<lambda>r. case col r of None \<Rightarrow> False | Some v \<Rightarrow> v \<in> set vs) rows"

text \<open>
  \<open>xs.slice(0, e)\<close> for an integer \<open>e\<close>: a negative end counts from the end of the array,
  an end beyond the length is clamped.
\<close>

definition slice0 :: "'a list \<Rightarrow> int \<Rightarrow> 'a list" where
  "slice0 xs e =
     (if e < 0 then take (nat (max 0 (int (length xs) + e))) xs
      else take (nat (min e (int (length xs)))) xs)"

text \<open>
  \<open>data.sort(() => 0.5 - Math.random())\<close> rearranges the rows in an order that depends on
  the random source; whatever the order, the rows are the same.  The rearrangement is a
  parameter \<open>shuffle\<close>, and \<open>is_shuffle\<close> is all that is known about it.
\<close>

definition is_shuffle :: "('a list \<Rightarrow> 'a list) \<Rightarrow> bool" where
  "is_shuffle shuffle = (\<forall>xs. mset (shuffle xs) = mset xs)"

text \<open>Decimal rendering of an integer inside a template string.\<close>

fun show_nat :: "nat \<Rightarrow> string" where
  "show_nat n =
     (if n < 10 then [''0123456789'' ! n]
      else show_nat (n div 10) @ [''0123456789'' ! (n mod 10)])"

definition show_int :: "int \<Rightarrow> string" where
  "show_int i = (if i < 0 then ''-'' @ show_nat (nat (- i)) else show_nat (nat i))"

text \<open>\<open>xs.join(sep)\<close> on an array of strings.\<close>

fun join :: "string \<Rightarrow> string list \<Rightarrow> string" where
  "join sep [] = []"
| "join sep [x] = x"
| "join sep (x # y # ys) = x @ sep @ join sep (y # ys)"

definition newline :: string where
  "newline = [CHR 0x0A]"

text \<open>
  The calls a run makes to its collaborators, in order.  A function that performs calls
  returns the list of its calls together with its result; \<open>then_run\<close> is \<open>await\<close>
  followed by the rest of the function: an error ends the run, the calls made so far stay.
\<close>

datatype effect =
    StoreQuery string
  | StoreInsert string
  | ReadDir string
  | ReadFile string
  | Extract string
  | Generate
  | Summarize
  | Embed string
  | FileWrite string

type_synonym 'a run = "effect list \<times> (error + 'a)"

definition then_run :: "'a run \<Rightarrow> ('a \<Rightarrow> 'b run) \<Rightarrow> 'b run" where
  "then_run m f =
     (case m of
        (t, Inl e) \<Rightarrow> (t, Inl e)
      | (t, Inr x) \<Rightarrow> (case f x of (t', r) \<Rightarrow> (t @ t', r)))"

text \<open>Process exit convention of every script: \<open>.then(exit 0)\<close>, \<open>.catch(exit 1)\<close>.\<close>

definition exit_code :: "error + 'a \<Rightarrow> int" where
  "exit_code r = (case r of Inl _ \<Rightarrow> 1 | Inr _ \<Rightarrow> 0)"

text \<open>The environment variables read at module load.\<close>

record environment =
  SUPABASE_URL :: "string option"
  SUPABASE_ANON_KEY :: "string option"
  OPENAI_API_KEY :: "string option"

record QuestionType =
  qt_id :: string
  qt_name :: string
  qt_subject :: string

text \<open>
  \<open>fetchQuestionTypes\<close> is the same function in three scripts.  \<open>err\<close> is the error (if
  any) the store answers with on a table, \<open>rows\<close> the rows of \<open>question_types\<close>.
\<close>

definition fetchQuestionTypes ::
  "(string \<Rightarrow> string option) \<Rightarrow> QuestionType list \<Rightarrow> string \<Rightarrow> error + QuestionType list" where
  "fetchQuestionTypes err rows subject =
     (case err ''question_types'' of
        Some m \<Rightarrow> Inl (Error (''Failed to fetch question types: '' @ m))
      | None \<Rightarrow> Inr (eq_rows qt_subject subject rows))"

text \<open>Resolution of allowed type names to ids:
  \<open>questionTypes.filter(qt => names.includes(qt.name)).map(qt => qt.id)\<close>.\<close>

definition questionTypeIds :: "QuestionType list \<Rightarrow> string list \<Rightarrow> string list" where
  "questionTypeIds questionTypes names =
     map qt_id (filter (\<lambda>qt. qt_name qt \<in> set names) questionTypes)"

section \<open>MCQ set creator (src/unnamed/part_000)\<close>

record MCQ =
  mcq_id :: string
  mcq_topic :: string
  mcq_question :: string
  mcq_subject :: string
  mcq_options :: "(string \<times> string) list"
  mcq_correct_answer :: string
  mcq_explanation :: string
  mcq_grade_level :: "string option"
  mcq_difficulty :: "int option"
  mcq_question_type_id :: "string option"
  mcq_source_material_ids :: "string list option"
  mcq_embedding :: "real list"
  mcq_metadata :: "(string \<times> string) list"
  mcq_created_at :: string
  mcq_updated_at :: string

record MCQSet =
  set_id :: string
  set_topic :: string
  set_description :: "string option"
  set_subject :: string
  set_created_at :: string
  set_updated_at :: string

record MCQSetQuestion =
  mcqset_id :: string
  mcq_ref :: string
  order_index :: int

record distribution =
  easy :: int
  medium :: int
  hard :: int

record filters =
  f_topic :: "string option"
  f_questionTypeNames :: "string list option"
  f_subject :: "string option"
  f_difficultyDistribution :: "distribution option"
  f_limit :: int

record CONFIG =
  setTopic :: string
  setDescription :: string
  setSubject :: string
  cfg_filters :: filters

text \<open>
  The store as the set creator sees it: four tables, the error (if any) the store answers
  with on an operation on a table, and the id and timestamp it gives a new \<open>mcqsets\<close> row.
\<close>

record store =
  st_question_types :: "QuestionType list"
  st_mcqs :: "MCQ list"
  st_mcqsets :: "MCQSet list"
  st_mcqset_questions :: "MCQSetQuestion list"
  st_error :: "string \<Rightarrow> string option"
  st_new_id :: string
  st_now :: string

text \<open>
  The query \<open>fetchMCQsByDifficulty\<close> builds, applied to the rows of \<open>mcqs\<close>: each filter is
  added only when its guard holds.  The type filter has two guards: the name list is
  non-empty, and the names resolve to at least one id.
\<close>

definition mcq_query ::
  "filters \<Rightarrow> QuestionType list \<Rightarrow> int list option \<Rightarrow> MCQ list \<Rightarrow> MCQ list" where
  "mcq_query fs questionTypes difficultyLevels rows =
     (let q1 = (if truthy (f_subject fs) then eq_rows mcq_subject (the (f_subject fs)) rows
                else rows);
          q2 = (if truthy (f_topic fs) then eq_rows mcq_topic (the (f_topic fs)) q1 else q1);
          q3 = (case f_questionTypeNames fs of
                  None \<Rightarrow> q2
                | Some names \<Rightarrow>
                    if length names > 0 then
                      (let ids = questionTypeIds questionTypes names
                       in if length ids > 0 then in_rows mcq_question_type_id ids q2 else q2)
                    else q2);
          q4 = (case difficultyLevels of
                  None \<Rightarrow> q3
                | Some levels \<Rightarrow>
                    if length levels > 0 then in_rows mcq_difficulty levels q3 else q3)
      in q4)"

definition fetchMCQsByDifficulty ::
  "(MCQ list \<Rightarrow> MCQ list) \<Rightarrow> filters \<Rightarrow> QuestionType list \<Rightarrow> int list option \<Rightarrow> int \<Rightarrow> store
     \<Rightarrow> error + MCQ list" where
  "fetchMCQsByDifficulty shuffle fs questionTypes difficultyLevels limit st =
     (case st_error st ''mcqs'' of
        Some m \<Rightarrow> Inl (Error (''Failed to fetch MCQs: '' @ m))
      | None \<Rightarrow>
          (let data = mcq_query fs questionTypes difficultyLevels (st_mcqs st)
           in if length data = 0 then Inr []
              else Inr (slice0 (shuffle data) (min limit (int (length data))))))"

text \<open>One band of \<open>fetchMCQs\<close>: skipped when its count is not positive; an error of the
  query aborts the whole fetch.\<close>

definition fetch_band ::
  "(MCQ list \<Rightarrow> MCQ list) \<Rightarrow> filters \<Rightarrow> QuestionType list \<Rightarrow> int list \<Rightarrow> int \<Rightarrow> store
     \<Rightarrow> MCQ list \<Rightarrow> error + MCQ list" where
  "fetch_band shuffle fs questionTypes levels n st allMCQs =
     (if n > 0 then
        (case fetchMCQsByDifficulty shuffle fs questionTypes (Some levels) n st of
           Inl e \<Rightarrow> Inl e
         | Inr qs \<Rightarrow> Inr (allMCQs @ qs))
      else Inr allMCQs)"

definition fetchMCQs ::
  "(MCQ list \<Rightarrow> MCQ list) \<Rightarrow> filters \<Rightarrow> QuestionType list \<Rightarrow> store \<Rightarrow> error + MCQ list" where
  "fetchMCQs shuffle fs questionTypes st =
     (case f_difficultyDistribution fs of
        Some d \<Rightarrow>
          (case fetch_band shuffle fs questionTypes [1, 2] (easy d) st [] of
             Inl e \<Rightarrow> Inl e
           | Inr a1 \<Rightarrow>
               (case fetch_band shuffle fs questionTypes [3] (medium d) st a1 of
                  Inl e \<Rightarrow> Inl e
                | Inr a2 \<Rightarrow> fetch_band shuffle fs questionTypes [4, 5] (hard d) st a2))
      | None \<Rightarrow> fetchMCQsByDifficulty shuffle fs questionTypes None (f_limit fs) st)"

definition createMCQSet :: "string \<Rightarrow> string \<Rightarrow> string \<Rightarrow> store \<Rightarrow> error + (MCQSet \<times> store)" where
  "createMCQSet topic description subject st =
     (case st_error st ''mcqsets'' of
        Some m \<Rightarrow> Inl (Error (''Failed to create MCQ set: '' @ m))
      | None \<Rightarrow>
          (let row = \<lparr>set_id = st_new_id st, set_topic = topic,
                      set_description = Some description, set_subject = subject,
                      set_created_at = st_now st, set_updated_at = st_now st\<rparr>
           in Inr (row, st\<lparr>st_mcqsets := st_mcqsets st @ [row]\<rparr>)))"

text \<open>
  \<open>linkMCQsToSet\<close>.  The comparator \<open>(a.difficulty || 999) - (b.difficulty || 999)\<close> is
  a consistent comparison by the key \<open>difficulty_key\<close>, and \<open>Array.prototype.sort\<close> is
  stable, so the sorted copy is the stable sort by that key.  \<open>||\<close> replaces \<open>null\<close> and
  also \<open>0\<close> by the sentinel.
\<close>

definition difficulty_key :: "MCQ \<Rightarrow> int" where
  "difficulty_key m =
     (case mcq_difficulty m of None \<Rightarrow> 999 | Some d \<Rightarrow> if d = 0 then 999 else d)"

definition sortedMCQs :: "MCQ list \<Rightarrow> MCQ list" where
  "sortedMCQs mcqs = sort_key difficulty_key mcqs"

definition mcqSetQuestions :: "string \<Rightarrow> MCQ list \<Rightarrow> MCQSetQuestion list" where
  "mcqSetQuestions mcqSetId mcqs =
     map (\<lambda>(index, mcq). \<lparr>mcqset_id = mcqSetId, mcq_ref = mcq_id mcq,
                            order_index = int index + 1\<rparr>)
         (enumerate 0 (sortedMCQs mcqs))"

definition linkMCQsToSet :: "string \<Rightarrow> MCQ list \<Rightarrow> store \<Rightarrow> error + store" where
  "linkMCQsToSet mcqSetId mcqs st =
     (case st_error st ''mcqset_questions'' of
        Some m \<Rightarrow> Inl (Error (''Failed to link MCQs to set: '' @ m))
      | None \<Rightarrow>
          Inr (st\<lparr>st_mcqset_questions :=
                     st_mcqset_questions st @ mcqSetQuestions mcqSetId mcqs\<rparr>))"

text \<open>
  \<open>main\<close>, with the store threaded through; the result is the store after the run and
  either the error that escaped or the created set.  The \<open>catch\<close> block logs and rethrows.
\<close>

definition main :: "CONFIG \<Rightarrow> (MCQ list \<Rightarrow> MCQ list) \<Rightarrow> store \<Rightarrow> store \<times> (error + MCQSet)" where
  "main cfg shuffle st =
     (case (if f_questionTypeNames (cfg_filters cfg) \<noteq> None \<or> truthy (f_subject (cfg_filters cfg))
            then fetchQuestionTypes (st_error st) (st_question_types st) (setSubject cfg)
            else Inr []) of
        Inl e \<Rightarrow> (st, Inl e)
      | Inr questionTypes \<Rightarrow>
          (case fetchMCQs shuffle (cfg_filters cfg) questionTypes st of
             Inl e \<Rightarrow> (st, Inl e)
           | Inr selectedMCQs \<Rightarrow>
               if length selectedMCQs = 0
               then (st, Inl (Error ''No MCQs found matching the criteria''))
               else
                 (case createMCQSet (setTopic cfg) (setDescription cfg) (setSubject cfg) st of
                    Inl e \<Rightarrow> (st, Inl e)
                  | Inr (mcqSet, st1) \<Rightarrow>
                      (case linkMCQsToSet (set_id mcqSet) selectedMCQs st1 of
                         Inl e \<Rightarrow> (st1, Inl e)
                       | Inr st2 \<Rightarrow> (st2, Inr mcqSet)))))"

text \<open>The script: the credential check at module load, then \<open>main\<close>.\<close>

definition set_creator_script ::
  "environment \<Rightarrow> CONFIG \<Rightarrow> (MCQ list \<Rightarrow> MCQ list) \<Rightarrow> store \<Rightarrow> store \<times> (error + MCQSet)" where
  "set_creator_script env cfg shuffle st =
     (if \<not> truthy (SUPABASE_URL env) \<or> \<not> truthy (SUPABASE_ANON_KEY env)
      then (st, Inl (Error ''Missing SUPABASE_URL or SUPABASE_ANON_KEY in environment variables''))
      else main cfg shuffle st)"

section \<open>MCQ generator (src/src/generate-mcq.ts)\<close>

text \<open>A row of \<open>pastpapers\<close> as the generator reads it (its interface \<open>PastPaperQuestion\<close>).\<close>

record PastPaperRow =
  pp_id :: string
  pp_topic :: string
  pp_question :: string
  pp_answer :: string
  pp_question_number :: int
  pp_question_year :: int
  pp_subject :: string
  pp_explanation :: string
  pp_difficulty :: int
  pp_grade_level :: string
  pp_question_type_id :: string

record TextbookContent =
  tb_topic :: string
  tb_content :: string
  tb_subject :: string

record options =
  opt_A :: string
  opt_B :: string
  opt_C :: string
  opt_D :: string

record GeneratedMCQ =
  g_question :: string
  g_options :: options
  g_correct_answer :: string
  g_explanation :: string
  g_difficulty :: int
  g_topic :: string
  g_question_type_name :: string

datatype difficulty_mode = Easy | Medium | Hard | Mixed

record gen_CONFIG =
  gc_subject :: string
  gc_topic :: "string option"
  gc_questionTypes :: "string list option"
  gc_numberOfQuestions :: int
  gc_numberOfMCQsToGenerate :: int
  gc_difficulty :: difficulty_mode
  gc_outputFile :: string

text \<open>
  The prompt of \<open>generateMCQs\<close> is fixed Chinese wording around interpolated values.  The
  model keeps the interpolated values: the requested count, the reference topic and body,
  one entry per exemplar (number, question, answer, explanation, difficulty), the names of
  the allowed question types, and the difficulty instruction, of which the target range is
  kept.
\<close>

datatype guidance = AllWithin int int | Balanced

fun difficultyGuidance :: "difficulty_mode \<Rightarrow> guidance" where
  "difficultyGuidance Easy = AllWithin 1 2"
| "difficultyGuidance Medium = AllWithin 3 3"
| "difficultyGuidance Hard = AllWithin 4 5"
| "difficultyGuidance Mixed = Balanced"

record gen_prompt =
  p_numberOfMCQs :: int
  p_topic :: string
  p_content :: string
  p_questionsContext :: "(nat \<times> string \<times> string \<times> string \<times> int) list"
  p_questionTypesList :: "string list"
  p_guidance :: guidance

text \<open>
  What the generator's run depends on: the three tables, the store's errors, the
  generation model (its answer to a prompt, before schema validation), the messages of the
  libraries' own errors, the failure (if any) of the file write, and the clock.
\<close>

record gen_world =
  gw_question_types :: "QuestionType list"
  gw_pastpapers :: "PastPaperRow list"
  gw_textbooks :: "TextbookContent list"
  gw_error :: "string \<Rightarrow> string option"
  gw_single_error :: string
  gw_model :: "gen_prompt \<Rightarrow> error + GeneratedMCQ list"
  gw_schema_error :: string
  gw_write_error :: "string option"
  gw_now :: string

definition pastpaper_query ::
  "string \<Rightarrow> string option \<Rightarrow> string list option \<Rightarrow> QuestionType list \<Rightarrow> PastPaperRow list
     \<Rightarrow> PastPaperRow list" where
  "pastpaper_query subject topic questionTypeNames questionTypes rows =
     (let q1 = eq_rows pp_subject subject rows;
          q2 = (if truthy topic then eq_rows pp_topic (the topic) q1 else q1);
          q3 = (case questionTypeNames of
                  None \<Rightarrow> q2
                | Some names \<Rightarrow>
                    if length names > 0 then
                      (let ids = questionTypeIds questionTypes names
                       in if length ids > 0
                          then in_rows (\<lambda>r. Some (pp_question_type_id r)) ids q2 else q2)
                    else q2)
      in q3)"

definition fetchRandomQuestions ::
  "(PastPaperRow list \<Rightarrow> PastPaperRow list) \<Rightarrow> gen_world \<Rightarrow> string \<Rightarrow> string option
     \<Rightarrow> string list option \<Rightarrow> int \<Rightarrow> QuestionType list \<Rightarrow> error + PastPaperRow list" where
  "fetchRandomQuestions shuffle w subject topic questionTypeNames limit questionTypes =
     (case gw_error w ''pastpapers'' of
        Some m \<Rightarrow> Inl (Error (''Failed to fetch questions: '' @ m))
      | None \<Rightarrow>
          (let data = pastpaper_query subject topic questionTypeNames questionTypes
                        (gw_pastpapers w)
           in if length data = 0 then Inl (Error ''No questions found matching the criteria'')
              else Inr (slice0 (shuffle data) (min limit (int (length data))))))"

text \<open>\<open>.single()\<close> answers with an error unless exactly one row matches.\<close>

definition fetchTextbookContent :: "gen_world \<Rightarrow> string \<Rightarrow> string \<Rightarrow> error + TextbookContent" where
  "fetchTextbookContent w subject topic =
     (case gw_error w ''textbooks'' of
        Some m \<Rightarrow> Inl (Error (''Failed to fetch textbook content: '' @ m))
      | None \<Rightarrow>
          (case eq_rows tb_topic topic (eq_rows tb_subject subject (gw_textbooks w)) of
             [row] \<Rightarrow> Inr row
           | _ \<Rightarrow> Inl (Error (''Failed to fetch textbook content: '' @ gw_single_error w))))"

text \<open>
  \<open>generateObject\<close> of the AI SDK: the model's answer, rejected as a whole when an item
  violates the schema.  For \<open>MCQSchema\<close> the typed fields leave two constraints to check:
  the answer label and the difficulty range.
\<close>

definition generateObject ::
  "('p \<Rightarrow> error + 'o list) \<Rightarrow> ('o \<Rightarrow> bool) \<Rightarrow> string \<Rightarrow> 'p \<Rightarrow> error + 'o list" where
  "generateObject model schema_ok violation prompt =
     (case model prompt of
        Inl e \<Rightarrow> Inl e
      | Inr objs \<Rightarrow> if list_all schema_ok objs then Inr objs else Inl (Error violation))"

definition MCQSchema :: "GeneratedMCQ \<Rightarrow> bool" where
  "MCQSchema m =
     (g_correct_answer m \<in> set [''A'', ''B'', ''C'', ''D'']
      \<and> 1 \<le> g_difficulty m \<and> g_difficulty m \<le> 5)"

definition generateMCQs_prompt ::
  "TextbookContent \<Rightarrow> PastPaperRow list \<Rightarrow> int \<Rightarrow> difficulty_mode \<Rightarrow> QuestionType list
     \<Rightarrow> gen_prompt" where
  "generateMCQs_prompt textbookContent sampleQuestions numberOfMCQs difficulty questionTypes =
     \<lparr>p_numberOfMCQs = numberOfMCQs,
      p_topic = tb_topic textbookContent,
      p_content = tb_content textbookContent,
      p_questionsContext =
        map (\<lambda>(idx, q). (idx + 1, pp_question q, pp_answer q, pp_explanation q, pp_difficulty q))
            (enumerate 0 sampleQuestions),
      p_questionTypesList = map qt_name questionTypes,
      p_guidance = difficultyGuidance difficulty\<rparr>"

text \<open>\<open>generateMCQs\<close>: one call; the \<open>catch\<close> logs and rethrows; the object is returned as is.\<close>

definition generateMCQs ::
  "gen_world \<Rightarrow> TextbookContent \<Rightarrow> PastPaperRow list \<Rightarrow> int \<Rightarrow> difficulty_mode
     \<Rightarrow> QuestionType list \<Rightarrow> error + GeneratedMCQ list" where
  "generateMCQs w textbookContent sampleQuestions numberOfMCQs difficulty questionTypes =
     generateObject (gw_model w) MCQSchema (gw_schema_error w)
       (generateMCQs_prompt textbookContent sampleQuestions numberOfMCQs difficulty questionTypes)"

definition mcq_block :: "nat \<times> GeneratedMCQ \<Rightarrow> string" where
  "mcq_block = (\<lambda>(index, mcq).
     ''Question '' @ show_nat (index + 1) @ '':'' @ newline
     @ g_question mcq @ newline @ newline
     @ ''A. '' @ opt_A (g_options mcq) @ newline
     @ ''B. '' @ opt_B (g_options mcq) @ newline
     @ ''C. '' @ opt_C (g_options mcq) @ newline
     @ ''D. '' @ opt_D (g_options mcq) @ newline @ newline
     @ ''Correct Answer: '' @ g_correct_answer mcq @ newline
     @ ''Difficulty: '' @ show_int (g_difficulty mcq) @ ''/5'' @ newline
     @ ''Topic: '' @ g_topic mcq @ newline
     @ ''Question Type: '' @ g_question_type_name mcq @ newline
     @ ''Explanation: '' @ g_explanation mcq @ newline
     @ replicate 80 (CHR ''-'') @ newline @ newline)"

definition mcq_file_content :: "string \<Rightarrow> gen_CONFIG \<Rightarrow> GeneratedMCQ list \<Rightarrow> string" where
  "mcq_file_content now config mcqs =
     ''=== GENERATED MCQ QUESTIONS ==='' @ newline
     @ ''Generated: '' @ now @ newline
     @ ''Topic: '' @ or_else (gc_topic config) ''All topics'' @ newline
     @ ''Question Types: ''
     @ or_else (map_option (join '', '') (gc_questionTypes config)) ''All types'' @ newline
     @ ''Total Questions: '' @ show_nat (length mcqs) @ newline
     @ replicate 80 (CHR ''='') @ newline @ newline
     @ concat (map mcq_block (enumerate 0 mcqs))"

definition saveMCQsToFile :: "gen_world \<Rightarrow> GeneratedMCQ list \<Rightarrow> gen_CONFIG \<Rightarrow> error + string" where
  "saveMCQsToFile w mcqs config =
     (case gw_write_error w of
        Some m \<Rightarrow> Inl (Error m)
      | None \<Rightarrow> Inr (mcq_file_content (gw_now w) config mcqs))"

record gen_result =
  gr_sampleQuestions :: "PastPaperRow list"
  gr_generatedMCQs :: "GeneratedMCQ list"
  gr_file :: string

text \<open>\<open>generateMCQQuestions\<close>, steps 1 to 5, with the calls it makes.\<close>

definition generateMCQQuestions ::
  "gen_CONFIG \<Rightarrow> (PastPaperRow list \<Rightarrow> PastPaperRow list) \<Rightarrow> gen_world \<Rightarrow> gen_result run" where
  "generateMCQQuestions cfg shuffle w =
     then_run ([StoreQuery ''question_types''],
               fetchQuestionTypes (gw_error w) (gw_question_types w) (gc_subject cfg))
     (\<lambda>questionTypes.
     then_run ([StoreQuery ''pastpapers''],
               fetchRandomQuestions shuffle w (gc_subject cfg) (gc_topic cfg)
                 (gc_questionTypes cfg) (gc_numberOfQuestions cfg) questionTypes)
     (\<lambda>sampleQuestions.
       if \<not> truthy (gc_topic cfg)
       then ([], Inl (Error ''Topic must be specified for textbook content retrieval''))
       else
         then_run ([StoreQuery ''textbooks''],
                   fetchTextbookContent w (gc_subject cfg) (the (gc_topic cfg)))
         (\<lambda>textbookContent.
         then_run ([Generate],
                   generateMCQs w textbookContent sampleQuestions
                     (gc_numberOfMCQsToGenerate cfg) (gc_difficulty cfg) questionTypes)
         (\<lambda>generatedMCQs.
         then_run ([FileWrite (gc_outputFile cfg)], saveMCQsToFile w generatedMCQs cfg)
         (\<lambda>file.
           ([], Inr \<lparr>gr_sampleQuestions = sampleQuestions,
                     gr_generatedMCQs = generatedMCQs, gr_file = file\<rparr>))))))"

text \<open>The script: the credential checks at module load, then \<open>generateMCQQuestions\<close>.\<close>

definition generator_script ::
  "environment \<Rightarrow> gen_CONFIG \<Rightarrow> (PastPaperRow list \<Rightarrow> PastPaperRow list) \<Rightarrow> gen_world
     \<Rightarrow> gen_result run" where
  "generator_script env cfg shuffle w =
     (if \<not> truthy (SUPABASE_URL env) \<or> \<not> truthy (SUPABASE_ANON_KEY env)
      then ([], Inl (Error ''Missing SUPABASE_URL or SUPABASE_ANON_KEY in environment variables''))
      else if \<not> truthy (OPENAI_API_KEY env)
      then ([], Inl (Error ''Missing OPENAI_API_KEY in environment variables''))
      else generateMCQQuestions cfg shuffle w)"

section \<open>Past paper uploader (src/src/upload-pastpapers.ts)\<close>

text \<open>A candidate as the extraction model returns it (type \<open>PastPaperQuestion\<close>).\<close>

record PastPaperQuestion =
  q_topic :: string
  q_question :: string
  q_answer :: string
  q_question_number :: int
  q_question_year :: int
  q_subject :: string
  q_explanation :: string
  q_difficulty :: int
  q_grade_level :: string
  q_question_type_name :: string

text \<open>
  \<open>PastPaperRecord\<close>: the candidate's fields without \<open>question_type_name\<close>, with the
  resolved id, the embedding and the metadata object (its keys in insertion order).
\<close>

record PastPaperRecord =
  r_topic :: string
  r_question :: string
  r_answer :: string
  r_question_number :: int
  r_question_year :: int
  r_subject :: string
  r_explanation :: string
  r_difficulty :: int
  r_grade_level :: string
  r_question_type_id :: string
  r_embedding :: "real list"
  r_metadata :: "(string \<times> string) list"

record Topic =
  t_topic :: string
  t_subject :: string

record ext_CONFIG =
  xc_subject :: string
  xc_gradeLevel :: string
  xc_pastpapersFolder :: string
  xc_outputFile :: string

text \<open>
  The extraction prompt is fixed Chinese wording around the two closed lists, sent with
  the image as a data URL; the model keeps the lists and the URL.
\<close>

record ocr_prompt =
  o_topicsList :: "string list"
  o_questionTypesList :: "string list"
  o_image :: string

text \<open>
  What the uploader's run depends on: the two vocabularies, the store's errors on queries
  and on the insert of a record, the directory listing, the image files (read as base64),
  the extraction model (before schema validation), the embedding model, the failure (if
  any) of the report's write, the clock, and the Node functions \<open>path.join\<close>,
  \<open>path.basename\<close> and \<open>JSON.stringify(_, null, 2)\<close>.
\<close>

record ext_world =
  xw_question_types :: "QuestionType list"
  xw_textbooks :: "Topic list"
  xw_error :: "string \<Rightarrow> string option"
  xw_insert_error :: "PastPaperRecord \<Rightarrow> string option"
  xw_readdir :: "string \<Rightarrow> error + string list"
  xw_readFile :: "string \<Rightarrow> error + string"
  xw_model :: "ocr_prompt \<Rightarrow> error + PastPaperQuestion list"
  xw_schema_error :: string
  xw_embed :: "string \<Rightarrow> error + real list"
  xw_write_error :: "string option"
  xw_now :: string
  xw_path_join :: "string \<Rightarrow> string \<Rightarrow> string"
  xw_path_basename :: "string \<Rightarrow> string"
  xw_JSON_stringify :: "(string \<times> string) list \<Rightarrow> string"

definition fetchTopics :: "ext_world \<Rightarrow> string \<Rightarrow> error + Topic list" where
  "fetchTopics w subject =
     (case xw_error w ''textbooks'' of
        Some m \<Rightarrow> Inl (Error (''Failed to fetch topics: '' @ m))
      | None \<Rightarrow> Inr (eq_rows t_subject subject (xw_textbooks w)))"

definition endsWith :: "string \<Rightarrow> string \<Rightarrow> bool" where
  "endsWith s suffix =
     (length suffix \<le> length s \<and> drop (length s - length suffix) s = suffix)"

definition PastPaperQuestionSchema :: "PastPaperQuestion \<Rightarrow> bool" where
  "PastPaperQuestionSchema q = (1 \<le> q_difficulty q \<and> q_difficulty q \<le> 5)"

text \<open>\<open>performOCR\<close>: read the image, call the model; the \<open>catch\<close> logs and rethrows.\<close>

definition performOCR ::
  "ext_world \<Rightarrow> string \<Rightarrow> QuestionType list \<Rightarrow> Topic list \<Rightarrow> PastPaperQuestion list run" where
  "performOCR w imagePath questionTypes topics =
     then_run ([ReadFile imagePath], xw_readFile w imagePath)
     (\<lambda>base64Image.
       (let mimeType = (if endsWith imagePath ''.png'' then ''image/png'' else ''image/jpeg'')
        in ([Extract imagePath],
            generateObject (xw_model w) PastPaperQuestionSchema (xw_schema_error w)
              \<lparr>o_topicsList = map t_topic topics,
               o_questionTypesList = map qt_name questionTypes,
               o_image = ''data:'' @ mimeType @ '';base64,'' @ base64Image\<rparr>)))"

text \<open>\<open>generateEmbedding\<close>: the embedding model's answer; the \<open>catch\<close> logs and rethrows.\<close>

definition generateEmbedding :: "ext_world \<Rightarrow> string \<Rightarrow> (real list) run" where
  "generateEmbedding w input = ([Embed input], xw_embed w input)"

definition readImageFiles :: "ext_world \<Rightarrow> string \<Rightarrow> error + string list" where
  "readImageFiles w folderPath =
     (case xw_readdir w folderPath of
        Inl e \<Rightarrow> Inl e
      | Inr files \<Rightarrow>
          (let imageFiles = filter (\<lambda>file. endsWith file ''.jpg'' \<or> endsWith file ''.jpeg''
                                            \<or> endsWith file ''.png'') files
           in if length imageFiles = 0 then Inr []
              else Inr (map (xw_path_join w folderPath) imageFiles)))"

definition mapQuestionTypeToId :: "string \<Rightarrow> QuestionType list \<Rightarrow> error + string" where
  "mapQuestionTypeToId questionTypeName questionTypes =
     (case find (\<lambda>qt. qt_name qt = questionTypeName) questionTypes of
        None \<Rightarrow> Inl (Error (''Question type '' @ [CHR 0x22] @ questionTypeName @ [CHR 0x22]
                            @ '' not found in available types''))
      | Some questionType \<Rightarrow> Inr (qt_id questionType))"

text \<open>
  \<open>uploadToSupabase\<close>: one insert per record, the row built field by field from the
  record; a failed insert is caught, counted and the loop goes on.
\<close>

record upload_state =
  ins_rows :: "PastPaperRecord list"
  ins_successCount :: nat
  ins_errorCount :: nat
  ins_calls :: "effect list"

definition pastpaper_row :: "PastPaperRecord \<Rightarrow> PastPaperRecord" where
  "pastpaper_row question =
     \<lparr>r_topic = r_topic question, r_question = r_question question,
      r_answer = r_answer question, r_question_number = r_question_number question,
      r_question_year = r_question_year question, r_subject = r_subject question,
      r_explanation = r_explanation question, r_difficulty = r_difficulty question,
      r_grade_level = r_grade_level question,
      r_question_type_id = r_question_type_id question,
      r_embedding = r_embedding question, r_metadata = r_metadata question\<rparr>"

fun uploadToSupabase :: "ext_world \<Rightarrow> PastPaperRecord list \<Rightarrow> upload_state \<Rightarrow> upload_state" where
  "uploadToSupabase w [] u = u"
| "uploadToSupabase w (question # questions) u =
     uploadToSupabase w questions
       (case xw_insert_error w (pastpaper_row question) of
          Some m \<Rightarrow> u\<lparr>ins_errorCount := ins_errorCount u + 1,
                      ins_calls := ins_calls u @ [StoreInsert ''pastpapers'']\<rparr>
        | None \<Rightarrow> u\<lparr>ins_rows := ins_rows u @ [pastpaper_row question],
                    ins_successCount := ins_successCount u + 1,
                    ins_calls := ins_calls u @ [StoreInsert ''pastpapers'']\<rparr>)"

text \<open>\<open>saveToReviewFile\<close>: the text of the report, then the write.\<close>

definition review_block :: "ext_world \<Rightarrow> nat \<times> PastPaperRecord \<Rightarrow> string" where
  "review_block w = (\<lambda>(index, q).
     ''Question '' @ show_nat (index + 1) @ '':'' @ newline
     @ ''  Topic: '' @ r_topic q @ newline
     @ ''  Year: '' @ show_int (r_question_year q) @ newline
     @ ''  Question Number: '' @ show_int (r_question_number q) @ newline
     @ ''  Subject: '' @ r_subject q @ newline
     @ ''  Grade Level: '' @ r_grade_level q @ newline
     @ ''  Question Type ID: '' @ r_question_type_id q @ newline
     @ ''  Difficulty: '' @ show_int (r_difficulty q) @ ''/5'' @ newline
     @ ''  Explanation: '' @ r_explanation q @ newline
     @ ''  Question:'' @ r_question q @ newline
     @ ''  Answer:'' @ r_answer q @ newline
     @ ''  Metadata: '' @ xw_JSON_stringify w (r_metadata q) @ newline
     @ replicate 80 (CHR ''-'') @ newline @ newline)"

definition review_file_content :: "ext_world \<Rightarrow> PastPaperRecord list \<Rightarrow> string" where
  "review_file_content w questions =
     ''=== EXTRACTED PAST PAPER QUESTIONS ==='' @ newline
     @ ''Total Questions: '' @ show_nat (length questions) @ newline
     @ ''Generated: '' @ xw_now w @ newline
     @ replicate 80 (CHR ''='') @ newline @ newline
     @ concat (map (review_block w) (enumerate 0 questions))"

definition saveToReviewFile :: "ext_world \<Rightarrow> PastPaperRecord list \<Rightarrow> error + string" where
  "saveToReviewFile w questions =
     (case xw_write_error w of
        Some m \<Rightarrow> Inl (Error m)
      | None \<Rightarrow> Inr (review_file_content w questions))"

text \<open>
  The batch loop of \<open>processAndExtractQuestions\<close>.  \<open>progress\<close> holds the loop's
  variables, what \<open>console.error\<close> reported in the two \<open>catch\<close> blocks, and the calls made.
\<close>

datatype failure = QuestionFailure int error | ImageFailure string error

record progress =
  allRecords :: "PastPaperRecord list"
  successCount :: nat
  errorCount :: nat
  reported :: "failure list"
  calls :: "effect list"

definition grounding_text :: "PastPaperQuestion \<Rightarrow> string" where
  "grounding_text question =
     q_question question @ newline @ q_answer question @ newline @ q_explanation question"

text \<open>The body of the inner \<open>try\<close>: one candidate.\<close>

definition processQuestion ::
  "ext_CONFIG \<Rightarrow> ext_world \<Rightarrow> QuestionType list \<Rightarrow> string \<Rightarrow> PastPaperQuestion
     \<Rightarrow> PastPaperRecord run" where
  "processQuestion cfg w questionTypes filename question =
     then_run ([], mapQuestionTypeToId (q_question_type_name question) questionTypes)
     (\<lambda>questionTypeId.
     then_run (generateEmbedding w (grounding_text question))
     (\<lambda>embedding.
       ([], Inr \<lparr>r_topic = q_topic question,
                 r_question = q_question question,
                 r_answer = q_answer question,
                 r_question_number = q_question_number question,
                 r_question_year = q_question_year question,
                 r_subject = xc_subject cfg,
                 r_explanation = q_explanation question,
                 r_difficulty = q_difficulty question,
                 r_grade_level = xc_gradeLevel cfg,
                 r_question_type_id = questionTypeId,
                 r_embedding = embedding,
                 r_metadata = [(''source_image'', filename),
                               (''extracted_at'', xw_now w),
                               (''question_type_name'', q_question_type_name question)]\<rparr>)))"

text \<open>The inner loop with its \<open>try\<close>/\<open>catch\<close>.\<close>

fun processQuestions ::
  "ext_CONFIG \<Rightarrow> ext_world \<Rightarrow> QuestionType list \<Rightarrow> string \<Rightarrow> PastPaperQuestion list
     \<Rightarrow> progress \<Rightarrow> progress" where
  "processQuestions cfg w questionTypes filename [] p = p"
| "processQuestions cfg w questionTypes filename (question # rest) p =
     processQuestions cfg w questionTypes filename rest
       (case processQuestion cfg w questionTypes filename question of
          (t, Inr newRecord) \<Rightarrow>
            p\<lparr>allRecords := allRecords p @ [newRecord], calls := calls p @ t\<rparr>
        | (t, Inl e) \<Rightarrow>
            p\<lparr>errorCount := errorCount p + 1,
              reported := reported p @ [QuestionFailure (q_question_number question) e],
              calls := calls p @ t\<rparr>)"

text \<open>The outer loop with its \<open>try\<close>/\<open>catch\<close>.\<close>

fun processImages ::
  "ext_CONFIG \<Rightarrow> ext_world \<Rightarrow> QuestionType list \<Rightarrow> Topic list \<Rightarrow> string list
     \<Rightarrow> progress \<Rightarrow> progress" where
  "processImages cfg w questionTypes topics [] p = p"
| "processImages cfg w questionTypes topics (imagePath # rest) p =
     processImages cfg w questionTypes topics rest
       (let filename = xw_path_basename w imagePath
        in case performOCR w imagePath questionTypes topics of
             (t, Inr extractedData) \<Rightarrow>
               (let p' = processQuestions cfg w questionTypes filename extractedData
                           (p\<lparr>calls := calls p @ t\<rparr>)
                in p'\<lparr>successCount := successCount p' + 1\<rparr>)
           | (t, Inl e) \<Rightarrow>
               p\<lparr>errorCount := errorCount p + 1,
                 reported := reported p @ [ImageFailure (xw_path_basename w imagePath) e],
                 calls := calls p @ t\<rparr>)"

definition initial_progress :: progress where
  "initial_progress =
     \<lparr>allRecords = [], successCount = 0, errorCount = 0, reported = [], calls = []\<rparr>"

definition initial_upload :: upload_state where
  "initial_upload = \<lparr>ins_rows = [], ins_successCount = 0, ins_errorCount = 0, ins_calls = []\<rparr>"

text \<open>
  What a run that returns leaves behind: the loop's variables, the text of the report
  when it was written, and the outcome of the upload.
\<close>

record ext_result =
  xr_progress :: progress
  xr_review_file :: "string option"
  xr_upload :: upload_state

definition processAndExtractQuestions :: "ext_CONFIG \<Rightarrow> ext_world \<Rightarrow> ext_result run" where
  "processAndExtractQuestions cfg w =
     then_run ([StoreQuery ''question_types''],
               fetchQuestionTypes (xw_error w) (xw_question_types w) (xc_subject cfg))
     (\<lambda>questionTypes.
     then_run ([StoreQuery ''textbooks''], fetchTopics w (xc_subject cfg))
     (\<lambda>topics.
     then_run ([ReadDir (xc_pastpapersFolder cfg)], readImageFiles w (xc_pastpapersFolder cfg))
     (\<lambda>imageFiles.
       if length imageFiles = 0
       then ([], Inr \<lparr>xr_progress = initial_progress, xr_review_file = None,
                      xr_upload = initial_upload\<rparr>)
       else
         (let p = processImages cfg w questionTypes topics imageFiles initial_progress
          in then_run (calls p, Inr p)
             (\<lambda>p.
               if length (allRecords p) > 0
               then
                 then_run ([FileWrite (xc_outputFile cfg)], saveToReviewFile w (allRecords p))
                 (\<lambda>file.
                   (let u = uploadToSupabase w (allRecords p) initial_upload
                    in (ins_calls u,
                        Inr \<lparr>xr_progress = p, xr_review_file = Some file, xr_upload = u\<rparr>)))
               else ([], Inr \<lparr>xr_progress = p, xr_review_file = None,
                              xr_upload = initial_upload\<rparr>))))))"

text \<open>The script: the credential checks at module load, then the run.\<close>

definition uploader_script :: "environment \<Rightarrow> ext_CONFIG \<Rightarrow> ext_world \<Rightarrow> ext_result run" where
  "uploader_script env cfg w =
     (if \<not> truthy (SUPABASE_URL env) \<or> \<not> truthy (SUPABASE_ANON_KEY env)
      then ([], Inl (Error ''Missing SUPABASE_URL or SUPABASE_ANON_KEY in environment variables''))
      else if \<not> truthy (OPENAI_API_KEY env)
      then ([], Inl (Error ''Missing OPENAI_API_KEY in environment variables''))
      else processAndExtractQuestions cfg w)"

section \<open>Textbook uploader (src/src/upload.ts)\<close>

record TextbookRecord =
  tr_topic :: string
  tr_content :: string
  tr_subject :: string
  tr_grade_level :: "string option"
  tr_embedding :: "real list"
  tr_metadata :: "(string \<times> string) list"

record up_CONFIG =
  uc_subject :: string
  uc_gradeLevel :: string
  uc_textbooksFolder :: string
  uc_metadata :: "(string \<times> string) list"

text \<open>
  What the textbook uploader's run depends on: the directory listing, the files, the text
  model, the fixed Chinese instruction that precedes the content in the summarising prompt
  (up to and including the blank line), the embedding model, the store's error on the
  insert of a record, the clock, and the Node functions \<open>path.join\<close> and
  \<open>path.basename(_, ext)\<close>.
\<close>

record up_world =
  uw_readdir :: "string \<Rightarrow> error + string list"
  uw_readFile :: "string \<Rightarrow> error + string"
  uw_generateText :: "string \<Rightarrow> error + string"
  uw_instruction :: string
  uw_embed :: "string \<Rightarrow> error + real list"
  uw_insert_error :: "TextbookRecord \<Rightarrow> string option"
  uw_now :: string
  uw_path_join :: "string \<Rightarrow> string \<Rightarrow> string"
  uw_path_basename :: "string \<Rightarrow> string \<Rightarrow> string"

text \<open>Setting a key of an object or of a \<open>Map\<close>: an existing key keeps its place.\<close>

fun set_key :: "string \<Rightarrow> 'v \<Rightarrow> (string \<times> 'v) list \<Rightarrow> (string \<times> 'v) list" where
  "set_key k v [] = [(k, v)]"
| "set_key k v ((k', v') # kvs) =
     (if k' = k then (k, v) # kvs else (k', v') # set_key k v kvs)"

definition summarizeContent :: "up_world \<Rightarrow> string \<Rightarrow> string run" where
  "summarizeContent w content = ([Summarize], uw_generateText w (uw_instruction w @ content))"

definition up_generateEmbedding :: "up_world \<Rightarrow> string \<Rightarrow> (real list) run" where
  "up_generateEmbedding w input = ([Embed input], uw_embed w input)"

definition extractTopicFromFilename :: "up_world \<Rightarrow> string \<Rightarrow> string" where
  "extractTopicFromFilename w filename = uw_path_basename w filename ''.txt''"

text \<open>The reading loop of \<open>readTextbookFiles\<close>: a file that cannot be read ends the run.\<close>

fun read_files ::
  "up_world \<Rightarrow> string \<Rightarrow> string list \<Rightarrow> (string \<times> string) list \<Rightarrow> ((string \<times> string) list) run" where
  "read_files w folderPath [] textbooks = ([], Inr textbooks)"
| "read_files w folderPath (file # files) textbooks =
     then_run ([ReadFile (uw_path_join w folderPath file)],
               uw_readFile w (uw_path_join w folderPath file))
     (\<lambda>content. read_files w folderPath files (set_key file content textbooks))"

definition readTextbookFiles :: "up_world \<Rightarrow> string \<Rightarrow> ((string \<times> string) list) run" where
  "readTextbookFiles w folderPath =
     then_run ([ReadDir folderPath], uw_readdir w folderPath)
     (\<lambda>files.
       (let txtFiles = filter (\<lambda>file. endsWith file ''.txt'') files
        in if length txtFiles = 0 then ([], Inr [])
           else read_files w folderPath txtFiles []))"

definition uploadTextbook :: "up_world \<Rightarrow> TextbookRecord \<Rightarrow> TextbookRecord run" where
  "uploadTextbook w rec =
     ([StoreInsert ''textbooks''],
      (case uw_insert_error w
              \<lparr>tr_topic = tr_topic rec, tr_content = tr_content rec,
               tr_subject = tr_subject rec, tr_grade_level = tr_grade_level rec,
               tr_embedding = tr_embedding rec, tr_metadata = tr_metadata rec\<rparr> of
         Some m \<Rightarrow> Inl (Error (''Failed to upload textbook: '' @ m))
       | None \<Rightarrow>
           Inr \<lparr>tr_topic = tr_topic rec, tr_content = tr_content rec,
                tr_subject = tr_subject rec, tr_grade_level = tr_grade_level rec,
                tr_embedding = tr_embedding rec, tr_metadata = tr_metadata rec\<rparr>))"

text \<open>The body of the \<open>try\<close> in the loop: one file, up to its insert; the result is the
  row the store received.\<close>

definition processTextbook ::
  "up_CONFIG \<Rightarrow> up_world \<Rightarrow> string \<Rightarrow> string \<Rightarrow> TextbookRecord run" where
  "processTextbook cfg w filename content =
     (let topic = extractTopicFromFilename w filename
      in then_run (summarizeContent w content)
         (\<lambda>summary.
         then_run (up_generateEmbedding w summary)
         (\<lambda>embedding.
           uploadTextbook w
             \<lparr>tr_topic = topic,
              tr_content = content,
              tr_subject = uc_subject cfg,
              tr_grade_level = (if uc_gradeLevel cfg \<noteq> [] then Some (uc_gradeLevel cfg) else None),
              tr_embedding = embedding,
              tr_metadata =
                set_key ''uploadedAt'' (uw_now w)
                  (set_key ''summary'' summary
                    (set_key ''filename'' filename (uc_metadata cfg)))\<rparr>)))"

record up_progress =
  tp_uploaded :: "TextbookRecord list"
  tp_successCount :: nat
  tp_errorCount :: nat
  tp_reported :: "(string \<times> error) list"
  tp_calls :: "effect list"

fun processTextbooks ::
  "up_CONFIG \<Rightarrow> up_world \<Rightarrow> (string \<times> string) list \<Rightarrow> up_progress \<Rightarrow> up_progress" where
  "processTextbooks cfg w [] p = p"
| "processTextbooks cfg w ((filename, content) # rest) p =
     processTextbooks cfg w rest
       (case processTextbook cfg w filename content of
          (t, Inr row) \<Rightarrow>
            p\<lparr>tp_uploaded := tp_uploaded p @ [row],
              tp_successCount := tp_successCount p + 1,
              tp_calls := tp_calls p @ t\<rparr>
        | (t, Inl e) \<Rightarrow>
            p\<lparr>tp_errorCount := tp_errorCount p + 1,
              tp_reported := tp_reported p @ [(filename, e)],
              tp_calls := tp_calls p @ t\<rparr>)"

definition initial_up_progress :: up_progress where
  "initial_up_progress =
     \<lparr>tp_uploaded = [], tp_successCount = 0, tp_errorCount = 0, tp_reported = [],
      tp_calls = []\<rparr>"

definition processAndUploadTextbooks :: "up_CONFIG \<Rightarrow> up_world \<Rightarrow> up_progress run" where
  "processAndUploadTextbooks cfg w =
     then_run (readTextbookFiles w (uc_textbooksFolder cfg))
     (\<lambda>textbooks.
       if length textbooks = 0 then ([], Inr initial_up_progress)
       else
         (let p = processTextbooks cfg w textbooks initial_up_progress
          in (tp_calls p, Inr p)))"

definition textbook_script :: "environment \<Rightarrow> up_CONFIG \<Rightarrow> up_world \<Rightarrow> up_progress run" where
  "textbook_script env cfg w =
     (if \<not> truthy (SUPABASE_URL env) \<or> \<not> truthy (SUPABASE_ANON_KEY env)
      then ([], Inl (Error ''Missing SUPABASE_URL or SUPABASE_ANON_KEY in environment variables''))
      else if \<not> truthy (OPENAI_API_KEY env)
      then ([], Inl (Error ''Missing OPENAI_API_KEY in environment variables''))
      else processAndUploadTextbooks cfg w)"

section \<open>Vocabulary of the properties\<close>

text \<open>
  A row matches the filters of the set creator when it satisfies every filter that is in
  force: the subject and topic filters when they are set, the type filter when its name
  list is non-empty and resolves to at least one id, the difficulty band when one is given.
\<close>

definition mcq_matches :: "filters \<Rightarrow> QuestionType list \<Rightarrow> int list option \<Rightarrow> MCQ \<Rightarrow> bool" where
  "mcq_matches fs questionTypes difficultyLevels r =
     ((truthy (f_subject fs) \<longrightarrow> mcq_subject r = the (f_subject fs))
      \<and> (truthy (f_topic fs) \<longrightarrow> mcq_topic r = the (f_topic fs))
      \<and> (\<forall>names. f_questionTypeNames fs = Some names
             \<and> names \<noteq> [] \<and> questionTypeIds questionTypes names \<noteq> [] \<longrightarrow>
             (\<exists>i. mcq_question_type_id r = Some i
                  \<and> i \<in> set (questionTypeIds questionTypes names)))
      \<and> (\<forall>levels. difficultyLevels = Some levels \<and> levels \<noteq> [] \<longrightarrow>
             (\<exists>d. mcq_difficulty r = Some d \<and> d \<in> set levels)))"

text \<open>The same for the generator's sampling, whose subject filter is always in force.\<close>

definition pastpaper_matches ::
  "string \<Rightarrow> string option \<Rightarrow> string list option \<Rightarrow> QuestionType list \<Rightarrow> PastPaperRow \<Rightarrow> bool" where
  "pastpaper_matches subject topic questionTypeNames questionTypes r =
     (pp_subject r = subject
      \<and> (truthy topic \<longrightarrow> pp_topic r = the topic)
      \<and> (\<forall>names. questionTypeNames = Some names
             \<and> names \<noteq> [] \<and> questionTypeIds questionTypes names \<noteq> [] \<longrightarrow>
             pp_question_type_id r \<in> set (questionTypeIds questionTypes names)))"

text \<open>The vocabulary \<open>main\<close> has in hand after its step 1, when the store answers.\<close>

definition main_questionTypes :: "CONFIG \<Rightarrow> store \<Rightarrow> QuestionType list" where
  "main_questionTypes cfg st =
     (if f_questionTypeNames (cfg_filters cfg) \<noteq> None \<or> truthy (f_subject (cfg_filters cfg))
      then eq_rows qt_subject (setSubject cfg) (st_question_types st) else [])"

text \<open>Ascending difficulty with an absent difficulty last.\<close>

definition difficulty_le :: "int option \<Rightarrow> int option \<Rightarrow> bool" where
  "difficulty_le a b =
     (case b of None \<Rightarrow> True | Some y \<Rightarrow> (case a of None \<Rightarrow> False | Some x \<Rightarrow> x \<le> y))"

text \<open>
  A difficulty that the sentinel of \<open>linkMCQsToSet\<close> orders as its value: absent, or
  present, not \<open>0\<close> and below \<open>999\<close>.  Every difficulty of the data model (1 to 5) is.
\<close>

definition sentinel_safe :: "int option \<Rightarrow> bool" where
  "sentinel_safe d = (case d of None \<Rightarrow> True | Some n \<Rightarrow> n \<noteq> 0 \<and> n < 999)"

text \<open>
  Outcomes of the extraction loop, candidate by candidate: the outcome of one candidate is
  that of \<open>processQuestion\<close> on it alone; the records of an image are those of its
  candidates that succeed, in order; its failures are its failed candidates, or the image
  itself when the extraction call fails.
\<close>

definition outcomes ::
  "ext_CONFIG \<Rightarrow> ext_world \<Rightarrow> QuestionType list \<Rightarrow> string \<Rightarrow> PastPaperQuestion list
     \<Rightarrow> (error + PastPaperRecord) list" where
  "outcomes cfg w questionTypes filename qs =
     map (\<lambda>q. snd (processQuestion cfg w questionTypes filename q)) qs"

definition successes :: "(error + 'a) list \<Rightarrow> 'a list" where
  "successes rs = concat (map (\<lambda>r. case r of Inl _ \<Rightarrow> [] | Inr x \<Rightarrow> [x]) rs)"

definition image_records ::
  "ext_CONFIG \<Rightarrow> ext_world \<Rightarrow> QuestionType list \<Rightarrow> Topic list \<Rightarrow> string \<Rightarrow> PastPaperRecord list" where
  "image_records cfg w questionTypes topics imagePath =
     (case snd (performOCR w imagePath questionTypes topics) of
        Inl _ \<Rightarrow> []
      | Inr qs \<Rightarrow> successes (outcomes cfg w questionTypes (xw_path_basename w imagePath) qs))"

definition image_failures ::
  "ext_CONFIG \<Rightarrow> ext_world \<Rightarrow> QuestionType list \<Rightarrow> Topic list \<Rightarrow> string \<Rightarrow> nat" where
  "image_failures cfg w questionTypes topics imagePath =
     (case snd (performOCR w imagePath questionTypes topics) of
        Inl _ \<Rightarrow> 1
      | Inr qs \<Rightarrow>
          length (filter isl (outcomes cfg w questionTypes (xw_path_basename w imagePath) qs)))"

text \<open>The text the embedding of a record was requested for.\<close>

definition record_text :: "PastPaperRecord \<Rightarrow> string" where
  "record_text r = r_question r @ newline @ r_answer r @ newline @ r_explanation r"

text \<open>The calls the loop makes for one image.\<close>

definition image_calls ::
  "ext_CONFIG \<Rightarrow> ext_world \<Rightarrow> QuestionType list \<Rightarrow> Topic list \<Rightarrow> string \<Rightarrow> effect list" where
  "image_calls cfg w questionTypes topics imagePath =
     fst (performOCR w imagePath questionTypes topics)
     @ (case snd (performOCR w imagePath questionTypes topics) of
          Inl _ \<Rightarrow> []
        | Inr qs \<Rightarrow>
            concat (map (\<lambda>q. fst (processQuestion cfg w questionTypes
                                     (xw_path_basename w imagePath) q)) qs))"

text \<open>A persistence attempt is an insert into the store.\<close>

fun is_insert :: "effect \<Rightarrow> bool" where
  "is_insert (StoreInsert table) = True"
| "is_insert _ = False"


section \<open>Sample data\<close>

definition sample_mcq :: "string \<Rightarrow> string \<Rightarrow> string \<Rightarrow> int option \<Rightarrow> string option \<Rightarrow> MCQ" where
  "sample_mcq i subject topic d qt =
     \<lparr>mcq_id = i, mcq_topic = topic, mcq_question = ''Q'', mcq_subject = subject,
      mcq_options = [(''A'', ''a''), (''B'', ''b''), (''C'', ''c''), (''D'', ''d'')],
      mcq_correct_answer = ''A'', mcq_explanation = ''E'', mcq_grade_level = None,
      mcq_difficulty = d, mcq_question_type_id = qt, mcq_source_material_ids = None,
      mcq_embedding = [], mcq_metadata = [], mcq_created_at = ''t0'', mcq_updated_at = ''t0''\<rparr>"

definition sample_store :: "MCQ list \<Rightarrow> QuestionType list \<Rightarrow> store" where
  "sample_store rows types =
     \<lparr>st_question_types = types, st_mcqs = rows, st_mcqsets = [], st_mcqset_questions = [],
      st_error = (\<lambda>_. None), st_new_id = ''set-1'', st_now = ''t1''\<rparr>"

definition sample_filters :: "string option \<Rightarrow> string option \<Rightarrow> string list option \<Rightarrow> int \<Rightarrow> filters" where
  "sample_filters subject topic names limit =
     \<lparr>f_topic = topic, f_questionTypeNames = names, f_subject = subject,
      f_difficultyDistribution = None, f_limit = limit\<rparr>"

definition sample_config :: "filters \<Rightarrow> CONFIG" where
  "sample_config fs =
     \<lparr>setTopic = ''T'', setDescription = ''daily practice'', setSubject = ''S'', cfg_filters = fs\<rparr>"

definition sample_types :: "QuestionType list" where
  "sample_types =
     [\<lparr>qt_id = ''q1'', qt_name = ''grammar'', qt_subject = ''S''\<rparr>,
      \<lparr>qt_id = ''q2'', qt_name = ''reading'', qt_subject = ''S''\<rparr>]"

definition sample_row :: "string \<Rightarrow> string \<Rightarrow> string \<Rightarrow> string \<Rightarrow> PastPaperRow" where
  "sample_row i subject topic qt =
     \<lparr>pp_id = i, pp_topic = topic, pp_question = ''Q'', pp_answer = ''A'',
      pp_question_number = 1, pp_question_year = 2023, pp_subject = subject,
      pp_explanation = ''E'', pp_difficulty = 3, pp_grade_level = ''DSE'',
      pp_question_type_id = qt\<rparr>"

definition sample_generated :: "int \<Rightarrow> GeneratedMCQ" where
  "sample_generated d =
     \<lparr>g_question = ''Q'',
      g_options = \<lparr>opt_A = ''a'', opt_B = ''b'', opt_C = ''c'', opt_D = ''d''\<rparr>,
      g_correct_answer = ''A'', g_explanation = ''E'', g_difficulty = d, g_topic = ''T'',
      g_question_type_name = ''grammar''\<rparr>"

definition sample_gen_world ::
  "PastPaperRow list \<Rightarrow> (gen_prompt \<Rightarrow> error + GeneratedMCQ list) \<Rightarrow> gen_world" where
  "sample_gen_world rows model =
     \<lparr>gw_question_types = sample_types, gw_pastpapers = rows,
      gw_textbooks = [\<lparr>tb_topic = ''T'', tb_content = ''body'', tb_subject = ''S''\<rparr>],
      gw_error = (\<lambda>_. None), gw_single_error = ''not a single row'', gw_model = model,
      gw_schema_error = ''schema violation'', gw_write_error = None, gw_now = ''t1''\<rparr>"

definition no_model :: "gen_prompt \<Rightarrow> error + GeneratedMCQ list" where
  "no_model prompt = Inl (Error ''model unavailable'')"

definition sample_gen_config :: "string option \<Rightarrow> difficulty_mode \<Rightarrow> int \<Rightarrow> gen_CONFIG" where
  "sample_gen_config topic mode n =
     \<lparr>gc_subject = ''S'', gc_topic = topic, gc_questionTypes = None, gc_numberOfQuestions = 5,
      gc_numberOfMCQsToGenerate = n, gc_difficulty = mode, gc_outputFile = ''out.txt''\<rparr>"

definition sample_env :: environment where
  "sample_env =
     \<lparr>SUPABASE_URL = Some ''https://db'', SUPABASE_ANON_KEY = Some ''key'',
      OPENAI_API_KEY = Some ''sk''\<rparr>"

definition link_example :: "MCQ list" where
  "link_example =
     [sample_mcq ''a'' ''S'' ''T'' (Some 3) None, sample_mcq ''b'' ''S'' ''T'' (Some 1) None,
      sample_mcq ''c'' ''S'' ''T'' (Some 5) None, sample_mcq ''d'' ''S'' ''T'' None None,
      sample_mcq ''e'' ''S'' ''T'' (Some 2) None]"

definition sample_question :: "int \<Rightarrow> string \<Rightarrow> PastPaperQuestion" where
  "sample_question n label =
     \<lparr>q_topic = ''T'', q_question = ''Q'', q_answer = ''A'', q_question_number = n,
      q_question_year = 2023, q_subject = ''model subject'', q_explanation = ''E'',
      q_difficulty = 3, q_grade_level = ''model grade'', q_question_type_name = label\<rparr>"

definition sample_ext_config :: ext_CONFIG where
  "sample_ext_config =
     \<lparr>xc_subject = ''S'', xc_gradeLevel = ''DSE'', xc_pastpapersFolder = ''images'',
      xc_outputFile = ''review.txt''\<rparr>"

text \<open>A world with one image whose extraction yields the given candidates; inserts fail
  for the records the predicate selects.\<close>

definition sample_ext_world ::
  "PastPaperQuestion list \<Rightarrow> (PastPaperRecord \<Rightarrow> bool) \<Rightarrow> ext_world" where
  "sample_ext_world qs rejects =
     \<lparr>xw_question_types = sample_types,
      xw_textbooks = [\<lparr>t_topic = ''T'', t_subject = ''S''\<rparr>],
      xw_error = (\<lambda>_. None),
      xw_insert_error = (\<lambda>r. if rejects r then Some ''insert refused'' else None),
      xw_readdir = (\<lambda>_. Inr [''p1.png'', ''notes.txt'']),
      xw_readFile = (\<lambda>_. Inr ''aGk=''),
      xw_model = (\<lambda>_. Inr qs),
      xw_schema_error = ''schema violation'',
      xw_embed = (\<lambda>_. Inr [1 / 2, 1]),
      xw_write_error = None,
      xw_now = ''t1'',
      xw_path_join = (\<lambda>folder file. folder @ ''/'' @ file),
      xw_path_basename = (\<lambda>p. rev (takeWhile (\<lambda>c. c \<noteq> CHR ''/'') (rev p))),
      xw_JSON_stringify = (\<lambda>kvs. concat (map (\<lambda>(k, v). k @ ''='' @ v @ '';'') kvs))\<rparr>"

definition rejects_all :: "PastPaperRecord \<Rightarrow> bool" where
  "rejects_all r = True"

definition rejects_none :: "PastPaperRecord \<Rightarrow> bool" where
  "rejects_none r = False"

definition three_candidates :: "PastPaperQuestion list" where
  "three_candidates =
     [sample_question 1 ''grammar'', sample_question 2 ''unknown type'',
      sample_question 3 ''reading'']"

definition sample_record :: "real list \<Rightarrow> PastPaperRecord" where
  "sample_record v =
     \<lparr>r_topic = ''T'', r_question = ''Q'', r_answer = ''A'', r_question_number = 1,
      r_question_year = 2023, r_subject = ''S'', r_explanation = ''E'', r_difficulty = 3,
      r_grade_level = ''DSE'', r_question_type_id = ''q1'', r_embedding = v,
      r_metadata = [(''source_image'', ''p1.png'')]\<rparr>"

text \<open>The record the uploader makes of \<open>sample_question n label\<close> in the sample world.\<close>

definition extracted_record :: "int \<Rightarrow> string \<Rightarrow> string \<Rightarrow> PastPaperRecord" where
  "extracted_record n label type_id =
     \<lparr>r_topic = ''T'', r_question = ''Q'', r_answer = ''A'', r_question_number = n,
      r_question_year = 2023, r_subject = ''S'', r_explanation = ''E'', r_difficulty = 3,
      r_grade_level = ''DSE'', r_question_type_id = type_id, r_embedding = [1 / 2, 1],
      r_metadata = [(''source_image'', ''p1.png''), (''extracted_at'', ''t1''),
                    (''question_type_name'', label)]\<rparr>"

definition sample_textbook :: TextbookContent where
  "sample_textbook = \<lparr>tb_topic = ''T'', tb_content = ''body'', tb_subject = ''S''\<rparr>"

text \<open>A generation model that answers every prompt with three items of difficulty 4, and
  one that returns as many items as the prompt asks for, at the low end of the range the
  prompt names.\<close>

definition three_hard_model :: "gen_prompt \<Rightarrow> error + GeneratedMCQ list" where
  "three_hard_model prompt = Inr [sample_generated 4, sample_generated 4, sample_generated 4]"

definition obedient_model :: "gen_prompt \<Rightarrow> error + GeneratedMCQ list" where
  "obedient_model prompt =
     Inr (replicate (nat (p_numberOfMCQs prompt))
            (sample_generated (case p_guidance prompt of AllWithin lo hi \<Rightarrow> lo | Balanced \<Rightarrow> 3)))"

definition no_credentials :: environment where
  "no_credentials = \<lparr>SUPABASE_URL = None, SUPABASE_ANON_KEY = Some ''key'', OPENAI_API_KEY = Some ''sk''\<rparr>"

definition no_openai_key :: environment where
  "no_openai_key =
     \<lparr>SUPABASE_URL = Some ''https://db'', SUPABASE_ANON_KEY = Some ''key'', OPENAI_API_KEY = None\<rparr>"

definition sample_up_config :: up_CONFIG where
  "sample_up_config =
     \<lparr>uc_subject = ''S'', uc_gradeLevel = ''DSE'', uc_textbooksFolder = ''textbooks'',
      uc_metadata = []\<rparr>"

text \<open>A world with one text file; its embedding model tells the summary from any other
  text.\<close>

definition sample_up_world :: up_world where
  "sample_up_world =
     \<lparr>uw_readdir = (\<lambda>_. Inr [''ch1.txt'', ''cover.png'']),
      uw_readFile = (\<lambda>_. Inr ''the full text''),
      uw_generateText = (\<lambda>_. Inr ''short''),
      uw_instruction = ''Summarise: '',
      uw_embed = (\<lambda>input. if input = ''short'' then Inr [1] else Inr [2]),
      uw_insert_error = (\<lambda>_. None),
      uw_now = ''t1'',
      uw_path_join = (\<lambda>folder file. folder @ ''/'' @ file),
      uw_path_basename = (\<lambda>p ext. take (length p - length ext) p)\<rparr>"


text \<open>The sample world with a report that cannot be written, and with an embedding model
  that answers every text with the empty vector.\<close>

definition unwritable_world :: ext_world where
  "unwritable_world =
     (sample_ext_world three_candidates rejects_none)\<lparr>xw_write_error := Some ''disk full''\<rparr>"

definition empty_vector_world :: ext_world where
  "empty_vector_world =
     (sample_ext_world three_candidates rejects_none)\<lparr>xw_embed := (\<lambda>input. Inr [])\<rparr>"

section \<open>Sampling (claims C1 and C2)\<close>

subsection \<open>The query is the conjunction of the filters in force\<close>

lemma mset_take_subset: "mset (take n xs) \<subseteq># mset xs"
proof -
  have "mset xs = mset (take n xs) + mset (drop n xs)"
    by (metis append_take_drop_id mset_append)
  then show ?thesis by simp
qed

lemma slice0_shuffle_subset:
  assumes "is_shuffle shuffle"
  shows "mset (slice0 (shuffle xs) e) \<subseteq># mset xs"
proof -
  have "mset (slice0 (shuffle xs) e) \<subseteq># mset (shuffle xs)"
    by (simp add: slice0_def mset_take_subset)
  with assms show ?thesis by (simp add: is_shuffle_def)
qed

lemma shuffle_length:
  assumes "is_shuffle shuffle"
  shows "length (shuffle xs) = length xs"
  using assms by (metis is_shuffle_def size_mset)

lemma slice0_length:
  assumes "0 \<le> e"
  shows "int (length (slice0 xs e)) = min e (int (length xs))"
  using assms by (simp add: slice0_def)

lemma mcq_query_filter:
  "mcq_query fs questionTypes levels rows = filter (mcq_matches fs questionTypes levels) rows"
  by (cases "f_questionTypeNames fs"; cases levels)
    (auto simp: mcq_query_def mcq_matches_def eq_rows_def in_rows_def Let_def
      intro!: filter_cong split: option.splits)

lemma pastpaper_query_filter:
  "pastpaper_query subject topic names questionTypes rows
     = filter (pastpaper_matches subject topic names questionTypes) rows"
  by (cases names)
    (auto simp: pastpaper_query_def pastpaper_matches_def eq_rows_def in_rows_def Let_def
      intro!: filter_cong)

lemma sample_bounds:
  assumes sh: "is_shuffle shuffle"
  shows "mset (slice0 (shuffle (filter P rows)) (min limit (int (length (filter P rows)))))
           \<subseteq># mset (filter P rows)"
    and "list_all P (slice0 (shuffle (filter P rows)) (min limit (int (length (filter P rows)))))"
    and "0 \<le> limit \<Longrightarrow>
         int (length (slice0 (shuffle (filter P rows)) (min limit (int (length (filter P rows))))))
           \<le> min limit (int (length (filter P rows)))"
proof -
  let ?data = "filter P rows"
  let ?sel = "slice0 (shuffle ?data) (min limit (int (length ?data)))"
  show sub: "mset ?sel \<subseteq># mset ?data"
    by (rule slice0_shuffle_subset [OF sh])
  then have "set ?sel \<subseteq> set ?data"
    by (metis set_mset_mono set_mset_mset)
  then show "list_all P ?sel"
    by (auto simp: list_all_iff)
  show "int (length ?sel) \<le> min limit (int (length ?data))" if "0 \<le> limit"
  proof -
    from that have "0 \<le> min limit (int (length ?data))" by simp
    then have "int (length ?sel)
                 = min (min limit (int (length ?data))) (int (length (shuffle ?data)))"
      by (rule slice0_length)
    then show ?thesis by (simp add: shuffle_length [OF sh])
  qed
qed


text \<open>
  Claim C1, as the code has it.  Whatever the random order, a sample holds no row more
  often than the filtered result set does, every sampled row matches every filter in
  force (\<open>mcq_matches\<close>, \<open>pastpaper_matches\<close>), and for a requested count that is not
  negative the sample has at most \<open>min(requested, available-after-filter)\<close> rows.  This
  holds for \<open>fetchMCQsByDifficulty\<close> and for \<open>fetchRandomQuestions\<close>.  The type filter is in
  force only when its names resolve to at least one id.
\<close>

theorem sampling_within_filters:
  assumes "is_shuffle shuffle" and "is_shuffle shuffle'"
  shows "(fetchMCQsByDifficulty shuffle fs questionTypes levels limit st = Inr selected \<longrightarrow>
            mset selected \<subseteq># mset (filter (mcq_matches fs questionTypes levels) (st_mcqs st))
            \<and> list_all (mcq_matches fs questionTypes levels) selected
            \<and> (0 \<le> limit \<longrightarrow>
                 int (length selected)
                   \<le> min limit
                       (int (length (filter (mcq_matches fs questionTypes levels) (st_mcqs st))))))
       \<and> (fetchRandomQuestions shuffle' w subject topic names limit' questionTypes' = Inr selected' \<longrightarrow>
            mset selected'
              \<subseteq># mset (filter (pastpaper_matches subject topic names questionTypes')
                          (gw_pastpapers w))
            \<and> list_all (pastpaper_matches subject topic names questionTypes') selected'
            \<and> (0 \<le> limit' \<longrightarrow>
                 int (length selected')
                   \<le> min limit'
                       (int (length (filter (pastpaper_matches subject topic names questionTypes')
                                       (gw_pastpapers w))))))"
proof (intro conjI impI)
  let ?P = "mcq_matches fs questionTypes levels"
  let ?data = "filter ?P (st_mcqs st)"
  assume "fetchMCQsByDifficulty shuffle fs questionTypes levels limit st = Inr selected"
  then have sel: "selected = [] \<or> selected = slice0 (shuffle ?data) (min limit (int (length ?data)))"
    by (auto simp: fetchMCQsByDifficulty_def mcq_query_filter Let_def
        split: option.splits if_splits)
  from sel sample_bounds(1) [OF assms(1), of ?P "st_mcqs st" limit]
  show "mset selected \<subseteq># mset ?data" by auto
  from sel sample_bounds(2) [OF assms(1), of ?P "st_mcqs st" limit]
  show "list_all ?P selected" by auto
  assume "0 \<le> limit"
  with sel sample_bounds(3) [OF assms(1), of limit ?P "st_mcqs st"]
  show "int (length selected) \<le> min limit (int (length ?data))" by auto
next
  let ?P = "pastpaper_matches subject topic names questionTypes'"
  let ?data = "filter ?P (gw_pastpapers w)"
  assume "fetchRandomQuestions shuffle' w subject topic names limit' questionTypes' = Inr selected'"
  then have sel: "selected' = slice0 (shuffle' ?data) (min limit' (int (length ?data)))"
    by (auto simp: fetchRandomQuestions_def pastpaper_query_filter Let_def
        split: option.splits if_splits)
  from sel sample_bounds(1) [OF assms(2), of ?P "gw_pastpapers w" limit']
  show "mset selected' \<subseteq># mset ?data" by simp
  from sel sample_bounds(2) [OF assms(2), of ?P "gw_pastpapers w" limit']
  show "list_all ?P selected'" by simp
  assume "0 \<le> limit'"
  with sel sample_bounds(3) [OF assms(2), of limit' ?P "gw_pastpapers w"]
  show "int (length selected') \<le> min limit' (int (length ?data))" by simp
qed

text \<open>Witness of C1: both samplers on small stores, with \<open>rev\<close> as the random order.\<close>

theorem sampling_within_filters_witness:
  "is_shuffle (rev :: MCQ list \<Rightarrow> MCQ list)
   \<and> is_shuffle (rev :: PastPaperRow list \<Rightarrow> PastPaperRow list)
   \<and> fetchMCQsByDifficulty rev (sample_filters (Some ''S'') (Some ''T'') (Some [''grammar'']) 1)
        sample_types (Some [1, 2]) 1
        (sample_store [sample_mcq ''a'' ''S'' ''T'' (Some 1) (Some ''q1''),
                       sample_mcq ''b'' ''S'' ''U'' (Some 1) (Some ''q1''),
                       sample_mcq ''c'' ''S'' ''T'' (Some 2) (Some ''q1''),
                       sample_mcq ''d'' ''S'' ''T'' (Some 2) (Some ''q2'')] sample_types)
       = Inr [sample_mcq ''c'' ''S'' ''T'' (Some 2) (Some ''q1'')]
   \<and> list_all (mcq_matches (sample_filters (Some ''S'') (Some ''T'') (Some [''grammar'']) 1)
                 sample_types (Some [1, 2]))
        [sample_mcq ''c'' ''S'' ''T'' (Some 2) (Some ''q1'')]
   \<and> (0::int) \<le> 1
   \<and> fetchRandomQuestions rev
        (sample_gen_world [sample_row ''a'' ''S'' ''T'' ''q1'', sample_row ''b'' ''S'' ''T'' ''q2'',
                           sample_row ''c'' ''X'' ''T'' ''q1''] no_model)
        ''S'' (Some ''T'') (Some [''reading'']) 2 sample_types
       = Inr [sample_row ''b'' ''S'' ''T'' ''q2'']
   \<and> list_all (pastpaper_matches ''S'' (Some ''T'') (Some [''reading'']) sample_types)
        [sample_row ''b'' ''S'' ''T'' ''q2'']
   \<and> (0::int) \<le> 2"
proof -
  let ?fs = "sample_filters (Some ''S'') (Some ''T'') (Some [''grammar'']) 1"
  let ?st = "sample_store [sample_mcq ''a'' ''S'' ''T'' (Some 1) (Some ''q1''),
                       sample_mcq ''b'' ''S'' ''U'' (Some 1) (Some ''q1''),
                       sample_mcq ''c'' ''S'' ''T'' (Some 2) (Some ''q1''),
                       sample_mcq ''d'' ''S'' ''T'' (Some 2) (Some ''q2'')] sample_types"
  let ?w = "sample_gen_world [sample_row ''a'' ''S'' ''T'' ''q1'', sample_row ''b'' ''S'' ''T'' ''q2'',
                           sample_row ''c'' ''X'' ''T'' ''q1''] no_model"
  have r1: "is_shuffle (rev :: MCQ list \<Rightarrow> MCQ list)"
    and r2: "is_shuffle (rev :: PastPaperRow list \<Rightarrow> PastPaperRow list)"
    by (simp_all add: is_shuffle_def)
  have f1: "fetchMCQsByDifficulty rev ?fs sample_types (Some [1, 2]) 1 ?st
       = Inr [sample_mcq ''c'' ''S'' ''T'' (Some 2) (Some ''q1'')]"
    by (simp add: fetchMCQsByDifficulty_def mcq_query_def sample_filters_def sample_types_def
        sample_store_def sample_mcq_def questionTypeIds_def eq_rows_def in_rows_def slice0_def
        Let_def)
  have f2: "fetchRandomQuestions rev ?w ''S'' (Some ''T'') (Some [''reading'']) 2 sample_types
       = Inr [sample_row ''b'' ''S'' ''T'' ''q2'']"
    by (simp add: fetchRandomQuestions_def pastpaper_query_def sample_gen_world_def
        sample_types_def sample_row_def questionTypeIds_def eq_rows_def in_rows_def slice0_def
        Let_def)
  from sampling_within_filters [OF r1 r2, of ?fs sample_types "Some [1, 2]" 1 ?st
      "[sample_mcq ''c'' ''S'' ''T'' (Some 2) (Some ''q1'')]" ?w "''S''" "Some ''T''"
      "Some [''reading'']" 2 sample_types "[sample_row ''b'' ''S'' ''T'' ''q2'']"] f1 f2 r1 r2
  show ?thesis by simp
qed

text \<open>
  Counterexample to C1 as stated.  The name \<open>vocabulary\<close> resolves to no id of the
  vocabulary, and both samplers return a row of type \<open>q1\<close>: the type filter is skipped, it
  does not exclude everything.  And for the requested count \<open>-1\<close> on three rows the set
  creator's sampler returns two rows, more than \<open>min(-1, 3)\<close>.
\<close>

theorem sampling_type_filter_counterexample:
  "f_questionTypeNames (sample_filters None None (Some [''vocabulary'']) 10) = Some [''vocabulary'']
   \<and> questionTypeIds sample_types [''vocabulary''] = []
   \<and> fetchMCQsByDifficulty id (sample_filters None None (Some [''vocabulary'']) 10)
        sample_types None 10
        (sample_store [sample_mcq ''a'' ''S'' ''T'' (Some 1) (Some ''q1'')] sample_types)
       = Inr [sample_mcq ''a'' ''S'' ''T'' (Some 1) (Some ''q1'')]
   \<and> mcq_question_type_id (sample_mcq ''a'' ''S'' ''T'' (Some 1) (Some ''q1'')) = Some ''q1''
   \<and> ''q1'' \<notin> set (questionTypeIds sample_types [''vocabulary''])
   \<and> fetchRandomQuestions id (sample_gen_world [sample_row ''a'' ''S'' ''T'' ''q1''] no_model)
        ''S'' None (Some [''vocabulary'']) 10 sample_types
       = Inr [sample_row ''a'' ''S'' ''T'' ''q1'']
   \<and> fetchMCQsByDifficulty id (sample_filters None None None (- 1)) sample_types None (- 1)
        (sample_store [sample_mcq ''a'' ''S'' ''T'' (Some 1) None,
                       sample_mcq ''b'' ''S'' ''T'' (Some 2) None,
                       sample_mcq ''c'' ''S'' ''T'' (Some 3) None] sample_types)
       = Inr [sample_mcq ''a'' ''S'' ''T'' (Some 1) None, sample_mcq ''b'' ''S'' ''T'' (Some 2) None]
   \<and> \<not> (2::int) \<le> min (- 1) 3"
  by (simp add: fetchMCQsByDifficulty_def mcq_query_def fetchRandomQuestions_def
      pastpaper_query_def sample_gen_world_def sample_row_def sample_filters_def
      sample_types_def sample_store_def sample_mcq_def questionTypeIds_def eq_rows_def
      in_rows_def slice0_def Let_def)

subsection \<open>A selection that matches nothing\<close>

lemma no_match_levels:
  assumes "filter (mcq_matches fs questionTypes None) rows = []"
  shows "filter (mcq_matches fs questionTypes levels) rows = []"
  using assms by (auto simp: filter_empty_conv mcq_matches_def)

lemma fetchMCQsByDifficulty_empty:
  assumes "st_error st ''mcqs'' = None"
    and "filter (mcq_matches fs questionTypes levels) (st_mcqs st) = []"
  shows "fetchMCQsByDifficulty shuffle fs questionTypes levels limit st = Inr []"
  using assms by (simp add: fetchMCQsByDifficulty_def mcq_query_filter)

lemma fetchMCQs_empty:
  assumes "st_error st ''mcqs'' = None"
    and "filter (mcq_matches fs questionTypes None) (st_mcqs st) = []"
  shows "fetchMCQs shuffle fs questionTypes st = Inr []"
  using assms
  by (simp add: fetchMCQs_def fetch_band_def fetchMCQsByDifficulty_empty no_match_levels
      split: option.splits)

lemma fetchRandomQuestions_empty:
  assumes "gw_error w ''pastpapers'' = None"
    and "filter (pastpaper_matches subject topic names questionTypes) (gw_pastpapers w) = []"
  shows "fetchRandomQuestions shuffle w subject topic names limit questionTypes
           = Inl (Error ''No questions found matching the criteria'')"
  using assms by (simp add: fetchRandomQuestions_def pastpaper_query_filter)

lemma main_empty:
  assumes "st_error st ''question_types'' = None" and "st_error st ''mcqs'' = None"
    and "filter (mcq_matches (cfg_filters cfg) (main_questionTypes cfg st) None) (st_mcqs st) = []"
  shows "main cfg shuffle st = (st, Inl (Error ''No MCQs found matching the criteria''))"
proof -
  have f: "fetchMCQs shuffle (cfg_filters cfg) (main_questionTypes cfg st) st = Inr []"
    using assms(2,3) by (rule fetchMCQs_empty)
  show ?thesis
  proof (cases "f_questionTypeNames (cfg_filters cfg) \<noteq> None \<or> truthy (f_subject (cfg_filters cfg))")
    case True
    with f have "fetchMCQs shuffle (cfg_filters cfg)
                   (eq_rows qt_subject (setSubject cfg) (st_question_types st)) st = Inr []"
      by (simp only: main_questionTypes_def if_True)
    with True assms(1) show ?thesis
      by (simp only: main_def fetchQuestionTypes_def if_True option.case sum.case list.size)
        simp
  next
    case False
    with f have "fetchMCQs shuffle (cfg_filters cfg) [] st = Inr []"
      by (simp only: main_questionTypes_def if_False)
    with False show ?thesis
      by (simp only: main_def if_False sum.case list.size) simp
  qed
qed

lemma generate_empty:
  assumes "gw_error w ''question_types'' = None" and "gw_error w ''pastpapers'' = None"
    and "filter (pastpaper_matches (gc_subject cfg) (gc_topic cfg) (gc_questionTypes cfg)
                   (eq_rows qt_subject (gc_subject cfg) (gw_question_types w)))
           (gw_pastpapers w) = []"
  shows "generateMCQQuestions cfg shuffle w
           = ([StoreQuery ''question_types'', StoreQuery ''pastpapers''],
              Inl (Error ''No questions found matching the criteria''))"
  using assms(1) fetchRandomQuestions_empty [OF assms(2,3)]
  by (simp add: generateMCQQuestions_def then_run_def fetchQuestionTypes_def)

text \<open>
  Claim C2, as the code has it.  When the store answers and no row matches the filters,
  \<open>fetchMCQsByDifficulty\<close> returns the empty list, while \<open>fetchRandomQuestions\<close> throws
  \<open>No questions found matching the criteria\<close>.  The set creator then throws
  \<open>No MCQs found matching the criteria\<close> with the store untouched, and the generator ends
  with the sampler's error after its two queries; either script exits with status 1.
\<close>

theorem empty_selection_is_fatal:
  "(st_error st ''mcqs'' = None
      \<and> filter (mcq_matches fs questionTypes levels) (st_mcqs st) = [] \<longrightarrow>
      fetchMCQsByDifficulty shuffle fs questionTypes levels limit st = Inr [])
   \<and> (gw_error w ''pastpapers'' = None
      \<and> filter (pastpaper_matches subject topic names questionTypes') (gw_pastpapers w) = [] \<longrightarrow>
      fetchRandomQuestions shuffle' w subject topic names limit' questionTypes'
        = Inl (Error ''No questions found matching the criteria''))
   \<and> (truthy (SUPABASE_URL env) \<and> truthy (SUPABASE_ANON_KEY env)
      \<and> st_error st ''question_types'' = None \<and> st_error st ''mcqs'' = None
      \<and> filter (mcq_matches (cfg_filters cfg) (main_questionTypes cfg st) None) (st_mcqs st) = []
      \<longrightarrow>
      set_creator_script env cfg shuffle st
        = (st, Inl (Error ''No MCQs found matching the criteria''))
      \<and> exit_code (snd (set_creator_script env cfg shuffle st)) = 1)
   \<and> (truthy (SUPABASE_URL env) \<and> truthy (SUPABASE_ANON_KEY env) \<and> truthy (OPENAI_API_KEY env)
      \<and> gw_error w ''question_types'' = None \<and> gw_error w ''pastpapers'' = None
      \<and> filter (pastpaper_matches (gc_subject gcfg) (gc_topic gcfg) (gc_questionTypes gcfg)
                  (eq_rows qt_subject (gc_subject gcfg) (gw_question_types w)))
           (gw_pastpapers w) = []
      \<longrightarrow>
      generator_script env gcfg shuffle' w
        = ([StoreQuery ''question_types'', StoreQuery ''pastpapers''],
           Inl (Error ''No questions found matching the criteria''))
      \<and> exit_code (snd (generator_script env gcfg shuffle' w)) = 1)"
proof (intro conjI impI)
  assume "st_error st ''mcqs'' = None
      \<and> filter (mcq_matches fs questionTypes levels) (st_mcqs st) = []"
  then show "fetchMCQsByDifficulty shuffle fs questionTypes levels limit st = Inr []"
    by (simp add: fetchMCQsByDifficulty_empty)
next
  assume "gw_error w ''pastpapers'' = None
      \<and> filter (pastpaper_matches subject topic names questionTypes') (gw_pastpapers w) = []"
  then show "fetchRandomQuestions shuffle' w subject topic names limit' questionTypes'
        = Inl (Error ''No questions found matching the criteria'')"
    by (simp add: fetchRandomQuestions_empty)
next
  assume a: "truthy (SUPABASE_URL env) \<and> truthy (SUPABASE_ANON_KEY env)
      \<and> st_error st ''question_types'' = None \<and> st_error st ''mcqs'' = None
      \<and> filter (mcq_matches (cfg_filters cfg) (main_questionTypes cfg st) None) (st_mcqs st) = []"
  then have m: "main cfg shuffle st = (st, Inl (Error ''No MCQs found matching the criteria''))"
    by (simp add: main_empty)
  with a show s: "set_creator_script env cfg shuffle st
        = (st, Inl (Error ''No MCQs found matching the criteria''))"
    by (simp add: set_creator_script_def)
  show "exit_code (snd (set_creator_script env cfg shuffle st)) = 1"
    by (simp add: s exit_code_def)
next
  assume a: "truthy (SUPABASE_URL env) \<and> truthy (SUPABASE_ANON_KEY env) \<and> truthy (OPENAI_API_KEY env)
      \<and> gw_error w ''question_types'' = None \<and> gw_error w ''pastpapers'' = None
      \<and> filter (pastpaper_matches (gc_subject gcfg) (gc_topic gcfg) (gc_questionTypes gcfg)
                  (eq_rows qt_subject (gc_subject gcfg) (gw_question_types w)))
           (gw_pastpapers w) = []"
  then have "generateMCQQuestions gcfg shuffle' w
           = ([StoreQuery ''question_types'', StoreQuery ''pastpapers''],
              Inl (Error ''No questions found matching the criteria''))"
    by (simp add: generate_empty)
  with a show s: "generator_script env gcfg shuffle' w
        = ([StoreQuery ''question_types'', StoreQuery ''pastpapers''],
           Inl (Error ''No questions found matching the criteria''))"
    by (simp add: generator_script_def)
  show "exit_code (snd (generator_script env gcfg shuffle' w)) = 1"
    by (simp add: s exit_code_def)
qed


text \<open>Witness of C2: one stored row of another topic than the filter's.\<close>

theorem empty_selection_is_fatal_witness:
  "st_error (sample_store [sample_mcq ''a'' ''S'' ''U'' (Some 1) None] sample_types) ''mcqs'' = None
   \<and> st_error (sample_store [sample_mcq ''a'' ''S'' ''U'' (Some 1) None] sample_types)
        ''question_types'' = None
   \<and> filter (mcq_matches (sample_filters (Some ''S'') (Some ''T'') None 10)
               (main_questionTypes (sample_config (sample_filters (Some ''S'') (Some ''T'') None 10))
                  (sample_store [sample_mcq ''a'' ''S'' ''U'' (Some 1) None] sample_types)) None)
        [sample_mcq ''a'' ''S'' ''U'' (Some 1) None] = []
   \<and> gw_error (sample_gen_world [sample_row ''a'' ''S'' ''U'' ''q1''] no_model) ''pastpapers'' = None
   \<and> gw_error (sample_gen_world [sample_row ''a'' ''S'' ''U'' ''q1''] no_model) ''question_types''
       = None
   \<and> filter (pastpaper_matches ''S'' (Some ''T'') None sample_types)
        [sample_row ''a'' ''S'' ''U'' ''q1''] = []
   \<and> truthy (SUPABASE_URL sample_env) \<and> truthy (SUPABASE_ANON_KEY sample_env)
   \<and> truthy (OPENAI_API_KEY sample_env)
   \<and> fetchMCQsByDifficulty id (sample_filters (Some ''S'') (Some ''T'') None 10) sample_types
        None 10 (sample_store [sample_mcq ''a'' ''S'' ''U'' (Some 1) None] sample_types) = Inr []
   \<and> fetchRandomQuestions id (sample_gen_world [sample_row ''a'' ''S'' ''U'' ''q1''] no_model)
        ''S'' (Some ''T'') None 5 sample_types
       = Inl (Error ''No questions found matching the criteria'')
   \<and> snd (set_creator_script sample_env
             (sample_config (sample_filters (Some ''S'') (Some ''T'') None 10)) id
             (sample_store [sample_mcq ''a'' ''S'' ''U'' (Some 1) None] sample_types))
       = Inl (Error ''No MCQs found matching the criteria'')
   \<and> st_mcqsets (fst (set_creator_script sample_env
             (sample_config (sample_filters (Some ''S'') (Some ''T'') None 10)) id
             (sample_store [sample_mcq ''a'' ''S'' ''U'' (Some 1) None] sample_types))) = []
   \<and> generator_script sample_env (sample_gen_config (Some ''T'') Easy 5) id
        (sample_gen_world [sample_row ''a'' ''S'' ''U'' ''q1''] no_model)
       = ([StoreQuery ''question_types'', StoreQuery ''pastpapers''],
          Inl (Error ''No questions found matching the criteria''))"
proof -
  let ?fs = "sample_filters (Some ''S'') (Some ''T'') None 10"
  let ?st = "sample_store [sample_mcq ''a'' ''S'' ''U'' (Some 1) None] sample_types"
  let ?cfg = "sample_config ?fs"
  let ?w = "sample_gen_world [sample_row ''a'' ''S'' ''U'' ''q1''] no_model"
  let ?gcfg = "sample_gen_config (Some ''T'') Easy 5"
  have qt: "main_questionTypes ?cfg ?st = sample_types"
    by (simp add: main_questionTypes_def sample_config_def sample_filters_def sample_store_def
        sample_types_def eq_rows_def)
  have h1: "st_error ?st ''mcqs'' = None" "st_error ?st ''question_types'' = None"
    "st_mcqs ?st = [sample_mcq ''a'' ''S'' ''U'' (Some 1) None]" "st_mcqsets ?st = []"
    by (simp_all add: sample_store_def)
  have h2: "filter (mcq_matches ?fs sample_types None) [sample_mcq ''a'' ''S'' ''U'' (Some 1) None] = []"
    by (simp add: mcq_matches_def sample_filters_def sample_mcq_def)
  have h3: "gw_error ?w ''pastpapers'' = None" "gw_error ?w ''question_types'' = None"
    "gw_pastpapers ?w = [sample_row ''a'' ''S'' ''U'' ''q1'']" "gw_question_types ?w = sample_types"
    by (simp_all add: sample_gen_world_def)
  have h4: "filter (pastpaper_matches ''S'' (Some ''T'') None sample_types)
              [sample_row ''a'' ''S'' ''U'' ''q1''] = []"
    by (simp add: pastpaper_matches_def sample_row_def)
  have h5: "truthy (SUPABASE_URL sample_env)" "truthy (SUPABASE_ANON_KEY sample_env)"
    "truthy (OPENAI_API_KEY sample_env)"
    by (simp_all add: sample_env_def)
  have h6: "gc_subject ?gcfg = ''S''" "gc_topic ?gcfg = Some ''T''" "gc_questionTypes ?gcfg = None"
    "cfg_filters ?cfg = ?fs"
    by (simp_all add: sample_gen_config_def sample_config_def)
  have h7: "eq_rows qt_subject ''S'' sample_types = sample_types"
    by (simp add: eq_rows_def sample_types_def)
  from empty_selection_is_fatal [of ?st ?fs sample_types None id 10 ?w "''S''" "Some ''T''" None
      sample_types id 5 sample_env ?cfg ?gcfg]
    qt h1 h2 h3 h4 h5 h6 h7
  show ?thesis by simp
qed

text \<open>
  Counterexample to C2 as stated.  On empty tables the generator's sampler throws instead
  of returning an empty result, the set creator ends with a thrown error, and both scripts
  exit with status 1, not 0.
\<close>

theorem empty_selection_counterexample:
  "fetchRandomQuestions id (sample_gen_world [] no_model) ''S'' None None 5 sample_types
     = Inl (Error ''No questions found matching the criteria'')
   \<and> snd (set_creator_script sample_env (sample_config (sample_filters None None None 10)) id
             (sample_store [] sample_types))
       = Inl (Error ''No MCQs found matching the criteria'')
   \<and> exit_code (snd (set_creator_script sample_env
                        (sample_config (sample_filters None None None 10)) id
                        (sample_store [] sample_types))) = 1
   \<and> exit_code (snd (generator_script sample_env (sample_gen_config (Some ''T'') Easy 5) id
                        (sample_gen_world [] no_model))) = 1"
  by (simp add: fetchRandomQuestions_def pastpaper_query_def eq_rows_def
      set_creator_script_def main_def fetchMCQs_def fetchMCQsByDifficulty_def mcq_query_def
      generator_script_def generateMCQQuestions_def then_run_def fetchQuestionTypes_def
      sample_gen_world_def sample_gen_config_def sample_env_def sample_config_def
      sample_filters_def sample_store_def sample_types_def exit_code_def Let_def)

section \<open>Set linkage (claim C3)\<close>

lemma order_index_rows:
  "map order_index (mcqSetQuestions sid mcqs) = map int [1..<Suc (length mcqs)]"
proof -
  have "map order_index (mcqSetQuestions sid mcqs)
          = map ((\<lambda>i. int i + 1) \<circ> fst) (enumerate 0 (sortedMCQs mcqs))"
    by (simp add: mcqSetQuestions_def case_prod_unfold comp_def)
  also have "\<dots> = map (\<lambda>i. int i + 1) (map fst (enumerate 0 (sortedMCQs mcqs)))"
    by (simp only: map_map)
  also have "\<dots> = map (\<lambda>i. int i + 1) [0..<length mcqs]"
    by (simp add: sortedMCQs_def)
  also have "\<dots> = map int (map Suc [0..<length mcqs])"
    by simp
  also have "\<dots> = map int [1..<Suc (length mcqs)]"
    by (simp only: map_Suc_upt One_nat_def)
  finally show ?thesis .
qed

lemma mcq_ref_rows:
  "map mcq_ref (mcqSetQuestions sid mcqs) = map mcq_id (sortedMCQs mcqs)"
proof -
  have "map mcq_ref (mcqSetQuestions sid mcqs)
          = map (mcq_id \<circ> snd) (enumerate 0 (sortedMCQs mcqs))"
    by (simp add: mcqSetQuestions_def case_prod_unfold comp_def)
  also have "\<dots> = map mcq_id (map snd (enumerate 0 (sortedMCQs mcqs)))"
    by (simp only: map_map)
  finally show ?thesis by simp
qed

lemma key_le_difficulty_le:
  assumes "sentinel_safe (mcq_difficulty a)" "sentinel_safe (mcq_difficulty b)"
    and "difficulty_key a \<le> difficulty_key b"
  shows "difficulty_le (mcq_difficulty a) (mcq_difficulty b)"
  using assms
  by (auto simp: sentinel_safe_def difficulty_key_def difficulty_le_def split: option.splits)

lemma sortedMCQs_ascending:
  assumes "\<forall>m\<in>set mcqs. sentinel_safe (mcq_difficulty m)"
  shows "sorted_wrt difficulty_le (map mcq_difficulty (sortedMCQs mcqs))"
proof -
  have "sorted (map difficulty_key (sortedMCQs mcqs))"
    by (simp add: sortedMCQs_def)
  then have "sorted_wrt (\<lambda>a b. difficulty_key a \<le> difficulty_key b) (sortedMCQs mcqs)"
    by (simp add: sorted_map)
  then have "sorted_wrt (\<lambda>a b. difficulty_le (mcq_difficulty a) (mcq_difficulty b)) (sortedMCQs mcqs)"
  proof (rule sorted_wrt_mono_rel [rotated])
    fix a b
    assume "a \<in> set (sortedMCQs mcqs)" "b \<in> set (sortedMCQs mcqs)"
      and "difficulty_key a \<le> difficulty_key b"
    with assms show "difficulty_le (mcq_difficulty a) (mcq_difficulty b)"
      by (simp add: sortedMCQs_def key_le_difficulty_le)
  qed
  then show ?thesis by (simp add: sorted_wrt_map)
qed

lemma sortedMCQs_stable:
  assumes "\<forall>m\<in>set mcqs. sentinel_safe (mcq_difficulty m)"
  shows "filter (\<lambda>m. mcq_difficulty m = k) (sortedMCQs mcqs) = filter (\<lambda>m. mcq_difficulty m = k) mcqs"
proof (cases "sentinel_safe k")
  case True
  define kk where "kk = (case k of None \<Rightarrow> (999::int) | Some d \<Rightarrow> d)"
  have eq: "(mcq_difficulty m = k) = (difficulty_key m = kk)" if "m \<in> set mcqs" for m
    using that assms True
    by (auto simp: kk_def sentinel_safe_def difficulty_key_def split: option.splits)
  have "filter (\<lambda>m. mcq_difficulty m = k) (sortedMCQs mcqs)
          = filter (\<lambda>m. difficulty_key m = kk) (sortedMCQs mcqs)"
    by (rule filter_cong) (simp_all add: sortedMCQs_def eq)
  also have "\<dots> = filter (\<lambda>m. difficulty_key m = kk) mcqs"
    by (simp add: sortedMCQs_def sort_key_stable)
  also have "\<dots> = filter (\<lambda>m. mcq_difficulty m = k) mcqs"
    by (rule filter_cong) (simp_all add: eq)
  finally show ?thesis .
next
  case False
  have "mcq_difficulty m \<noteq> k" if "m \<in> set mcqs" for m
    using that assms False by auto
  then have "filter (\<lambda>m. mcq_difficulty m = k) (sortedMCQs mcqs) = []"
    and "filter (\<lambda>m. mcq_difficulty m = k) mcqs = []"
    by (simp_all add: sortedMCQs_def filter_empty_conv)
  then show ?thesis by simp
qed

lemma data_model_difficulty_safe:
  "1 \<le> d \<and> d \<le> 5 \<Longrightarrow> sentinel_safe (Some d)"
  by (simp add: sentinel_safe_def)

lemma difficulties_example:
  assumes "map mcq_difficulty mcqs = [Some 3, Some 1, Some 5, None, Some 2]"
  shows "sortedMCQs mcqs = [mcqs ! 1, mcqs ! 4, mcqs ! 0, mcqs ! 2, mcqs ! 3]"
proof -
  from assms obtain a b c d e where m: "mcqs = [a, b, c, d, e]"
    and d: "mcq_difficulty a = Some 3" "mcq_difficulty b = Some 1" "mcq_difficulty c = Some 5"
      "mcq_difficulty d = None" "mcq_difficulty e = Some 2"
    by (auto simp: map_eq_Cons_conv)
  show ?thesis
    by (simp add: m d sortedMCQs_def difficulty_key_def)
qed

text \<open>
  Claim C3.  For selected records whose difficulties the sentinel orders as their values
  (every difficulty of the data model, 1 to 5, and an absent one), the rows
  \<open>linkMCQsToSet\<close> inserts carry the order indices \<open>1..N\<close> in this order, and refer to the
  records in ascending difficulty, a record without difficulty last, records of equal
  difficulty in their selection order; the rows are appended to the set's memberships as
  one batch.  Difficulties \<open>[3, 1, 5, null, 2]\<close> give the records in the order second,
  fifth, first, third, fourth.
\<close>

theorem linkMCQsToSet_order_index:
  assumes safe: "list_all (\<lambda>m. sentinel_safe (mcq_difficulty m)) mcqs"
  shows "map order_index (mcqSetQuestions sid mcqs) = map int [1..<Suc (length mcqs)]
       \<and> map mcq_ref (mcqSetQuestions sid mcqs) = map mcq_id (sortedMCQs mcqs)
       \<and> list_all (\<lambda>r. mcqset_id r = sid) (mcqSetQuestions sid mcqs)
       \<and> mset (sortedMCQs mcqs) = mset mcqs
       \<and> sorted_wrt difficulty_le (map mcq_difficulty (sortedMCQs mcqs))
       \<and> (\<forall>k. filter (\<lambda>m. mcq_difficulty m = k) (sortedMCQs mcqs)
                = filter (\<lambda>m. mcq_difficulty m = k) mcqs)
       \<and> (\<forall>st st'. linkMCQsToSet sid mcqs st = Inr st' \<longrightarrow>
             st_mcqset_questions st' = st_mcqset_questions st @ mcqSetQuestions sid mcqs)
       \<and> (map mcq_difficulty mcqs = [Some 3, Some 1, Some 5, None, Some 2] \<longrightarrow>
             map mcq_ref (mcqSetQuestions sid mcqs)
               = map mcq_id [mcqs ! 1, mcqs ! 4, mcqs ! 0, mcqs ! 2, mcqs ! 3])"
proof -
  from safe have all: "\<forall>m\<in>set mcqs. sentinel_safe (mcq_difficulty m)"
    by (simp add: list_all_iff)
  have sid: "list_all (\<lambda>r. mcqset_id r = sid) (mcqSetQuestions sid mcqs)"
    by (simp add: mcqSetQuestions_def list_all_iff case_prod_unfold)
  have link: "st_mcqset_questions st' = st_mcqset_questions st @ mcqSetQuestions sid mcqs"
    if "linkMCQsToSet sid mcqs st = Inr st'" for st st'
    using that by (auto simp: linkMCQsToSet_def split: option.splits)
  have ex: "map mcq_ref (mcqSetQuestions sid mcqs)
              = map mcq_id [mcqs ! 1, mcqs ! 4, mcqs ! 0, mcqs ! 2, mcqs ! 3]"
    if "map mcq_difficulty mcqs = [Some 3, Some 1, Some 5, None, Some 2]"
    using difficulties_example [OF that] by (simp only: mcq_ref_rows)
  have perm: "mset (sortedMCQs mcqs) = mset mcqs"
    by (simp add: sortedMCQs_def)
  show ?thesis
    using order_index_rows [of sid mcqs] mcq_ref_rows [of sid mcqs] sid perm
      sortedMCQs_ascending [OF all] sortedMCQs_stable [OF all] link ex
    by blast
qed

text \<open>Witness of C3: the five records of the claim's example, linked into an empty set.\<close>

theorem linkMCQsToSet_order_index_witness:
  "list_all (\<lambda>m. sentinel_safe (mcq_difficulty m)) link_example
   \<and> map mcq_difficulty link_example = [Some 3, Some 1, Some 5, None, Some 2]
   \<and> (case linkMCQsToSet ''set-1'' link_example (sample_store [] []) of
        Inl _ \<Rightarrow> False
      | Inr st' \<Rightarrow> map (\<lambda>r. (mcq_ref r, order_index r)) (st_mcqset_questions st')
                   = [(''b'', 1), (''e'', 2), (''a'', 3), (''c'', 4), (''d'', 5)])
   \<and> map order_index (mcqSetQuestions ''set-1'' link_example) = [1, 2, 3, 4, 5]
   \<and> map mcq_difficulty (sortedMCQs link_example) = [Some 1, Some 2, Some 3, Some 5, None]"
  using linkMCQsToSet_order_index [of link_example "''set-1''"]
  by (simp add: link_example_def sample_mcq_def sample_store_def sentinel_safe_def
      linkMCQsToSet_def mcqSetQuestions_def sortedMCQs_def difficulty_key_def enumerate_eq_zip)

section \<open>The extraction run (claims C4, C7, C8 and C9)\<close>

subsection \<open>The loops, candidate by candidate\<close>

lemma successes_append: "successes (xs @ ys) = successes xs @ successes ys"
  by (simp add: successes_def)

lemma successes_simps:
  "successes [] = []"
  "successes (Inl e # rs) = successes rs"
  "successes (Inr x # rs) = x # successes rs"
  by (simp_all add: successes_def)

lemma length_successes: "length (successes rs) + length (filter isl rs) = length rs"
proof (induction rs)
  case Nil
  show ?case by (simp add: successes_simps)
next
  case (Cons a rs)
  then show ?case by (cases a) (simp_all add: successes_simps)
qed

lemma processQuestions_effect:
  "allRecords (processQuestions cfg w qts fn qs p)
     = allRecords p @ successes (outcomes cfg w qts fn qs)
   \<and> errorCount (processQuestions cfg w qts fn qs p)
     = errorCount p + length (filter isl (outcomes cfg w qts fn qs))
   \<and> successCount (processQuestions cfg w qts fn qs p) = successCount p
   \<and> length (reported (processQuestions cfg w qts fn qs p))
     = length (reported p) + length (filter isl (outcomes cfg w qts fn qs))
   \<and> calls (processQuestions cfg w qts fn qs p)
     = calls p @ concat (map (\<lambda>q. fst (processQuestion cfg w qts fn q)) qs)"
proof (induction qs arbitrary: p)
  case Nil
  show ?case by (simp add: outcomes_def successes_simps)
next
  case (Cons q qs)
  obtain t r where pq: "processQuestion cfg w qts fn q = (t, r)"
    by (cases "processQuestion cfg w qts fn q")
  show ?case
  proof (cases r)
    case (Inl e)
    with pq Cons.IH show ?thesis
      by (simp add: outcomes_def successes_simps)
  next
    case (Inr x)
    with pq Cons.IH show ?thesis
      by (simp add: outcomes_def successes_simps)
  qed
qed

lemma processImages_effect:
  "allRecords (processImages cfg w qts topics imgs p)
     = allRecords p @ concat (map (image_records cfg w qts topics) imgs)
   \<and> errorCount (processImages cfg w qts topics imgs p)
     = errorCount p + sum_list (map (image_failures cfg w qts topics) imgs)
   \<and> successCount (processImages cfg w qts topics imgs p)
     = successCount p + length (filter (\<lambda>img. \<not> isl (snd (performOCR w img qts topics))) imgs)
   \<and> length (reported (processImages cfg w qts topics imgs p))
     = length (reported p) + sum_list (map (image_failures cfg w qts topics) imgs)
   \<and> calls (processImages cfg w qts topics imgs p)
     = calls p @ concat (map (image_calls cfg w qts topics) imgs)"
proof (induction imgs arbitrary: p)
  case Nil
  show ?case by simp
next
  case (Cons img imgs)
  obtain t r where ocr: "performOCR w img qts topics = (t, r)"
    by (cases "performOCR w img qts topics")
  show ?case
  proof (cases r)
    case (Inl e)
    with ocr Cons.IH show ?thesis
      by (simp add: image_records_def image_failures_def image_calls_def)
  next
    case (Inr qs)
    with ocr Cons.IH processQuestions_effect [of cfg w qts "xw_path_basename w img" qs]
    show ?thesis
      by (simp add: image_records_def image_failures_def image_calls_def Let_def)
  qed
qed

lemma unresolved_label_fails:
  assumes "find (\<lambda>qt. qt_name qt = q_question_type_name q) qts = None"
  shows "isl (snd (processQuestion cfg w qts fn q))"
  using assms by (simp add: processQuestion_def mapQuestionTypeToId_def then_run_def)

lemma embedding_failure_fails:
  assumes "xw_embed w (grounding_text q) = Inl e"
  shows "isl (snd (processQuestion cfg w qts fn q))"
  using assms
  by (simp add: processQuestion_def mapQuestionTypeToId_def then_run_def generateEmbedding_def
      split: option.splits)


lemma in_successes: "x \<in> set (successes rs) \<longleftrightarrow> Inr x \<in> set rs"
proof (induction rs)
  case Nil
  show ?case by (simp add: successes_simps)
next
  case (Cons a rs)
  then show ?case by (cases a) (auto simp: successes_simps)
qed

lemma processQuestion_Inr:
  assumes "snd (processQuestion cfg w qts fn q) = Inr r"
  shows "r_subject r = xc_subject cfg" and "r_grade_level r = xc_gradeLevel cfg"
    and "r_topic r = q_topic q" and "r_question r = q_question q" and "r_answer r = q_answer q"
    and "r_explanation r = q_explanation q" and "r_difficulty r = q_difficulty q"
    and "r_question_number r = q_question_number q" and "r_question_year r = q_question_year q"
    and "record_text r = grounding_text q"
    and "xw_embed w (grounding_text q) = Inr (r_embedding r)"
    and "r_metadata r = [(''source_image'', fn), (''extracted_at'', xw_now w),
                          (''question_type_name'', q_question_type_name q)]"
    and "mapQuestionTypeToId (q_question_type_name q) qts = Inr (r_question_type_id r)"
    and "fst (processQuestion cfg w qts fn q) = [Embed (grounding_text q)]"
  using assms
  by (auto simp: processQuestion_def then_run_def generateEmbedding_def record_text_def
      grounding_text_def split: sum.splits)

lemma processQuestion_calls:
  "filter is_insert (fst (processQuestion cfg w qts fn q)) = []"
  by (auto simp: processQuestion_def then_run_def generateEmbedding_def split: sum.splits)

lemma performOCR_calls:
  "filter is_insert (fst (performOCR w img qts topics)) = []"
  by (auto simp: performOCR_def then_run_def Let_def split: sum.splits)

lemma image_calls_no_insert:
  "filter is_insert (image_calls cfg w qts topics img) = []"
proof -
  have "filter is_insert
          (concat (map (\<lambda>q. fst (processQuestion cfg w qts fn q)) qs)) = []" for fn qs
    by (induction qs) (simp_all add: processQuestion_calls)
  then show ?thesis
    by (simp add: image_calls_def performOCR_calls split: sum.splits)
qed

lemma loop_calls_no_insert:
  "filter is_insert (concat (map (image_calls cfg w qts topics) imgs)) = []"
  by (induction imgs) (simp_all add: image_calls_no_insert)

lemma image_record_origin:
  assumes "r \<in> set (image_records cfg w qts topics img)"
  shows "\<exists>qs q. snd (performOCR w img qts topics) = Inr qs \<and> q \<in> set qs
           \<and> snd (processQuestion cfg w qts (xw_path_basename w img) q) = Inr r"
proof (cases "snd (performOCR w img qts topics)")
  case (Inl e)
  with assms show ?thesis by (simp add: image_records_def)
next
  case (Inr qs)
  with assms have "Inr r \<in> set (outcomes cfg w qts (xw_path_basename w img) qs)"
    by (simp add: image_records_def in_successes)
  then obtain q where "q \<in> set qs"
    and "snd (processQuestion cfg w qts (xw_path_basename w img) q) = Inr r"
    by (auto simp: outcomes_def)
  with Inr show ?thesis by blast
qed

lemma image_record_embed_call:
  assumes "r \<in> set (image_records cfg w qts topics img)"
  shows "Embed (record_text r) \<in> set (image_calls cfg w qts topics img)"
proof -
  from image_record_origin [OF assms] obtain qs q
    where ocr: "snd (performOCR w img qts topics) = Inr qs" and q: "q \<in> set qs"
      and pq: "snd (processQuestion cfg w qts (xw_path_basename w img) q) = Inr r"
    by blast
  from processQuestion_Inr(10,14) [OF pq]
  have "Embed (record_text r) \<in> set (fst (processQuestion cfg w qts (xw_path_basename w img) q))"
    by simp
  with q ocr show ?thesis
    by (auto simp: image_calls_def)
qed

lemma pastpaper_row_id: "pastpaper_row r = r"
  by (simp add: pastpaper_row_def)

lemma uploadToSupabase_effect:
  "ins_rows (uploadToSupabase w rs u)
     = ins_rows u @ filter (\<lambda>r. xw_insert_error w r = None) rs
   \<and> ins_calls (uploadToSupabase w rs u)
     = ins_calls u @ replicate (length rs) (StoreInsert ''pastpapers'')
   \<and> ins_successCount (uploadToSupabase w rs u)
     = ins_successCount u + length (filter (\<lambda>r. xw_insert_error w r = None) rs)
   \<and> ins_errorCount (uploadToSupabase w rs u)
     = ins_errorCount u + length (filter (\<lambda>r. xw_insert_error w r \<noteq> None) rs)"
proof (induction rs arbitrary: u)
  case Nil
  show ?case by simp
next
  case (Cons r rs)
  show ?case
  proof (cases "xw_insert_error w r")
    case None
    with Cons.IH show ?thesis
      by (simp add: pastpaper_row_id replicate_app_Cons_same)
  next
    case (Some m)
    with Cons.IH show ?thesis
      by (simp add: pastpaper_row_id replicate_app_Cons_same)
  qed
qed

subsection \<open>The run as a whole\<close>

lemma run_unfold:
  assumes "fetchQuestionTypes (xw_error w) (xw_question_types w) (xc_subject cfg) = Inr qts"
    and "fetchTopics w (xc_subject cfg) = Inr topics"
    and "readImageFiles w (xc_pastpapersFolder cfg) = Inr imgs"
  shows "processAndExtractQuestions cfg w =
     (let p = processImages cfg w qts topics imgs initial_progress;
          pre = [StoreQuery ''question_types'', StoreQuery ''textbooks'',
                 ReadDir (xc_pastpapersFolder cfg)] @ calls p;
          u = uploadToSupabase w (allRecords p) initial_upload
      in if allRecords p = []
         then (pre, Inr \<lparr>xr_progress = p, xr_review_file = None, xr_upload = initial_upload\<rparr>)
         else (case xw_write_error w of
                 Some m \<Rightarrow> (pre @ [FileWrite (xc_outputFile cfg)], Inl (Error m))
               | None \<Rightarrow>
                   (pre @ FileWrite (xc_outputFile cfg) # ins_calls u,
                    Inr \<lparr>xr_progress = p,
                         xr_review_file = Some (review_file_content w (allRecords p)),
                         xr_upload = u\<rparr>)))"
proof (cases imgs)
  case Nil
  with assms show ?thesis
    by (simp add: processAndExtractQuestions_def then_run_def initial_progress_def)
next
  case (Cons img rest)
  with assms show ?thesis
    by (simp add: processAndExtractQuestions_def then_run_def Let_def saveToReviewFile_def
        split: option.splits)
qed

lemma run_early_failure:
  assumes "fetchQuestionTypes (xw_error w) (xw_question_types w) (xc_subject cfg) = Inl e
           \<or> fetchTopics w (xc_subject cfg) = Inl e
           \<or> readImageFiles w (xc_pastpapersFolder cfg) = Inl e"
  shows "isl (snd (processAndExtractQuestions cfg w))
         \<and> filter is_insert (fst (processAndExtractQuestions cfg w)) = []"
  using assms
  by (cases "fetchQuestionTypes (xw_error w) (xw_question_types w) (xc_subject cfg)";
      cases "fetchTopics w (xc_subject cfg)";
      cases "readImageFiles w (xc_pastpapersFolder cfg)")
    (simp_all add: processAndExtractQuestions_def then_run_def)


lemma run_records:
  assumes run: "processAndExtractQuestions cfg w = (t, Inr res)"
  shows "\<exists>qts topics imgs.
           xr_progress res = processImages cfg w qts topics imgs initial_progress
           \<and> set (concat (map (image_calls cfg w qts topics) imgs)) \<subseteq> set t
           \<and> set (ins_rows (xr_upload res)) \<subseteq> set (allRecords (xr_progress res))"
proof -
  let ?A = "fetchQuestionTypes (xw_error w) (xw_question_types w) (xc_subject cfg)"
  let ?B = "fetchTopics w (xc_subject cfg)"
  let ?C = "readImageFiles w (xc_pastpapersFolder cfg)"
  have "\<exists>qts topics imgs. ?A = Inr qts \<and> ?B = Inr topics \<and> ?C = Inr imgs"
  proof (rule ccontr)
    assume "\<not> ?thesis"
    then obtain e where "?A = Inl e \<or> ?B = Inl e \<or> ?C = Inl e"
      by (cases ?A; cases ?B; cases ?C) auto
    from run_early_failure [OF this] run show False by simp
  qed
  then obtain qts topics imgs where s: "?A = Inr qts" "?B = Inr topics" "?C = Inr imgs"
    by blast
  define p where "p = processImages cfg w qts topics imgs initial_progress"
  have c: "calls p = concat (map (image_calls cfg w qts topics) imgs)"
    using processImages_effect [of cfg w qts topics imgs initial_progress]
    by (simp add: p_def initial_progress_def)
  have u: "set (ins_rows (uploadToSupabase w (allRecords p) initial_upload)) \<subseteq> set (allRecords p)"
    using uploadToSupabase_effect [of w "allRecords p" initial_upload]
    by (auto simp: initial_upload_def simp del: uploadToSupabase.simps)
  from run_unfold [OF s]
  have "processAndExtractQuestions cfg w =
       (if allRecords p = []
         then ([StoreQuery ''question_types'', StoreQuery ''textbooks'',
                 ReadDir (xc_pastpapersFolder cfg)] @ calls p,
               Inr \<lparr>xr_progress = p, xr_review_file = None, xr_upload = initial_upload\<rparr>)
         else (case xw_write_error w of
                 Some m \<Rightarrow> (([StoreQuery ''question_types'', StoreQuery ''textbooks'',
                 ReadDir (xc_pastpapersFolder cfg)] @ calls p) @ [FileWrite (xc_outputFile cfg)],
                            Inl (Error m))
               | None \<Rightarrow>
                   (([StoreQuery ''question_types'', StoreQuery ''textbooks'',
                 ReadDir (xc_pastpapersFolder cfg)] @ calls p) @ FileWrite (xc_outputFile cfg)
                      # ins_calls (uploadToSupabase w (allRecords p) initial_upload),
                    Inr \<lparr>xr_progress = p,
                         xr_review_file = Some (review_file_content w (allRecords p)),
                         xr_upload = uploadToSupabase w (allRecords p) initial_upload\<rparr>)))"
    unfolding p_def Let_def .
  with run have "xr_progress res = p \<and> set (calls p) \<subseteq> set t
      \<and> set (ins_rows (xr_upload res)) \<subseteq> set (allRecords p)"
    using u
    by (auto simp: initial_upload_def split: if_splits option.splits
        simp del: uploadToSupabase.simps)
  with c show ?thesis
    unfolding p_def by auto
qed

lemma loop_record_origin:
  assumes "r \<in> set (allRecords (processImages cfg w qts topics imgs initial_progress))"
  shows "\<exists>img qs q. img \<in> set imgs \<and> snd (performOCR w img qts topics) = Inr qs \<and> q \<in> set qs
           \<and> snd (processQuestion cfg w qts (xw_path_basename w img) q) = Inr r
           \<and> Embed (record_text r) \<in> set (image_calls cfg w qts topics img)"
proof -
  from assms processImages_effect [of cfg w qts topics imgs initial_progress]
  have "r \<in> set (concat (map (image_records cfg w qts topics) imgs))"
    by (simp add: initial_progress_def)
  then obtain img where img: "img \<in> set imgs" and r: "r \<in> set (image_records cfg w qts topics img)"
    by auto
  from image_record_origin [OF r] image_record_embed_call [OF r] img
  show ?thesis by blast
qed

subsection \<open>The run on the sample world\<close>

lemma sample_loop:
  "processImages sample_ext_config (sample_ext_world three_candidates rejects) sample_types
     [\<lparr>t_topic = ''T'', t_subject = ''S''\<rparr>] [''images/p1.png''] initial_progress
   = \<lparr>allRecords = [extracted_record 1 ''grammar'' ''q1'', extracted_record 3 ''reading'' ''q2''],
      successCount = 1, errorCount = 1,
      reported = [QuestionFailure 2
                    (Error (''Question type '' @ [CHR 0x22] @ ''unknown type'' @ [CHR 0x22]
                            @ '' not found in available types''))],
      calls = [ReadFile ''images/p1.png'', Extract ''images/p1.png'',
               Embed (''Q'' @ newline @ ''A'' @ newline @ ''E''),
               Embed (''Q'' @ newline @ ''A'' @ newline @ ''E'')]\<rparr>"
  by (simp add: performOCR_def then_run_def generateObject_def PastPaperQuestionSchema_def
      processQuestion_def mapQuestionTypeToId_def generateEmbedding_def grounding_text_def
      sample_ext_world_def sample_ext_config_def three_candidates_def sample_question_def
      sample_types_def extracted_record_def initial_progress_def endsWith_def newline_def
      Let_def)

lemma sample_steps:
  "fetchQuestionTypes (xw_error (sample_ext_world qs rejects))
     (xw_question_types (sample_ext_world qs rejects)) (xc_subject sample_ext_config)
     = Inr sample_types"
  "fetchTopics (sample_ext_world qs rejects) (xc_subject sample_ext_config)
     = Inr [\<lparr>t_topic = ''T'', t_subject = ''S''\<rparr>]"
  "readImageFiles (sample_ext_world qs rejects) (xc_pastpapersFolder sample_ext_config)
     = Inr [''images/p1.png'']"
  by (simp_all add: fetchQuestionTypes_def fetchTopics_def readImageFiles_def eq_rows_def
      endsWith_def sample_ext_world_def sample_ext_config_def sample_types_def)

lemma sample_run:
  "processAndExtractQuestions sample_ext_config (sample_ext_world three_candidates rejects)
   = ([StoreQuery ''question_types'', StoreQuery ''textbooks'', ReadDir ''images'',
       ReadFile ''images/p1.png'', Extract ''images/p1.png'',
       Embed (''Q'' @ newline @ ''A'' @ newline @ ''E''),
       Embed (''Q'' @ newline @ ''A'' @ newline @ ''E''),
       FileWrite ''review.txt'', StoreInsert ''pastpapers'', StoreInsert ''pastpapers''],
      Inr \<lparr>xr_progress =
             processImages sample_ext_config (sample_ext_world three_candidates rejects)
               sample_types [\<lparr>t_topic = ''T'', t_subject = ''S''\<rparr>] [''images/p1.png'']
               initial_progress,
           xr_review_file =
             Some (review_file_content (sample_ext_world three_candidates rejects)
                     [extracted_record 1 ''grammar'' ''q1'', extracted_record 3 ''reading'' ''q2'']),
           xr_upload =
             uploadToSupabase (sample_ext_world three_candidates rejects)
               [extracted_record 1 ''grammar'' ''q1'', extracted_record 3 ''reading'' ''q2'']
               initial_upload\<rparr>)"
proof -
  have w: "xw_write_error (sample_ext_world three_candidates rejects) = None"
    "xc_pastpapersFolder sample_ext_config = ''images''"
    "xc_outputFile sample_ext_config = ''review.txt''"
    by (simp_all add: sample_ext_world_def sample_ext_config_def)
  have ic: "ins_calls (uploadToSupabase (sample_ext_world three_candidates rejects)
               [extracted_record 1 ''grammar'' ''q1'', extracted_record 3 ''reading'' ''q2'']
               initial_upload)
            = [StoreInsert ''pastpapers'', StoreInsert ''pastpapers'']"
    using uploadToSupabase_effect [of "sample_ext_world three_candidates rejects"
        "[extracted_record 1 ''grammar'' ''q1'', extracted_record 3 ''reading'' ''q2'']"
        initial_upload]
    by (simp add: initial_upload_def del: uploadToSupabase.simps)
  note u = run_unfold [OF sample_steps, of three_candidates rejects, unfolded sample_loop]
  show ?thesis
    unfolding sample_loop
    by (simp add: u w ic Let_def del: uploadToSupabase.simps)
qed

subsection \<open>Failures stay with their candidate\<close>

text \<open>
  Claim C4.  The batch loop returns its counters for every input: it has no error
  outcome.  Its records are, image by image and in order, the records of exactly those
  candidates whose own processing succeeds; a candidate with an unresolvable label or a
  failed embedding fails alone.  Every failure, of a candidate or of an image's
  extraction call, is counted once and reported once, so an image with \<open>n\<close> candidates
  gives records and failures that add up to \<open>n\<close>, and an image with three candidates of
  which the second has an unresolvable label and the others succeed gives two records and
  one failure.  When the vocabularies and the folder can
  be read and the report can be written, the run returns whatever fails in the loop.
\<close>

theorem partial_failure_isolation:
  "allRecords (processImages cfg w qts topics imgs initial_progress)
     = concat (map (image_records cfg w qts topics) imgs)
   \<and> errorCount (processImages cfg w qts topics imgs initial_progress)
     = sum_list (map (image_failures cfg w qts topics) imgs)
   \<and> length (reported (processImages cfg w qts topics imgs initial_progress))
     = errorCount (processImages cfg w qts topics imgs initial_progress)
   \<and> successCount (processImages cfg w qts topics imgs initial_progress)
     = length (filter (\<lambda>img. \<not> isl (snd (performOCR w img qts topics))) imgs)
   \<and> (\<forall>img qs. snd (performOCR w img qts topics) = Inr qs \<longrightarrow>
         image_records cfg w qts topics img
           = successes (outcomes cfg w qts (xw_path_basename w img) qs)
         \<and> length (image_records cfg w qts topics img) + image_failures cfg w qts topics img
           = length qs)
   \<and> (\<forall>fn q. find (\<lambda>qt. qt_name qt = q_question_type_name q) qts = None
              \<or> isl (xw_embed w (grounding_text q)) \<longrightarrow>
         isl (snd (processQuestion cfg w qts fn q)))
   \<and> (\<forall>img a b c.
         snd (performOCR w img qts topics) = Inr [a, b, c]
         \<and> \<not> isl (snd (processQuestion cfg w qts (xw_path_basename w img) a))
         \<and> find (\<lambda>qt. qt_name qt = q_question_type_name b) qts = None
         \<and> \<not> isl (snd (processQuestion cfg w qts (xw_path_basename w img) c)) \<longrightarrow>
         length (image_records cfg w qts topics img) = 2
         \<and> image_failures cfg w qts topics img = 1)
   \<and> (\<forall>types tops files.
         fetchQuestionTypes (xw_error w) (xw_question_types w) (xc_subject cfg) = Inr types
         \<and> fetchTopics w (xc_subject cfg) = Inr tops
         \<and> readImageFiles w (xc_pastpapersFolder cfg) = Inr files
         \<and> xw_write_error w = None \<longrightarrow>
         \<not> isl (snd (processAndExtractQuestions cfg w)))"
proof -
  have ex: "\<forall>img a b c.
         snd (performOCR w img qts topics) = Inr [a, b, c]
         \<and> \<not> isl (snd (processQuestion cfg w qts (xw_path_basename w img) a))
         \<and> find (\<lambda>qt. qt_name qt = q_question_type_name b) qts = None
         \<and> \<not> isl (snd (processQuestion cfg w qts (xw_path_basename w img) c)) \<longrightarrow>
         length (image_records cfg w qts topics img) = 2
         \<and> image_failures cfg w qts topics img = 1"
  proof (intro allI impI)
    fix img a b c
    assume h: "snd (performOCR w img qts topics) = Inr [a, b, c]
         \<and> \<not> isl (snd (processQuestion cfg w qts (xw_path_basename w img) a))
         \<and> find (\<lambda>qt. qt_name qt = q_question_type_name b) qts = None
         \<and> \<not> isl (snd (processQuestion cfg w qts (xw_path_basename w img) c))"
    then have fb: "isl (snd (processQuestion cfg w qts (xw_path_basename w img) b))"
      by (simp add: unresolved_label_fails)
    from h obtain ra rc
      where "snd (processQuestion cfg w qts (xw_path_basename w img) a) = Inr ra"
        and "snd (processQuestion cfg w qts (xw_path_basename w img) c) = Inr rc"
      by (cases "snd (processQuestion cfg w qts (xw_path_basename w img) a)";
          cases "snd (processQuestion cfg w qts (xw_path_basename w img) c)") auto
    moreover from fb obtain e
      where "snd (processQuestion cfg w qts (xw_path_basename w img) b) = Inl e"
      by (cases "snd (processQuestion cfg w qts (xw_path_basename w img) b)") auto
    ultimately show "length (image_records cfg w qts topics img) = 2
         \<and> image_failures cfg w qts topics img = 1"
      using h by (simp add: image_records_def image_failures_def outcomes_def successes_simps)
  qed
  have d: "\<forall>types tops files.
         fetchQuestionTypes (xw_error w) (xw_question_types w) (xc_subject cfg) = Inr types
         \<and> fetchTopics w (xc_subject cfg) = Inr tops
         \<and> readImageFiles w (xc_pastpapersFolder cfg) = Inr files
         \<and> xw_write_error w = None \<longrightarrow>
         \<not> isl (snd (processAndExtractQuestions cfg w))"
  proof (intro allI impI)
    fix types tops files
    assume "fetchQuestionTypes (xw_error w) (xw_question_types w) (xc_subject cfg) = Inr types
         \<and> fetchTopics w (xc_subject cfg) = Inr tops
         \<and> readImageFiles w (xc_pastpapersFolder cfg) = Inr files
         \<and> xw_write_error w = None"
    then have s: "fetchQuestionTypes (xw_error w) (xw_question_types w) (xc_subject cfg) = Inr types"
      "fetchTopics w (xc_subject cfg) = Inr tops"
      "readImageFiles w (xc_pastpapersFolder cfg) = Inr files" and wr: "xw_write_error w = None"
      by simp_all
    show "\<not> isl (snd (processAndExtractQuestions cfg w))"
      by (simp add: run_unfold [OF s] wr Let_def)
  qed
  have a: "image_records cfg w qts topics img
           = successes (outcomes cfg w qts (xw_path_basename w img) qs)
         \<and> length (image_records cfg w qts topics img) + image_failures cfg w qts topics img
           = length qs"
    if "snd (performOCR w img qts topics) = Inr qs" for img qs
    using that length_successes [of "outcomes cfg w qts (xw_path_basename w img) qs"]
    by (simp add: image_records_def image_failures_def outcomes_def)
  have b: "isl (snd (processQuestion cfg w qts fn q))"
    if "find (\<lambda>qt. qt_name qt = q_question_type_name q) qts = None
        \<or> isl (xw_embed w (grounding_text q))" for fn q
    using that unresolved_label_fails [of q qts cfg w fn]
      embedding_failure_fails [of w q _ cfg qts fn]
    by (auto simp: isl_def)
  have c: "allRecords (processImages cfg w qts topics imgs initial_progress)
             = concat (map (image_records cfg w qts topics) imgs)"
    "errorCount (processImages cfg w qts topics imgs initial_progress)
       = sum_list (map (image_failures cfg w qts topics) imgs)"
    "length (reported (processImages cfg w qts topics imgs initial_progress))
       = errorCount (processImages cfg w qts topics imgs initial_progress)"
    "successCount (processImages cfg w qts topics imgs initial_progress)
       = length (filter (\<lambda>img. \<not> isl (snd (performOCR w img qts topics))) imgs)"
    using processImages_effect [of cfg w qts topics imgs initial_progress]
    by (simp_all add: initial_progress_def)
  from a have a': "\<forall>img qs. snd (performOCR w img qts topics) = Inr qs \<longrightarrow>
         image_records cfg w qts topics img
           = successes (outcomes cfg w qts (xw_path_basename w img) qs)
         \<and> length (image_records cfg w qts topics img) + image_failures cfg w qts topics img
           = length qs"
    by blast
  from b have b': "\<forall>fn q. find (\<lambda>qt. qt_name qt = q_question_type_name q) qts = None
              \<or> isl (xw_embed w (grounding_text q)) \<longrightarrow>
         isl (snd (processQuestion cfg w qts fn q))"
    by blast
  show ?thesis
    by (intro conjI) (rule c a' b' ex d)+
qed

text \<open>Witness of C4: one image, three candidates, the second with a label outside the
  vocabulary; two records (questions 1 and 3) and one counted failure.\<close>

theorem partial_failure_isolation_witness:
  "snd (performOCR (sample_ext_world three_candidates rejects_none) ''images/p1.png''
          sample_types []) = Inr three_candidates
   \<and> find (\<lambda>qt. qt_name qt = q_question_type_name (sample_question 2 ''unknown type''))
        sample_types = None
   \<and> map r_question_number
        (allRecords (processImages sample_ext_config (sample_ext_world three_candidates rejects_none)
           sample_types [] [''images/p1.png''] initial_progress)) = [1, 3]
   \<and> errorCount (processImages sample_ext_config (sample_ext_world three_candidates rejects_none)
        sample_types [] [''images/p1.png''] initial_progress) = 1
   \<and> length (reported (processImages sample_ext_config
                 (sample_ext_world three_candidates rejects_none)
                 sample_types [] [''images/p1.png''] initial_progress)) = 1
   \<and> successCount (processImages sample_ext_config (sample_ext_world three_candidates rejects_none)
        sample_types [] [''images/p1.png''] initial_progress) = 1
   \<and> length (image_records sample_ext_config (sample_ext_world three_candidates rejects_none)
               sample_types [] ''images/p1.png'') = 2
   \<and> image_failures sample_ext_config (sample_ext_world three_candidates rejects_none)
        sample_types [] ''images/p1.png'' = 1
   \<and> xw_write_error (sample_ext_world three_candidates rejects_none) = None
   \<and> \<not> isl (snd (processAndExtractQuestions sample_ext_config
                      (sample_ext_world three_candidates rejects_none)))"
proof -
  have wr: "xw_write_error (sample_ext_world three_candidates rejects_none) = None"
    by (simp add: sample_ext_world_def)
  let ?w = "sample_ext_world three_candidates rejects_none"
  have ocr: "performOCR ?w ''images/p1.png'' sample_types []
               = ([ReadFile ''images/p1.png'', Extract ''images/p1.png''], Inr three_candidates)"
    by (simp add: performOCR_def then_run_def generateObject_def sample_ext_world_def
        three_candidates_def sample_question_def PastPaperQuestionSchema_def)
  have nf: "find (\<lambda>qt. qt_name qt = q_question_type_name (sample_question 2 ''unknown type''))
              sample_types = None"
    by (simp add: sample_types_def sample_question_def)
  have bn: "xw_path_basename ?w ''images/p1.png'' = ''p1.png''"
    by (simp add: sample_ext_world_def)
  have out: "map r_question_number
               (successes (outcomes sample_ext_config ?w sample_types ''p1.png'' three_candidates))
             = [1, 3]"
    "length (filter isl (outcomes sample_ext_config ?w sample_types ''p1.png'' three_candidates))
       = 1"
    by (simp_all add: outcomes_def successes_def processQuestion_def then_run_def
        mapQuestionTypeToId_def generateEmbedding_def sample_ext_world_def three_candidates_def
        sample_question_def sample_types_def)
  have recs: "map r_question_number (image_records sample_ext_config ?w sample_types []
                ''images/p1.png'') = [1, 3]"
    using out(1) by (simp add: image_records_def ocr bn)
  have fails: "image_failures sample_ext_config ?w sample_types [] ''images/p1.png'' = 1"
    using out(2) by (simp add: image_failures_def ocr bn)
  from recs have len: "length (image_records sample_ext_config ?w sample_types []
                ''images/p1.png'') = 2"
    using length_map [of r_question_number
        "image_records sample_ext_config ?w sample_types [] ''images/p1.png''"]
    by simp
  from partial_failure_isolation [of sample_ext_config ?w sample_types "[]" "[''images/p1.png'']"]
    ocr nf recs fails len wr sample_steps [of three_candidates rejects_none]
  show ?thesis by simp
qed

subsection \<open>The report precedes persistence\<close>

lemma loop_no_insert:
  "filter is_insert (calls (processImages cfg w qts topics imgs initial_progress)) = []"
  using processImages_effect [of cfg w qts topics imgs initial_progress]
  by (simp add: loop_calls_no_insert initial_progress_def)

lemma review_block_embedding:
  "review_block w (i, r_embedding_update f r) = review_block w (i, r)"
  by (simp add: review_block_def)

lemma review_blocks_embedding:
  "map (review_block w) (enumerate n (map (r_embedding_update f) rs))
     = map (review_block w) (enumerate n rs)"
  by (induction rs arbitrary: n) (simp_all add: review_block_embedding)

lemma review_file_embedding:
  "review_file_content w (map (r_embedding_update f) rs) = review_file_content w rs"
  by (simp add: review_file_content_def review_blocks_embedding)

lemma review_file_text:
  "review_file_content w rs
     = ''=== EXTRACTED PAST PAPER QUESTIONS ==='' @ newline
       @ ''Total Questions: '' @ show_nat (length rs) @ newline
       @ ''Generated: '' @ xw_now w @ newline
       @ replicate 80 (CHR ''='') @ newline @ newline
       @ concat (map (\<lambda>(index, q).
           ''Question '' @ show_nat (index + 1) @ '':'' @ newline
           @ ''  Topic: '' @ r_topic q @ newline
           @ ''  Year: '' @ show_int (r_question_year q) @ newline
           @ ''  Question Number: '' @ show_int (r_question_number q) @ newline
           @ ''  Subject: '' @ r_subject q @ newline
           @ ''  Grade Level: '' @ r_grade_level q @ newline
           @ ''  Question Type ID: '' @ r_question_type_id q @ newline
           @ ''  Difficulty: '' @ show_int (r_difficulty q) @ ''/5'' @ newline
           @ ''  Explanation: '' @ r_explanation q @ newline
           @ ''  Question:'' @ r_question q @ newline
           @ ''  Answer:'' @ r_answer q @ newline
           @ ''  Metadata: '' @ xw_JSON_stringify w (r_metadata q) @ newline
           @ replicate 80 (CHR ''-'') @ newline @ newline)
         (enumerate 0 rs))"
  unfolding review_file_content_def review_block_def by (rule refl)

lemma report_call_order:
  assumes run: "processAndExtractQuestions cfg w = (t, result)"
  shows "(\<forall>res. result = Inr res \<and> allRecords (xr_progress res) \<noteq> [] \<longrightarrow>
            xw_write_error w = None
            \<and> xr_review_file res = Some (review_file_content w (allRecords (xr_progress res)))
            \<and> (\<exists>pre. t = pre @ FileWrite (xc_outputFile cfg)
                           # replicate (length (allRecords (xr_progress res)))
                               (StoreInsert ''pastpapers'')
                     \<and> filter is_insert pre = []))
       \<and> (\<forall>res. result = Inr res \<and> allRecords (xr_progress res) = [] \<longrightarrow>
            xr_review_file res = None \<and> filter is_insert t = [])
       \<and> (\<forall>e. result = Inl e \<longrightarrow> filter is_insert t = [])
       \<and> (\<forall>rs f. review_file_content w (map (r_embedding_update f) rs)
                   = review_file_content w rs)"
proof -
  let ?A = "fetchQuestionTypes (xw_error w) (xw_question_types w) (xc_subject cfg)"
  let ?B = "fetchTopics w (xc_subject cfg)"
  let ?C = "readImageFiles w (xc_pastpapersFolder cfg)"
  have main: "(\<forall>res. result = Inr res \<and> allRecords (xr_progress res) \<noteq> [] \<longrightarrow>
            xw_write_error w = None
            \<and> xr_review_file res = Some (review_file_content w (allRecords (xr_progress res)))
            \<and> (\<exists>pre. t = pre @ FileWrite (xc_outputFile cfg)
                           # replicate (length (allRecords (xr_progress res)))
                               (StoreInsert ''pastpapers'')
                     \<and> filter is_insert pre = []))
       \<and> (\<forall>res. result = Inr res \<and> allRecords (xr_progress res) = [] \<longrightarrow>
            xr_review_file res = None \<and> filter is_insert t = [])
       \<and> (\<forall>e. result = Inl e \<longrightarrow> filter is_insert t = [])"
  proof (cases "\<exists>qts topics imgs. ?A = Inr qts \<and> ?B = Inr topics \<and> ?C = Inr imgs")
    case False
    then obtain e where "?A = Inl e \<or> ?B = Inl e \<or> ?C = Inl e"
      by (cases ?A; cases ?B; cases ?C) auto
    from run_early_failure [OF this] run
    have "isl result" and "filter is_insert t = []" by simp_all
    then show ?thesis by (auto simp: isl_def)
  next
    case True
    then obtain qts topics imgs where s: "?A = Inr qts" "?B = Inr topics" "?C = Inr imgs"
      by blast
    define p where "p = processImages cfg w qts topics imgs initial_progress"
    define pre where "pre = [StoreQuery ''question_types'', StoreQuery ''textbooks'',
                 ReadDir (xc_pastpapersFolder cfg)] @ calls p"
    define u where "u = uploadToSupabase w (allRecords p) initial_upload"
    have pre: "filter is_insert pre = []"
      by (simp add: pre_def p_def loop_no_insert)
    have ucalls: "ins_calls u = replicate (length (allRecords p)) (StoreInsert ''pastpapers'')"
      using uploadToSupabase_effect [of w "allRecords p" initial_upload]
      by (simp add: u_def initial_upload_def)
    from run_unfold [OF s]
    have "processAndExtractQuestions cfg w =
       (if allRecords p = []
         then (pre, Inr \<lparr>xr_progress = p, xr_review_file = None, xr_upload = initial_upload\<rparr>)
         else (case xw_write_error w of
                 Some m \<Rightarrow> (pre @ [FileWrite (xc_outputFile cfg)], Inl (Error m))
               | None \<Rightarrow>
                   (pre @ FileWrite (xc_outputFile cfg) # ins_calls u,
                    Inr \<lparr>xr_progress = p,
                         xr_review_file = Some (review_file_content w (allRecords p)),
                         xr_upload = u\<rparr>)))"
      unfolding p_def pre_def u_def Let_def .
    with run
    have r: "(t, result) =
       (if allRecords p = []
         then (pre, Inr \<lparr>xr_progress = p, xr_review_file = None, xr_upload = initial_upload\<rparr>)
         else (case xw_write_error w of
                 Some m \<Rightarrow> (pre @ [FileWrite (xc_outputFile cfg)], Inl (Error m))
               | None \<Rightarrow>
                   (pre @ FileWrite (xc_outputFile cfg) # ins_calls u,
                    Inr \<lparr>xr_progress = p,
                         xr_review_file = Some (review_file_content w (allRecords p)),
                         xr_upload = u\<rparr>)))"
      by simp
    show ?thesis
    proof (cases "allRecords p = []")
      case True
      with r pre show ?thesis by auto
    next
      case False
      show ?thesis
      proof (cases "xw_write_error w")
        case (Some m)
        with r False pre show ?thesis by auto
      next
        case None
        with r False have t: "t = pre @ FileWrite (xc_outputFile cfg) # ins_calls u"
          and res: "result = Inr \<lparr>xr_progress = p,
                         xr_review_file = Some (review_file_content w (allRecords p)),
                         xr_upload = u\<rparr>"
          by simp_all
        from t ucalls pre False None show ?thesis
          unfolding res by auto
      qed
    qed
  qed
  with review_file_embedding show ?thesis by blast
qed


text \<open>
  Claim C7, as the code has it.  In a run that returns with at least one record, the
  report was written, and its text is: the title line, the line \<open>Total Questions\<close> with
  the number of records of the run, the line \<open>Generated\<close> with the time, a rule, and then
  for every record of the run, in order, one numbered block with the record's topic, year,
  question number, subject, grade level, question type id, difficulty, explanation,
  question, answer and metadata, closed by a rule.  The calls of the run are: calls that
  are no insert, then the write of the report, then one insert per record; whether
  inserts fail plays no role.  A run without records writes no report and attempts no
  insert.  When the loop has produced a record and the report cannot be written, the run
  ends with the error of the write, the write being its last call; a run that ends in an
  error has attempted no insert.  When the report can be written, the run returns with the
  loop's records.  The report's text does not depend on the embeddings: a block holds
  every field of its record but the embedding.
\<close>

theorem report_before_persistence:
  assumes run: "processAndExtractQuestions cfg w = (t, result)"
  shows "(\<forall>res. result = Inr res \<and> allRecords (xr_progress res) \<noteq> [] \<longrightarrow>
            xw_write_error w = None
            \<and> xr_review_file res = Some (review_file_content w (allRecords (xr_progress res)))
            \<and> xr_review_file res
                = Some (''=== EXTRACTED PAST PAPER QUESTIONS ==='' @ newline
                    @ ''Total Questions: '' @ show_nat (length (allRecords (xr_progress res))) @ newline
                    @ ''Generated: '' @ xw_now w @ newline
                    @ replicate 80 (CHR ''='') @ newline @ newline
                    @ concat (map (\<lambda>(index, q).
                        ''Question '' @ show_nat (index + 1) @ '':'' @ newline
                        @ ''  Topic: '' @ r_topic q @ newline
                        @ ''  Year: '' @ show_int (r_question_year q) @ newline
                        @ ''  Question Number: '' @ show_int (r_question_number q) @ newline
                        @ ''  Subject: '' @ r_subject q @ newline
                        @ ''  Grade Level: '' @ r_grade_level q @ newline
                        @ ''  Question Type ID: '' @ r_question_type_id q @ newline
                        @ ''  Difficulty: '' @ show_int (r_difficulty q) @ ''/5'' @ newline
                        @ ''  Explanation: '' @ r_explanation q @ newline
                        @ ''  Question:'' @ r_question q @ newline
                        @ ''  Answer:'' @ r_answer q @ newline
                        @ ''  Metadata: '' @ xw_JSON_stringify w (r_metadata q) @ newline
                        @ replicate 80 (CHR ''-'') @ newline @ newline)
                      (enumerate 0 (allRecords (xr_progress res)))))
            \<and> (\<exists>pre. t = pre @ FileWrite (xc_outputFile cfg)
                           # replicate (length (allRecords (xr_progress res)))
                               (StoreInsert ''pastpapers'')
                     \<and> filter is_insert pre = []))
       \<and> (\<forall>res. result = Inr res \<and> allRecords (xr_progress res) = [] \<longrightarrow>
            xr_review_file res = None \<and> filter is_insert t = [])
       \<and> (\<forall>e. result = Inl e \<longrightarrow> filter is_insert t = [])
       \<and> (\<forall>rs f. review_file_content w (map (r_embedding_update f) rs)
                   = review_file_content w rs)
       \<and> (\<forall>qts topics imgs m.
            fetchQuestionTypes (xw_error w) (xw_question_types w) (xc_subject cfg) = Inr qts
            \<and> fetchTopics w (xc_subject cfg) = Inr topics
            \<and> readImageFiles w (xc_pastpapersFolder cfg) = Inr imgs
            \<and> allRecords (processImages cfg w qts topics imgs initial_progress) \<noteq> []
            \<and> xw_write_error w = Some m \<longrightarrow>
            result = Inl (Error m)
            \<and> t = [StoreQuery ''question_types'', StoreQuery ''textbooks'',
                     ReadDir (xc_pastpapersFolder cfg)]
                    @ calls (processImages cfg w qts topics imgs initial_progress)
                    @ [FileWrite (xc_outputFile cfg)])
       \<and> (\<forall>qts topics imgs.
            fetchQuestionTypes (xw_error w) (xw_question_types w) (xc_subject cfg) = Inr qts
            \<and> fetchTopics w (xc_subject cfg) = Inr topics
            \<and> readImageFiles w (xc_pastpapersFolder cfg) = Inr imgs
            \<and> allRecords (processImages cfg w qts topics imgs initial_progress) \<noteq> []
            \<and> xw_write_error w = None \<longrightarrow>
            (\<exists>res. result = Inr res
                   \<and> xr_progress res = processImages cfg w qts topics imgs initial_progress))"
proof -
  note order = report_call_order [OF run]
  have fail: "result = Inl (Error m)
            \<and> t = [StoreQuery ''question_types'', StoreQuery ''textbooks'',
                     ReadDir (xc_pastpapersFolder cfg)]
                    @ calls (processImages cfg w qts topics imgs initial_progress)
                    @ [FileWrite (xc_outputFile cfg)]"
    if "fetchQuestionTypes (xw_error w) (xw_question_types w) (xc_subject cfg) = Inr qts
            \<and> fetchTopics w (xc_subject cfg) = Inr topics
            \<and> readImageFiles w (xc_pastpapersFolder cfg) = Inr imgs
            \<and> allRecords (processImages cfg w qts topics imgs initial_progress) \<noteq> []
            \<and> xw_write_error w = Some m" for qts topics imgs m
  proof -
    from that have s: "fetchQuestionTypes (xw_error w) (xw_question_types w) (xc_subject cfg) = Inr qts"
      "fetchTopics w (xc_subject cfg) = Inr topics"
      "readImageFiles w (xc_pastpapersFolder cfg) = Inr imgs"
      and ne: "allRecords (processImages cfg w qts topics imgs initial_progress) \<noteq> []"
      and wr: "xw_write_error w = Some m"
      by simp_all
    from run_unfold [OF s] run ne wr show ?thesis
      by (simp add: Let_def)
  qed
  have ok: "\<exists>res. result = Inr res
                   \<and> xr_progress res = processImages cfg w qts topics imgs initial_progress"
    if "fetchQuestionTypes (xw_error w) (xw_question_types w) (xc_subject cfg) = Inr qts
            \<and> fetchTopics w (xc_subject cfg) = Inr topics
            \<and> readImageFiles w (xc_pastpapersFolder cfg) = Inr imgs
            \<and> allRecords (processImages cfg w qts topics imgs initial_progress) \<noteq> []
            \<and> xw_write_error w = None" for qts topics imgs
  proof -
    from that have s: "fetchQuestionTypes (xw_error w) (xw_question_types w) (xc_subject cfg) = Inr qts"
      "fetchTopics w (xc_subject cfg) = Inr topics"
      "readImageFiles w (xc_pastpapersFolder cfg) = Inr imgs"
      and ne: "allRecords (processImages cfg w qts topics imgs initial_progress) \<noteq> []"
      and wr: "xw_write_error w = None"
      by simp_all
    from run_unfold [OF s] run ne wr show ?thesis
      by (simp add: Let_def)
  qed
  have written: "xr_review_file res
                = Some (''=== EXTRACTED PAST PAPER QUESTIONS ==='' @ newline
                    @ ''Total Questions: '' @ show_nat (length (allRecords (xr_progress res))) @ newline
                    @ ''Generated: '' @ xw_now w @ newline
                    @ replicate 80 (CHR ''='') @ newline @ newline
                    @ concat (map (\<lambda>(index, q).
                        ''Question '' @ show_nat (index + 1) @ '':'' @ newline
                        @ ''  Topic: '' @ r_topic q @ newline
                        @ ''  Year: '' @ show_int (r_question_year q) @ newline
                        @ ''  Question Number: '' @ show_int (r_question_number q) @ newline
                        @ ''  Subject: '' @ r_subject q @ newline
                        @ ''  Grade Level: '' @ r_grade_level q @ newline
                        @ ''  Question Type ID: '' @ r_question_type_id q @ newline
                        @ ''  Difficulty: '' @ show_int (r_difficulty q) @ ''/5'' @ newline
                        @ ''  Explanation: '' @ r_explanation q @ newline
                        @ ''  Question:'' @ r_question q @ newline
                        @ ''  Answer:'' @ r_answer q @ newline
                        @ ''  Metadata: '' @ xw_JSON_stringify w (r_metadata q) @ newline
                        @ replicate 80 (CHR ''-'') @ newline @ newline)
                      (enumerate 0 (allRecords (xr_progress res)))))"
    if "result = Inr res \<and> allRecords (xr_progress res) \<noteq> []" for res
  proof -
    from order that
    have "xr_review_file res = Some (review_file_content w (allRecords (xr_progress res)))"
      by blast
    then show ?thesis
      by (simp only: review_file_text)
  qed
  from order fail ok written show ?thesis
    by blast
qed

lemma unwritable_steps:
  "fetchQuestionTypes (xw_error unwritable_world) (xw_question_types unwritable_world)
     (xc_subject sample_ext_config) = Inr sample_types"
  "fetchTopics unwritable_world (xc_subject sample_ext_config)
     = Inr [\<lparr>t_topic = ''T'', t_subject = ''S''\<rparr>]"
  "readImageFiles unwritable_world (xc_pastpapersFolder sample_ext_config)
     = Inr [''images/p1.png'']"
  by (simp_all add: fetchQuestionTypes_def fetchTopics_def readImageFiles_def eq_rows_def
      endsWith_def unwritable_world_def sample_ext_world_def sample_ext_config_def
      sample_types_def)

lemma unwritable_loop:
  "processImages sample_ext_config unwritable_world sample_types
     [\<lparr>t_topic = ''T'', t_subject = ''S''\<rparr>] [''images/p1.png''] initial_progress
   = \<lparr>allRecords = [extracted_record 1 ''grammar'' ''q1'', extracted_record 3 ''reading'' ''q2''],
      successCount = 1, errorCount = 1,
      reported = [QuestionFailure 2
                    (Error (''Question type '' @ [CHR 0x22] @ ''unknown type'' @ [CHR 0x22]
                            @ '' not found in available types''))],
      calls = [ReadFile ''images/p1.png'', Extract ''images/p1.png'',
               Embed (''Q'' @ newline @ ''A'' @ newline @ ''E''),
               Embed (''Q'' @ newline @ ''A'' @ newline @ ''E'')]\<rparr>"
  by (simp add: performOCR_def then_run_def generateObject_def PastPaperQuestionSchema_def
      processQuestion_def mapQuestionTypeToId_def generateEmbedding_def grounding_text_def
      unwritable_world_def sample_ext_world_def sample_ext_config_def three_candidates_def
      sample_question_def sample_types_def extracted_record_def initial_progress_def
      endsWith_def newline_def Let_def)

lemma unwritable_run:
  "processAndExtractQuestions sample_ext_config unwritable_world
   = ([StoreQuery ''question_types'', StoreQuery ''textbooks'', ReadDir ''images'',
        ReadFile ''images/p1.png'', Extract ''images/p1.png'',
        Embed (''Q'' @ newline @ ''A'' @ newline @ ''E''),
        Embed (''Q'' @ newline @ ''A'' @ newline @ ''E'')]
       @ [FileWrite ''review.txt''],
      Inl (Error ''disk full''))"
proof -
  have w: "xw_write_error unwritable_world = Some ''disk full''"
    "xc_pastpapersFolder sample_ext_config = ''images''"
    "xc_outputFile sample_ext_config = ''review.txt''"
    by (simp_all add: unwritable_world_def sample_ext_config_def)
  note u = run_unfold [OF unwritable_steps, unfolded unwritable_loop]
  show ?thesis
    by (simp add: u w Let_def del: uploadToSupabase.simps)
qed

lemma sample_report_text:
  "review_file_content (sample_ext_world three_candidates rejects)
     [extracted_record 1 ''grammar'' ''q1'', extracted_record 3 ''reading'' ''q2'']
   = ''=== EXTRACTED PAST PAPER QUESTIONS ==='' @ newline
                   @ ''Total Questions: 2'' @ newline
                   @ ''Generated: t1'' @ newline
                   @ replicate 80 (CHR ''='') @ newline @ newline
                   @ ''Question 1:'' @ newline
                   @ ''  Topic: T'' @ newline
                   @ ''  Year: 2023'' @ newline
                   @ ''  Question Number: 1'' @ newline
                   @ ''  Subject: S'' @ newline
                   @ ''  Grade Level: DSE'' @ newline
                   @ ''  Question Type ID: q1'' @ newline
                   @ ''  Difficulty: 3/5'' @ newline
                   @ ''  Explanation: E'' @ newline
                   @ ''  Question:Q'' @ newline
                   @ ''  Answer:A'' @ newline
                   @ ''  Metadata: source_image=p1.png;extracted_at=t1;question_type_name=grammar;''
                   @ newline
                   @ replicate 80 (CHR ''-'') @ newline @ newline
                   @ ''Question 2:'' @ newline
                   @ ''  Topic: T'' @ newline
                   @ ''  Year: 2023'' @ newline
                   @ ''  Question Number: 3'' @ newline
                   @ ''  Subject: S'' @ newline
                   @ ''  Grade Level: DSE'' @ newline
                   @ ''  Question Type ID: q2'' @ newline
                   @ ''  Difficulty: 3/5'' @ newline
                   @ ''  Explanation: E'' @ newline
                   @ ''  Question:Q'' @ newline
                   @ ''  Answer:A'' @ newline
                   @ ''  Metadata: source_image=p1.png;extracted_at=t1;question_type_name=reading;''
                   @ newline
                   @ replicate 80 (CHR ''-'') @ newline @ newline"
  by (simp add: review_file_content_def review_block_def extracted_record_def
      sample_ext_world_def newline_def show_int_def)

text \<open>Witness of C7: the sample run with a store that refuses every insert (the report,
  with its two blocks, is written before the two refused inserts), and the sample run with
  a report that cannot be written.\<close>

theorem report_before_persistence_witness:
  "fst (processAndExtractQuestions sample_ext_config (sample_ext_world three_candidates rejects_all))
     = [StoreQuery ''question_types'', StoreQuery ''textbooks'', ReadDir ''images'',
        ReadFile ''images/p1.png'', Extract ''images/p1.png'',
        Embed (''Q'' @ newline @ ''A'' @ newline @ ''E''),
        Embed (''Q'' @ newline @ ''A'' @ newline @ ''E'')]
       @ [FileWrite ''review.txt'', StoreInsert ''pastpapers'', StoreInsert ''pastpapers'']
   \<and> (case snd (processAndExtractQuestions sample_ext_config
                   (sample_ext_world three_candidates rejects_all)) of
        Inl e \<Rightarrow> False
      | Inr res \<Rightarrow>
          allRecords (xr_progress res)
            = [extracted_record 1 ''grammar'' ''q1'', extracted_record 3 ''reading'' ''q2'']
          \<and> xr_review_file res
            = Some (''=== EXTRACTED PAST PAPER QUESTIONS ==='' @ newline
                   @ ''Total Questions: 2'' @ newline
                   @ ''Generated: t1'' @ newline
                   @ replicate 80 (CHR ''='') @ newline @ newline
                   @ ''Question 1:'' @ newline
                   @ ''  Topic: T'' @ newline
                   @ ''  Year: 2023'' @ newline
                   @ ''  Question Number: 1'' @ newline
                   @ ''  Subject: S'' @ newline
                   @ ''  Grade Level: DSE'' @ newline
                   @ ''  Question Type ID: q1'' @ newline
                   @ ''  Difficulty: 3/5'' @ newline
                   @ ''  Explanation: E'' @ newline
                   @ ''  Question:Q'' @ newline
                   @ ''  Answer:A'' @ newline
                   @ ''  Metadata: source_image=p1.png;extracted_at=t1;question_type_name=grammar;''
                   @ newline
                   @ replicate 80 (CHR ''-'') @ newline @ newline
                   @ ''Question 2:'' @ newline
                   @ ''  Topic: T'' @ newline
                   @ ''  Year: 2023'' @ newline
                   @ ''  Question Number: 3'' @ newline
                   @ ''  Subject: S'' @ newline
                   @ ''  Grade Level: DSE'' @ newline
                   @ ''  Question Type ID: q2'' @ newline
                   @ ''  Difficulty: 3/5'' @ newline
                   @ ''  Explanation: E'' @ newline
                   @ ''  Question:Q'' @ newline
                   @ ''  Answer:A'' @ newline
                   @ ''  Metadata: source_image=p1.png;extracted_at=t1;question_type_name=reading;''
                   @ newline
                   @ replicate 80 (CHR ''-'') @ newline @ newline)
          \<and> ins_rows (xr_upload res) = []
          \<and> ins_errorCount (xr_upload res) = 2)
   \<and> xw_write_error (sample_ext_world three_candidates rejects_all) = None
   \<and> xw_write_error unwritable_world = Some ''disk full''
   \<and> allRecords (processImages sample_ext_config unwritable_world sample_types
                   [\<lparr>t_topic = ''T'', t_subject = ''S''\<rparr>] [''images/p1.png''] initial_progress)
       = [extracted_record 1 ''grammar'' ''q1'', extracted_record 3 ''reading'' ''q2'']
   \<and> processAndExtractQuestions sample_ext_config unwritable_world
       = ([StoreQuery ''question_types'', StoreQuery ''textbooks'', ReadDir ''images'',
        ReadFile ''images/p1.png'', Extract ''images/p1.png'',
        Embed (''Q'' @ newline @ ''A'' @ newline @ ''E''),
        Embed (''Q'' @ newline @ ''A'' @ newline @ ''E'')]
           @ [FileWrite ''review.txt''],
          Inl (Error ''disk full''))"
proof -
  let ?w = "sample_ext_world three_candidates rejects_all"
  let ?rs = "[extracted_record 1 ''grammar'' ''q1'', extracted_record 3 ''reading'' ''q2'']"
  have rej: "xw_insert_error ?w r = Some ''insert refused''" for r
    by (simp add: sample_ext_world_def rejects_all_def)
  have up: "ins_rows (uploadToSupabase ?w ?rs initial_upload) = []"
    "ins_errorCount (uploadToSupabase ?w ?rs initial_upload) = 2"
    using uploadToSupabase_effect [of ?w ?rs initial_upload]
    by (simp_all add: rej initial_upload_def del: uploadToSupabase.simps)
  note sr = sample_run [of rejects_all, unfolded sample_loop]
  have c1: "fst (processAndExtractQuestions sample_ext_config ?w)
     = [StoreQuery ''question_types'', StoreQuery ''textbooks'', ReadDir ''images'',
        ReadFile ''images/p1.png'', Extract ''images/p1.png'',
        Embed (''Q'' @ newline @ ''A'' @ newline @ ''E''),
        Embed (''Q'' @ newline @ ''A'' @ newline @ ''E'')]
       @ [FileWrite ''review.txt'', StoreInsert ''pastpapers'', StoreInsert ''pastpapers'']"
    by (simp add: sr)
  from report_before_persistence [OF sr] up
  have c2: "case snd (processAndExtractQuestions sample_ext_config ?w) of
        Inl e \<Rightarrow> False
      | Inr res \<Rightarrow>
          allRecords (xr_progress res) = ?rs
          \<and> xr_review_file res
            = Some (''=== EXTRACTED PAST PAPER QUESTIONS ==='' @ newline
                   @ ''Total Questions: 2'' @ newline
                   @ ''Generated: t1'' @ newline
                   @ replicate 80 (CHR ''='') @ newline @ newline
                   @ ''Question 1:'' @ newline
                   @ ''  Topic: T'' @ newline
                   @ ''  Year: 2023'' @ newline
                   @ ''  Question Number: 1'' @ newline
                   @ ''  Subject: S'' @ newline
                   @ ''  Grade Level: DSE'' @ newline
                   @ ''  Question Type ID: q1'' @ newline
                   @ ''  Difficulty: 3/5'' @ newline
                   @ ''  Explanation: E'' @ newline
                   @ ''  Question:Q'' @ newline
                   @ ''  Answer:A'' @ newline
                   @ ''  Metadata: source_image=p1.png;extracted_at=t1;question_type_name=grammar;''
                   @ newline
                   @ replicate 80 (CHR ''-'') @ newline @ newline
                   @ ''Question 2:'' @ newline
                   @ ''  Topic: T'' @ newline
                   @ ''  Year: 2023'' @ newline
                   @ ''  Question Number: 3'' @ newline
                   @ ''  Subject: S'' @ newline
                   @ ''  Grade Level: DSE'' @ newline
                   @ ''  Question Type ID: q2'' @ newline
                   @ ''  Difficulty: 3/5'' @ newline
                   @ ''  Explanation: E'' @ newline
                   @ ''  Question:Q'' @ newline
                   @ ''  Answer:A'' @ newline
                   @ ''  Metadata: source_image=p1.png;extracted_at=t1;question_type_name=reading;''
                   @ newline
                   @ replicate 80 (CHR ''-'') @ newline @ newline)
          \<and> ins_rows (xr_upload res) = []
          \<and> ins_errorCount (xr_upload res) = 2"
    by (simp add: sr sample_report_text del: uploadToSupabase.simps)
  have c3: "xw_write_error ?w = None"
    by (simp add: sample_ext_world_def)
  have c4: "xw_write_error unwritable_world = Some ''disk full''"
    by (simp add: unwritable_world_def)
  have c5: "allRecords (processImages sample_ext_config unwritable_world sample_types
                   [\<lparr>t_topic = ''T'', t_subject = ''S''\<rparr>] [''images/p1.png''] initial_progress)
       = ?rs"
    by (simp only: unwritable_loop progress.simps)
  from report_before_persistence [OF unwritable_run] c1 c2 c3 c4 c5 unwritable_run
  show ?thesis
    by - (intro conjI, assumption+)
qed

text \<open>
  Counterexample to C7 as stated: two records that differ only in the embedding have the
  same report, whose block shows every other field and no embedding; a block is not a dump
  of every field.
\<close>

theorem report_omits_embedding_counterexample:
  "review_file_content (sample_ext_world three_candidates rejects_none) [sample_record [1 / 2, 1]]
     = ''=== EXTRACTED PAST PAPER QUESTIONS ==='' @ newline
       @ ''Total Questions: 1'' @ newline
       @ ''Generated: t1'' @ newline
       @ replicate 80 (CHR ''='') @ newline @ newline
       @ ''Question 1:'' @ newline
       @ ''  Topic: T'' @ newline
       @ ''  Year: 2023'' @ newline
       @ ''  Question Number: 1'' @ newline
       @ ''  Subject: S'' @ newline
       @ ''  Grade Level: DSE'' @ newline
       @ ''  Question Type ID: q1'' @ newline
       @ ''  Difficulty: 3/5'' @ newline
       @ ''  Explanation: E'' @ newline
       @ ''  Question:Q'' @ newline
       @ ''  Answer:A'' @ newline
       @ ''  Metadata: source_image=p1.png;'' @ newline
       @ replicate 80 (CHR ''-'') @ newline @ newline
   \<and> review_file_content (sample_ext_world three_candidates rejects_none) [sample_record [0, 0]]
     = ''=== EXTRACTED PAST PAPER QUESTIONS ==='' @ newline
       @ ''Total Questions: 1'' @ newline
       @ ''Generated: t1'' @ newline
       @ replicate 80 (CHR ''='') @ newline @ newline
       @ ''Question 1:'' @ newline
       @ ''  Topic: T'' @ newline
       @ ''  Year: 2023'' @ newline
       @ ''  Question Number: 1'' @ newline
       @ ''  Subject: S'' @ newline
       @ ''  Grade Level: DSE'' @ newline
       @ ''  Question Type ID: q1'' @ newline
       @ ''  Difficulty: 3/5'' @ newline
       @ ''  Explanation: E'' @ newline
       @ ''  Question:Q'' @ newline
       @ ''  Answer:A'' @ newline
       @ ''  Metadata: source_image=p1.png;'' @ newline
       @ replicate 80 (CHR ''-'') @ newline @ newline
   \<and> r_embedding (sample_record [1 / 2, 1]) = [1 / 2, 1]
   \<and> r_embedding (sample_record [0, 0]) = [0, 0]
   \<and> sample_record [1 / 2, 1] \<noteq> sample_record [0, 0]"
  by (simp add: review_file_content_def review_block_def sample_record_def
      sample_ext_world_def newline_def show_int_def)

subsection \<open>Records reach persistence with the model's embedding\<close>

text \<open>
  Claim C8, as the code has it.  In every run that returns, every record handed to the
  upload, and so every row the store receives, carries as its embedding the vector the
  embedding model answered to the text \<open>question + newline + answer + newline +
  explanation\<close> of the record, which are the question, answer and explanation of a
  candidate the extraction returned, and the run has made that very call.  The vector is
  taken as it is: the embedding of a record is empty exactly when the model's answer to its
  text is, so with a model that never answers with an empty vector every record that
  reaches persistence has a non-empty embedding.
\<close>

theorem persisted_records_embedded:
  assumes run: "processAndExtractQuestions cfg w = (t, Inr res)"
  shows "set (ins_rows (xr_upload res)) \<subseteq> set (allRecords (xr_progress res))
       \<and> (\<forall>r\<in>set (allRecords (xr_progress res)).
            xw_embed w (r_question r @ newline @ r_answer r @ newline @ r_explanation r)
                = Inr (r_embedding r)
            \<and> Embed (r_question r @ newline @ r_answer r @ newline @ r_explanation r) \<in> set t
            \<and> (\<exists>qts topics img qs q.
                  snd (performOCR w img qts topics) = Inr qs \<and> q \<in> set qs
                  \<and> r_question r = q_question q \<and> r_answer r = q_answer q
                  \<and> r_explanation r = q_explanation q)
            \<and> ((\<forall>input v. xw_embed w input = Inr v \<longrightarrow> v \<noteq> []) \<longrightarrow> r_embedding r \<noteq> []))"
proof -
  from run_records [OF run] obtain qts topics imgs
    where p: "xr_progress res = processImages cfg w qts topics imgs initial_progress"
      and c: "set (concat (map (image_calls cfg w qts topics) imgs)) \<subseteq> set t"
      and u: "set (ins_rows (xr_upload res)) \<subseteq> set (allRecords (xr_progress res))"
    by blast
  have "xw_embed w (r_question r @ newline @ r_answer r @ newline @ r_explanation r)
                = Inr (r_embedding r)
            \<and> Embed (r_question r @ newline @ r_answer r @ newline @ r_explanation r) \<in> set t
            \<and> (\<exists>qts topics img qs q.
                  snd (performOCR w img qts topics) = Inr qs \<and> q \<in> set qs
                  \<and> r_question r = q_question q \<and> r_answer r = q_answer q
                  \<and> r_explanation r = q_explanation q)
            \<and> ((\<forall>input v. xw_embed w input = Inr v \<longrightarrow> v \<noteq> []) \<longrightarrow> r_embedding r \<noteq> [])"
    if "r \<in> set (allRecords (xr_progress res))" for r
  proof -
    from that p loop_record_origin [of r cfg w qts topics imgs] obtain img qs q
      where img: "img \<in> set imgs" and ocr: "snd (performOCR w img qts topics) = Inr qs"
        and q: "q \<in> set qs"
        and pq: "snd (processQuestion cfg w qts (xw_path_basename w img) q) = Inr r"
        and e: "Embed (record_text r) \<in> set (image_calls cfg w qts topics img)"
      by auto
    note f = processQuestion_Inr [OF pq]
    from f(10,11) have emb: "xw_embed w (record_text r) = Inr (r_embedding r)"
      by simp
    then have ne: "(\<forall>input v. xw_embed w input = Inr v \<longrightarrow> v \<noteq> []) \<longrightarrow> r_embedding r \<noteq> []"
      by blast
    from e img c have call: "Embed (record_text r) \<in> set t" by auto
    from ocr q f(4,5,6) have "\<exists>qts topics img qs q.
                  snd (performOCR w img qts topics) = Inr qs \<and> q \<in> set qs
                  \<and> r_question r = q_question q \<and> r_answer r = q_answer q
                  \<and> r_explanation r = q_explanation q"
      by blast
    with ne emb call show ?thesis
      by (simp add: record_text_def)
  qed
  with u show ?thesis by blast
qed

text \<open>Witness of C8: the sample run, whose embedding model answers every text with a
  vector of two numbers.\<close>

theorem persisted_records_embedded_witness:
  "xw_embed (sample_ext_world three_candidates rejects_none) = (\<lambda>input. Inr [1 / 2, 1])
   \<and> (case snd (processAndExtractQuestions sample_ext_config
                   (sample_ext_world three_candidates rejects_none)) of
        Inl e \<Rightarrow> False
      | Inr res \<Rightarrow>
          ins_rows (xr_upload res)
            = [extracted_record 1 ''grammar'' ''q1'', extracted_record 3 ''reading'' ''q2'']
          \<and> map r_embedding (allRecords (xr_progress res)) = [[1 / 2, 1], [1 / 2, 1]])
   \<and> xw_embed (sample_ext_world three_candidates rejects_none)
        (''Q'' @ newline @ ''A'' @ newline @ ''E'') = Inr [1 / 2, 1]
   \<and> Embed (''Q'' @ newline @ ''A'' @ newline @ ''E'')
        \<in> set (fst (processAndExtractQuestions sample_ext_config
                      (sample_ext_world three_candidates rejects_none)))"
proof -
  let ?w = "sample_ext_world three_candidates rejects_none"
  let ?rs = "[extracted_record 1 ''grammar'' ''q1'', extracted_record 3 ''reading'' ''q2'']"
  have acc: "xw_insert_error ?w r = None" for r
    by (simp add: sample_ext_world_def rejects_none_def)
  have up: "ins_rows (uploadToSupabase ?w ?rs initial_upload) = ?rs"
    using uploadToSupabase_effect [of ?w ?rs initial_upload]
    by (simp add: acc initial_upload_def del: uploadToSupabase.simps)
  have emb: "xw_embed ?w (''Q'' @ newline @ ''A'' @ newline @ ''E'') = Inr [1 / 2, 1]"
    by (simp add: sample_ext_world_def)
  note sr = sample_run [of rejects_none, unfolded sample_loop]
  have fn: "xw_embed ?w = (\<lambda>input. Inr [1 / 2, 1])"
    by (simp add: sample_ext_world_def)
  have c2: "case snd (processAndExtractQuestions sample_ext_config ?w) of
        Inl e \<Rightarrow> False
      | Inr res \<Rightarrow>
          ins_rows (xr_upload res) = ?rs
          \<and> map r_embedding (allRecords (xr_progress res)) = [[1 / 2, 1], [1 / 2, 1]]"
    using up by (simp add: sr extracted_record_def del: uploadToSupabase.simps)
  have c4: "Embed (''Q'' @ newline @ ''A'' @ newline @ ''E'')
        \<in> set (fst (processAndExtractQuestions sample_ext_config ?w))"
    by (simp add: sr)
  from persisted_records_embedded [OF sr] fn c2 emb c4
  show ?thesis
    by - (intro conjI, assumption+)
qed

lemma empty_vector_steps:
  "fetchQuestionTypes (xw_error empty_vector_world) (xw_question_types empty_vector_world)
     (xc_subject sample_ext_config) = Inr sample_types"
  "fetchTopics empty_vector_world (xc_subject sample_ext_config)
     = Inr [\<lparr>t_topic = ''T'', t_subject = ''S''\<rparr>]"
  "readImageFiles empty_vector_world (xc_pastpapersFolder sample_ext_config)
     = Inr [''images/p1.png'']"
  by (simp_all add: fetchQuestionTypes_def fetchTopics_def readImageFiles_def eq_rows_def
      endsWith_def empty_vector_world_def sample_ext_world_def sample_ext_config_def
      sample_types_def)

lemma empty_vector_loop:
  "allRecords (processImages sample_ext_config empty_vector_world sample_types
     [\<lparr>t_topic = ''T'', t_subject = ''S''\<rparr>] [''images/p1.png''] initial_progress)
   = [r_embedding_update (\<lambda>v. []) (extracted_record 1 ''grammar'' ''q1''),
      r_embedding_update (\<lambda>v. []) (extracted_record 3 ''reading'' ''q2'')]"
  by (simp add: performOCR_def then_run_def generateObject_def PastPaperQuestionSchema_def
      processQuestion_def mapQuestionTypeToId_def generateEmbedding_def grounding_text_def
      empty_vector_world_def sample_ext_world_def sample_ext_config_def three_candidates_def
      sample_question_def sample_types_def extracted_record_def initial_progress_def
      endsWith_def newline_def Let_def)

text \<open>
  Counterexample to C8 as stated: with an embedding model that answers with the empty
  vector, the two records of the sample run are handed to the upload and inserted with an
  empty embedding.
\<close>

theorem empty_embedding_persisted_counterexample:
  "xw_embed empty_vector_world (''Q'' @ newline @ ''A'' @ newline @ ''E'') = Inr []
   \<and> (case snd (processAndExtractQuestions sample_ext_config empty_vector_world) of
        Inl e \<Rightarrow> False
      | Inr res \<Rightarrow>
          map r_question_number (allRecords (xr_progress res)) = [1, 3]
          \<and> map r_embedding (allRecords (xr_progress res)) = [[], []]
          \<and> map r_question_number (ins_rows (xr_upload res)) = [1, 3]
          \<and> map r_embedding (ins_rows (xr_upload res)) = [[], []])"
proof -
  let ?rs = "[r_embedding_update (\<lambda>v. []) (extracted_record 1 ''grammar'' ''q1''),
      r_embedding_update (\<lambda>v. []) (extracted_record 3 ''reading'' ''q2'')]"
  have w: "xw_write_error empty_vector_world = None"
    "xw_insert_error empty_vector_world r = None" for r
    by (simp_all add: empty_vector_world_def sample_ext_world_def rejects_none_def)
  have up: "ins_rows (uploadToSupabase empty_vector_world ?rs initial_upload) = ?rs"
    using uploadToSupabase_effect [of empty_vector_world ?rs initial_upload]
    by (simp add: w initial_upload_def del: uploadToSupabase.simps)
  have f: "map r_question_number ?rs = [1, 3]" "map r_embedding ?rs = [[], []]"
    by (simp_all add: extracted_record_def)
  have e: "xw_embed empty_vector_world (''Q'' @ newline @ ''A'' @ newline @ ''E'') = Inr []"
    by (simp add: empty_vector_world_def)
  have "case snd (processAndExtractQuestions sample_ext_config empty_vector_world) of
        Inl e \<Rightarrow> False
      | Inr res \<Rightarrow>
          map r_question_number (allRecords (xr_progress res)) = [1, 3]
          \<and> map r_embedding (allRecords (xr_progress res)) = [[], []]
          \<and> map r_question_number (ins_rows (xr_upload res)) = [1, 3]
          \<and> map r_embedding (ins_rows (xr_upload res)) = [[], []]"
    using up f
    by (simp add: run_unfold [OF empty_vector_steps] empty_vector_loop w Let_def
        del: uploadToSupabase.simps processImages.simps)
  with e show ?thesis by simp
qed

subsection \<open>Subject and grade level come from the configuration\<close>

lemma processQuestion_ignores_subject:
  "processQuestion cfg w qts fn (q\<lparr>q_subject := s, q_grade_level := g\<rparr>)
     = processQuestion cfg w qts fn q"
  by (simp add: processQuestion_def grounding_text_def)

text \<open>
  Claim C9.  A record made of a candidate has the subject and the grade level of the run
  configuration, its metadata are the source image, the time and the candidate's
  question-type name, and its type id is the id the name resolves to.  The candidate's own
  subject and grade level play no role: replacing them changes nothing.  So in a run that
  returns, every record handed to the upload and every row the store receives has the
  configured subject and grade level, and the extracted type name under the metadata key
  \<open>question_type_name\<close>.
\<close>

theorem record_subject_from_config:
  "(\<forall>r. snd (processQuestion cfg w qts fn q) = Inr r \<longrightarrow>
       r_subject r = xc_subject cfg \<and> r_grade_level r = xc_gradeLevel cfg
       \<and> r_metadata r = [(''source_image'', fn), (''extracted_at'', xw_now w),
                          (''question_type_name'', q_question_type_name q)]
       \<and> mapQuestionTypeToId (q_question_type_name q) qts = Inr (r_question_type_id r))
   \<and> processQuestion cfg w qts fn (q\<lparr>q_subject := s, q_grade_level := g\<rparr>)
       = processQuestion cfg w qts fn q
   \<and> (\<forall>t res. processAndExtractQuestions cfg w = (t, Inr res) \<longrightarrow>
         set (ins_rows (xr_upload res)) \<subseteq> set (allRecords (xr_progress res))
         \<and> (\<forall>r\<in>set (allRecords (xr_progress res)).
              r_subject r = xc_subject cfg \<and> r_grade_level r = xc_gradeLevel cfg
              \<and> (\<exists>types topics img qs c.
                    snd (performOCR w img types topics) = Inr qs \<and> c \<in> set qs
                    \<and> r_question r = q_question c
                    \<and> map_of (r_metadata r) ''question_type_name''
                        = Some (q_question_type_name c))))"
proof (intro conjI allI impI)
  fix r
  assume pq: "snd (processQuestion cfg w qts fn q) = Inr r"
  note f = processQuestion_Inr [OF pq]
  show "r_subject r = xc_subject cfg" by (rule f(1))
  show "r_grade_level r = xc_gradeLevel cfg" by (rule f(2))
  show "r_metadata r = [(''source_image'', fn), (''extracted_at'', xw_now w),
                          (''question_type_name'', q_question_type_name q)]" by (rule f(12))
  show "mapQuestionTypeToId (q_question_type_name q) qts = Inr (r_question_type_id r)"
    by (rule f(13))
next
  show "processQuestion cfg w qts fn (q\<lparr>q_subject := s, q_grade_level := g\<rparr>)
       = processQuestion cfg w qts fn q"
    by (rule processQuestion_ignores_subject)
next
  fix t res
  assume run: "processAndExtractQuestions cfg w = (t, Inr res)"
  from run_records [OF run] obtain types topics imgs
    where p: "xr_progress res = processImages cfg w types topics imgs initial_progress"
      and u: "set (ins_rows (xr_upload res)) \<subseteq> set (allRecords (xr_progress res))"
    by blast
  show "set (ins_rows (xr_upload res)) \<subseteq> set (allRecords (xr_progress res))"
    by (rule u)
  show "\<forall>r\<in>set (allRecords (xr_progress res)).
              r_subject r = xc_subject cfg \<and> r_grade_level r = xc_gradeLevel cfg
              \<and> (\<exists>types topics img qs c.
                    snd (performOCR w img types topics) = Inr qs \<and> c \<in> set qs
                    \<and> r_question r = q_question c
                    \<and> map_of (r_metadata r) ''question_type_name''
                        = Some (q_question_type_name c))"
  proof
    fix r
    assume "r \<in> set (allRecords (xr_progress res))"
    with p loop_record_origin [of r cfg w types topics imgs] obtain img qs c
      where ocr: "snd (performOCR w img types topics) = Inr qs" and c: "c \<in> set qs"
        and pq: "snd (processQuestion cfg w types (xw_path_basename w img) c) = Inr r"
      by auto
    note f = processQuestion_Inr [OF pq]
    from f(12) have "map_of (r_metadata r) ''question_type_name''
                        = Some (q_question_type_name c)"
      by simp
    with ocr c f(4) have "\<exists>types topics img qs c.
                    snd (performOCR w img types topics) = Inr qs \<and> c \<in> set qs
                    \<and> r_question r = q_question c
                    \<and> map_of (r_metadata r) ''question_type_name''
                        = Some (q_question_type_name c)"
      by blast
    with f(1,2) show "r_subject r = xc_subject cfg \<and> r_grade_level r = xc_gradeLevel cfg
              \<and> (\<exists>types topics img qs c.
                    snd (performOCR w img types topics) = Inr qs \<and> c \<in> set qs
                    \<and> r_question r = q_question c
                    \<and> map_of (r_metadata r) ''question_type_name''
                        = Some (q_question_type_name c))"
      by simp
  qed
qed

text \<open>Witness of C9: a candidate whose own subject and grade level differ from the
  configuration's.\<close>

theorem record_subject_from_config_witness:
  "q_subject (sample_question 1 ''grammar'') = ''model subject''
   \<and> q_grade_level (sample_question 1 ''grammar'') = ''model grade''
   \<and> xc_subject sample_ext_config = ''S'' \<and> xc_gradeLevel sample_ext_config = ''DSE''
   \<and> snd (processQuestion sample_ext_config (sample_ext_world three_candidates rejects_none)
            sample_types ''p1.png'' (sample_question 1 ''grammar''))
       = Inr (extracted_record 1 ''grammar'' ''q1'')
   \<and> r_subject (extracted_record 1 ''grammar'' ''q1'') = ''S''
   \<and> r_grade_level (extracted_record 1 ''grammar'' ''q1'') = ''DSE''
   \<and> map_of (r_metadata (extracted_record 1 ''grammar'' ''q1'')) ''question_type_name''
       = Some ''grammar''
   \<and> (case snd (processAndExtractQuestions sample_ext_config
                   (sample_ext_world three_candidates rejects_none)) of
        Inl e \<Rightarrow> False
      | Inr res \<Rightarrow> map r_subject (allRecords (xr_progress res)) = [''S'', ''S'']
                   \<and> map r_grade_level (allRecords (xr_progress res)) = [''DSE'', ''DSE''])"
proof -
  let ?w = "sample_ext_world three_candidates rejects_none"
  have pq: "snd (processQuestion sample_ext_config ?w sample_types ''p1.png''
                   (sample_question 1 ''grammar''))
              = Inr (extracted_record 1 ''grammar'' ''q1'')"
    by (simp add: processQuestion_def then_run_def mapQuestionTypeToId_def
        generateEmbedding_def sample_ext_world_def sample_ext_config_def sample_question_def
        sample_types_def extracted_record_def)
  have q: "q_subject (sample_question 1 ''grammar'') = ''model subject''"
    "q_grade_level (sample_question 1 ''grammar'') = ''model grade''"
    by (simp_all add: sample_question_def)
  have c: "xc_subject sample_ext_config = ''S''" "xc_gradeLevel sample_ext_config = ''DSE''"
    by (simp_all add: sample_ext_config_def)
  have r: "r_subject (extracted_record 1 ''grammar'' ''q1'') = ''S''"
    "r_grade_level (extracted_record 1 ''grammar'' ''q1'') = ''DSE''"
    "map_of (r_metadata (extracted_record 1 ''grammar'' ''q1'')) ''question_type_name''
       = Some ''grammar''"
    by (simp_all add: extracted_record_def)
  note sr = sample_run [of rejects_none, unfolded sample_loop]
  have run: "case snd (processAndExtractQuestions sample_ext_config ?w) of
        Inl e \<Rightarrow> False
      | Inr res \<Rightarrow> map r_subject (allRecords (xr_progress res)) = [''S'', ''S'']
                   \<and> map r_grade_level (allRecords (xr_progress res)) = [''DSE'', ''DSE'']"
    by (simp add: sr extracted_record_def del: uploadToSupabase.simps)
  from record_subject_from_config [of sample_ext_config ?w sample_types "''p1.png''"
      "sample_question 1 ''grammar''"] pq q c r run
  show ?thesis
    by - (intro conjI, assumption+)
qed

section \<open>Generation (claims C5 and C6)\<close>

subsection \<open>One call, returned as it is\<close>

text \<open>
  Claim C5, as the code has it.  \<open>generateMCQs\<close> is one call: it fails as a whole
  (the model's error, or a schema violation) or returns the model's answer, whole and
  unchanged, every item with a difficulty from 1 to 5.  The target count and the range of
  the difficulty mode (easy: 1 to 2) are part of the prompt; the engine checks neither the
  number of items nor the band of their difficulties.
\<close>

theorem generation_returns_model_answer:
  "(\<forall>out. generateMCQs w tb samples n mode qts = Inr out \<longrightarrow>
       gw_model w (generateMCQs_prompt tb samples n mode qts) = Inr out
       \<and> list_all (\<lambda>m. 1 \<le> g_difficulty m \<and> g_difficulty m \<le> 5) out)
   \<and> (\<forall>e. gw_model w (generateMCQs_prompt tb samples n mode qts) = Inl e \<longrightarrow>
         generateMCQs w tb samples n mode qts = Inl e)
   \<and> (\<forall>objs. gw_model w (generateMCQs_prompt tb samples n mode qts) = Inr objs \<longrightarrow>
         generateMCQs w tb samples n mode qts
           = (if list_all MCQSchema objs then Inr objs else Inl (Error (gw_schema_error w))))
   \<and> p_numberOfMCQs (generateMCQs_prompt tb samples n mode qts) = n
   \<and> p_guidance (generateMCQs_prompt tb samples n mode qts) = difficultyGuidance mode
   \<and> difficultyGuidance Easy = AllWithin 1 2"
proof (intro conjI allI impI)
  fix out
  assume g: "generateMCQs w tb samples n mode qts = Inr out"
  then show "gw_model w (generateMCQs_prompt tb samples n mode qts) = Inr out"
    by (auto simp: generateMCQs_def generateObject_def split: sum.splits if_splits)
  from g have "list_all MCQSchema out"
    by (auto simp: generateMCQs_def generateObject_def split: sum.splits if_splits)
  then show "list_all (\<lambda>m. 1 \<le> g_difficulty m \<and> g_difficulty m \<le> 5) out"
    by (simp add: list_all_iff MCQSchema_def)
next
  fix e
  assume "gw_model w (generateMCQs_prompt tb samples n mode qts) = Inl e"
  then show "generateMCQs w tb samples n mode qts = Inl e"
    by (simp add: generateMCQs_def generateObject_def)
next
  fix objs
  assume "gw_model w (generateMCQs_prompt tb samples n mode qts) = Inr objs"
  then show "generateMCQs w tb samples n mode qts
           = (if list_all MCQSchema objs then Inr objs else Inl (Error (gw_schema_error w)))"
    by (simp add: generateMCQs_def generateObject_def)
qed (simp_all add: generateMCQs_prompt_def)

text \<open>Witness of C5: a model that follows the prompt (five items of difficulty 1), and a
  model that fails.\<close>

theorem generation_returns_model_answer_witness:
  "generateMCQs (sample_gen_world [] obedient_model) sample_textbook [] 5 Easy sample_types
     = Inr (replicate 5 (sample_generated 1))
   \<and> gw_model (sample_gen_world [] obedient_model)
        (generateMCQs_prompt sample_textbook [] 5 Easy sample_types)
       = Inr (replicate 5 (sample_generated 1))
   \<and> list_all (\<lambda>m. 1 \<le> g_difficulty m \<and> g_difficulty m \<le> 5) (replicate 5 (sample_generated 1))
   \<and> gw_model (sample_gen_world [] no_model)
        (generateMCQs_prompt sample_textbook [] 5 Easy sample_types)
       = Inl (Error ''model unavailable'')
   \<and> generateMCQs (sample_gen_world [] no_model) sample_textbook [] 5 Easy sample_types
       = Inl (Error ''model unavailable'')"
proof -
  have m: "gw_model (sample_gen_world [] obedient_model)
             (generateMCQs_prompt sample_textbook [] 5 Easy sample_types)
           = Inr (replicate 5 (sample_generated 1))"
    by (simp add: sample_gen_world_def obedient_model_def generateMCQs_prompt_def)
  have v: "list_all MCQSchema (replicate 5 (sample_generated 1))"
    by (simp add: list_all_iff MCQSchema_def sample_generated_def)
  have n: "gw_model (sample_gen_world [] no_model)
             (generateMCQs_prompt sample_textbook [] 5 Easy sample_types)
           = Inl (Error ''model unavailable'')"
    by (simp add: sample_gen_world_def no_model_def)
  from generation_returns_model_answer [of "sample_gen_world [] obedient_model" sample_textbook
      "[]" 5 Easy sample_types] m
  have "generateMCQs (sample_gen_world [] obedient_model) sample_textbook [] 5 Easy sample_types
     = (if list_all MCQSchema (replicate 5 (sample_generated 1))
        then Inr (replicate 5 (sample_generated 1))
        else Inl (Error (gw_schema_error (sample_gen_world [] obedient_model))))"
    by blast
  with v have g: "generateMCQs (sample_gen_world [] obedient_model) sample_textbook [] 5 Easy
                    sample_types = Inr (replicate 5 (sample_generated 1))"
    by (simp only: if_True)
  from generation_returns_model_answer [of "sample_gen_world [] obedient_model" sample_textbook
      "[]" 5 Easy sample_types] g
  have r: "list_all (\<lambda>m. 1 \<le> g_difficulty m \<and> g_difficulty m \<le> 5)
             (replicate 5 (sample_generated 1))"
    by blast
  from generation_returns_model_answer [of "sample_gen_world [] no_model" sample_textbook
      "[]" 5 Easy sample_types] n
  have e: "generateMCQs (sample_gen_world [] no_model) sample_textbook [] 5 Easy sample_types
             = Inl (Error ''model unavailable'')"
    by blast
  from g m r n e show ?thesis
    by - (intro conjI, assumption+)
qed

text \<open>
  Counterexample to C5 as stated: asked for five easy items, a model that answers with
  three items of difficulty 4 has its answer returned as it is.
\<close>

theorem generation_count_counterexample:
  "generateMCQs (sample_gen_world [] three_hard_model) sample_textbook [] 5 Easy sample_types
     = Inr [sample_generated 4, sample_generated 4, sample_generated 4]
   \<and> length [sample_generated 4, sample_generated 4, sample_generated 4] \<noteq> 5
   \<and> g_difficulty (sample_generated 4) = 4
   \<and> g_difficulty (sample_generated 4) \<notin> {1, 2}"
  by (simp add: generateMCQs_def generateObject_def sample_gen_world_def three_hard_model_def
      MCQSchema_def sample_generated_def)

subsection \<open>Configuration errors\<close>

lemma generate_topic_missing:
  assumes "\<not> truthy (gc_topic cfg)"
  shows "isl (snd (generateMCQQuestions cfg shuffle w))
       \<and> set (fst (generateMCQQuestions cfg shuffle w))
           \<subseteq> {StoreQuery ''question_types'', StoreQuery ''pastpapers''}"
proof (cases "fetchQuestionTypes (gw_error w) (gw_question_types w) (gc_subject cfg)")
  case (Inl e)
  then show ?thesis
    by (simp add: generateMCQQuestions_def then_run_def)
next
  case (Inr questionTypes)
  show ?thesis
  proof (cases "fetchRandomQuestions shuffle w (gc_subject cfg) (gc_topic cfg)
                  (gc_questionTypes cfg) (gc_numberOfQuestions cfg) questionTypes")
    case (Inl e)
    with Inr show ?thesis
      by (simp add: generateMCQQuestions_def then_run_def)
  next
    case sample: (Inr sampleQuestions)
    with Inr assms show ?thesis
      by (simp add: generateMCQQuestions_def then_run_def)
  qed
qed

lemma generate_topic_missing_after_sampling:
  assumes "\<not> truthy (gc_topic cfg)"
    and "fetchQuestionTypes (gw_error w) (gw_question_types w) (gc_subject cfg) = Inr questionTypes"
    and "fetchRandomQuestions shuffle w (gc_subject cfg) (gc_topic cfg)
           (gc_questionTypes cfg) (gc_numberOfQuestions cfg) questionTypes = Inr sampleQuestions"
  shows "generateMCQQuestions cfg shuffle w
           = ([StoreQuery ''question_types'', StoreQuery ''pastpapers''],
              Inl (Error ''Topic must be specified for textbook content retrieval''))"
  using assms by (simp add: generateMCQQuestions_def then_run_def)

text \<open>
  Claim C6, as the code has it.  Missing store credentials end every script at load with
  no call made (for the set creator: with the store untouched); a missing model key does
  the same for the three scripts that check it.  A missing topic ends the generator with
  an error and exit status 1, but only at step 3: the calls made by then are the query
  of the question types and the sampling query, and when both succeed the run ends with
  \<open>Topic must be specified for textbook content retrieval\<close> after exactly these two
  queries.  No textbook is fetched, nothing is generated or written.
\<close>

theorem configuration_errors_are_fatal:
  "(\<not> truthy (SUPABASE_URL env) \<or> \<not> truthy (SUPABASE_ANON_KEY env) \<longrightarrow>
      generator_script env cfg shuffle w
        = ([], Inl (Error ''Missing SUPABASE_URL or SUPABASE_ANON_KEY in environment variables''))
      \<and> uploader_script env xcfg xw
        = ([], Inl (Error ''Missing SUPABASE_URL or SUPABASE_ANON_KEY in environment variables''))
      \<and> textbook_script env ucfg uw
        = ([], Inl (Error ''Missing SUPABASE_URL or SUPABASE_ANON_KEY in environment variables''))
      \<and> set_creator_script env scfg shuffle' st
        = (st, Inl (Error ''Missing SUPABASE_URL or SUPABASE_ANON_KEY in environment variables'')))
   \<and> (truthy (SUPABASE_URL env) \<and> truthy (SUPABASE_ANON_KEY env)
      \<and> \<not> truthy (OPENAI_API_KEY env) \<longrightarrow>
      generator_script env cfg shuffle w
        = ([], Inl (Error ''Missing OPENAI_API_KEY in environment variables''))
      \<and> uploader_script env xcfg xw
        = ([], Inl (Error ''Missing OPENAI_API_KEY in environment variables''))
      \<and> textbook_script env ucfg uw
        = ([], Inl (Error ''Missing OPENAI_API_KEY in environment variables'')))
   \<and> (\<not> truthy (gc_topic cfg) \<longrightarrow>
      isl (snd (generator_script env cfg shuffle w))
      \<and> exit_code (snd (generator_script env cfg shuffle w)) = 1
      \<and> set (fst (generator_script env cfg shuffle w))
          \<subseteq> {StoreQuery ''question_types'', StoreQuery ''pastpapers''})
   \<and> (\<forall>questionTypes sampleQuestions.
        truthy (SUPABASE_URL env) \<and> truthy (SUPABASE_ANON_KEY env) \<and> truthy (OPENAI_API_KEY env)
        \<and> \<not> truthy (gc_topic cfg)
        \<and> fetchQuestionTypes (gw_error w) (gw_question_types w) (gc_subject cfg)
            = Inr questionTypes
        \<and> fetchRandomQuestions shuffle w (gc_subject cfg) (gc_topic cfg)
             (gc_questionTypes cfg) (gc_numberOfQuestions cfg) questionTypes
            = Inr sampleQuestions \<longrightarrow>
        generator_script env cfg shuffle w
          = ([StoreQuery ''question_types'', StoreQuery ''pastpapers''],
             Inl (Error ''Topic must be specified for textbook content retrieval'')))"
proof (intro conjI allI impI)
  assume "\<not> truthy (SUPABASE_URL env) \<or> \<not> truthy (SUPABASE_ANON_KEY env)"
  then show "generator_script env cfg shuffle w
        = ([], Inl (Error ''Missing SUPABASE_URL or SUPABASE_ANON_KEY in environment variables''))"
    and "uploader_script env xcfg xw
        = ([], Inl (Error ''Missing SUPABASE_URL or SUPABASE_ANON_KEY in environment variables''))"
    and "textbook_script env ucfg uw
        = ([], Inl (Error ''Missing SUPABASE_URL or SUPABASE_ANON_KEY in environment variables''))"
    and "set_creator_script env scfg shuffle' st
        = (st, Inl (Error ''Missing SUPABASE_URL or SUPABASE_ANON_KEY in environment variables''))"
    by (auto simp: generator_script_def uploader_script_def textbook_script_def
        set_creator_script_def)
next
  assume "truthy (SUPABASE_URL env) \<and> truthy (SUPABASE_ANON_KEY env)
      \<and> \<not> truthy (OPENAI_API_KEY env)"
  then show "generator_script env cfg shuffle w
        = ([], Inl (Error ''Missing OPENAI_API_KEY in environment variables''))"
    and "uploader_script env xcfg xw
        = ([], Inl (Error ''Missing OPENAI_API_KEY in environment variables''))"
    and "textbook_script env ucfg uw
        = ([], Inl (Error ''Missing OPENAI_API_KEY in environment variables''))"
    by (simp_all add: generator_script_def uploader_script_def textbook_script_def)
next
  assume t: "\<not> truthy (gc_topic cfg)"
  from generate_topic_missing [OF t, of shuffle w]
  show l: "isl (snd (generator_script env cfg shuffle w))"
    by (simp add: generator_script_def)
  then show "exit_code (snd (generator_script env cfg shuffle w)) = 1"
    by (cases "snd (generator_script env cfg shuffle w)") (simp_all add: exit_code_def)
  from generate_topic_missing [OF t, of shuffle w]
  show "set (fst (generator_script env cfg shuffle w))
          \<subseteq> {StoreQuery ''question_types'', StoreQuery ''pastpapers''}"
    by (simp add: generator_script_def)
next
  fix questionTypes sampleQuestions
  assume a: "truthy (SUPABASE_URL env) \<and> truthy (SUPABASE_ANON_KEY env) \<and> truthy (OPENAI_API_KEY env)
        \<and> \<not> truthy (gc_topic cfg)
        \<and> fetchQuestionTypes (gw_error w) (gw_question_types w) (gc_subject cfg)
            = Inr questionTypes
        \<and> fetchRandomQuestions shuffle w (gc_subject cfg) (gc_topic cfg)
             (gc_questionTypes cfg) (gc_numberOfQuestions cfg) questionTypes
            = Inr sampleQuestions"
  then have "generateMCQQuestions cfg shuffle w
           = ([StoreQuery ''question_types'', StoreQuery ''pastpapers''],
              Inl (Error ''Topic must be specified for textbook content retrieval''))"
    by (simp add: generate_topic_missing_after_sampling)
  with a show "generator_script env cfg shuffle w
          = ([StoreQuery ''question_types'', StoreQuery ''pastpapers''],
             Inl (Error ''Topic must be specified for textbook content retrieval''))"
    by (simp add: generator_script_def)
qed

text \<open>Witness of C6: an environment without store URL, one without model key, and a
  configuration whose topic is the empty string.\<close>

theorem configuration_errors_are_fatal_witness:
  "\<not> truthy (SUPABASE_URL no_credentials)
   \<and> generator_script no_credentials (sample_gen_config (Some ''T'') Easy 5) id
        (sample_gen_world [sample_row ''a'' ''S'' ''T'' ''q1''] no_model)
       = ([], Inl (Error ''Missing SUPABASE_URL or SUPABASE_ANON_KEY in environment variables''))
   \<and> uploader_script no_credentials sample_ext_config
        (sample_ext_world three_candidates rejects_none)
       = ([], Inl (Error ''Missing SUPABASE_URL or SUPABASE_ANON_KEY in environment variables''))
   \<and> textbook_script no_credentials sample_up_config sample_up_world
       = ([], Inl (Error ''Missing SUPABASE_URL or SUPABASE_ANON_KEY in environment variables''))
   \<and> snd (set_creator_script no_credentials (sample_config (sample_filters None None None 10)) id
             (sample_store [] sample_types))
       = Inl (Error ''Missing SUPABASE_URL or SUPABASE_ANON_KEY in environment variables'')
   \<and> truthy (SUPABASE_URL no_openai_key) \<and> truthy (SUPABASE_ANON_KEY no_openai_key)
   \<and> \<not> truthy (OPENAI_API_KEY no_openai_key)
   \<and> generator_script no_openai_key (sample_gen_config (Some ''T'') Easy 5) id
        (sample_gen_world [sample_row ''a'' ''S'' ''T'' ''q1''] no_model)
       = ([], Inl (Error ''Missing OPENAI_API_KEY in environment variables''))
   \<and> \<not> truthy (gc_topic (sample_gen_config (Some []) Easy 5))
   \<and> truthy (SUPABASE_URL sample_env) \<and> truthy (SUPABASE_ANON_KEY sample_env)
   \<and> truthy (OPENAI_API_KEY sample_env)
   \<and> generator_script sample_env (sample_gen_config (Some []) Easy 5) id
        (sample_gen_world [sample_row ''a'' ''S'' ''T'' ''q1''] no_model)
       = ([StoreQuery ''question_types'', StoreQuery ''pastpapers''],
          Inl (Error ''Topic must be specified for textbook content retrieval''))
   \<and> exit_code (snd (generator_script sample_env (sample_gen_config (Some []) Easy 5) id
                        (sample_gen_world [sample_row ''a'' ''S'' ''T'' ''q1''] no_model))) = 1"
proof -
  let ?w = "sample_gen_world [sample_row ''a'' ''S'' ''T'' ''q1''] no_model"
  let ?cfg = "sample_gen_config (Some ''T'') Easy 5"
  let ?blank = "sample_gen_config (Some []) Easy 5"
  let ?xw = "sample_ext_world three_candidates rejects_none"
  let ?scfg = "sample_config (sample_filters None None None 10)"
  let ?st = "sample_store [] sample_types"
  have e1: "\<not> truthy (SUPABASE_URL no_credentials)"
    by (simp add: no_credentials_def)
  have e2: "truthy (SUPABASE_URL no_openai_key)" "truthy (SUPABASE_ANON_KEY no_openai_key)"
    "\<not> truthy (OPENAI_API_KEY no_openai_key)"
    by (simp_all add: no_openai_key_def)
  have e3: "truthy (SUPABASE_URL sample_env)" "truthy (SUPABASE_ANON_KEY sample_env)"
    "truthy (OPENAI_API_KEY sample_env)"
    by (simp_all add: sample_env_def)
  have t0: "\<not> truthy (gc_topic ?blank)"
    by (simp add: sample_gen_config_def)
  have q: "fetchQuestionTypes (gw_error ?w) (gw_question_types ?w) (gc_subject ?blank)
             = Inr sample_types"
    by (simp add: fetchQuestionTypes_def eq_rows_def sample_gen_world_def sample_gen_config_def
        sample_types_def)
  have s: "fetchRandomQuestions id ?w (gc_subject ?blank) (gc_topic ?blank)
             (gc_questionTypes ?blank) (gc_numberOfQuestions ?blank) sample_types
             = Inr [sample_row ''a'' ''S'' ''T'' ''q1'']"
    by (simp add: fetchRandomQuestions_def pastpaper_query_def eq_rows_def slice0_def
        sample_gen_world_def sample_gen_config_def sample_row_def Let_def)
  note a = configuration_errors_are_fatal [of no_credentials ?cfg id ?w sample_ext_config ?xw
      sample_up_config sample_up_world ?scfg id ?st]
  note b = configuration_errors_are_fatal [of no_openai_key ?cfg id ?w sample_ext_config ?xw
      sample_up_config sample_up_world ?scfg id ?st]
  note c = configuration_errors_are_fatal [of sample_env ?blank id ?w sample_ext_config ?xw
      sample_up_config sample_up_world ?scfg id ?st]
  from a e1 have a1: "generator_script no_credentials ?cfg id ?w
       = ([], Inl (Error ''Missing SUPABASE_URL or SUPABASE_ANON_KEY in environment variables''))"
    and a2: "uploader_script no_credentials sample_ext_config ?xw
       = ([], Inl (Error ''Missing SUPABASE_URL or SUPABASE_ANON_KEY in environment variables''))"
    and a3: "textbook_script no_credentials sample_up_config sample_up_world
       = ([], Inl (Error ''Missing SUPABASE_URL or SUPABASE_ANON_KEY in environment variables''))"
    and a4: "set_creator_script no_credentials ?scfg id ?st
       = (?st, Inl (Error ''Missing SUPABASE_URL or SUPABASE_ANON_KEY in environment variables''))"
    by blast+
  from a4 have a4': "snd (set_creator_script no_credentials ?scfg id ?st)
       = Inl (Error ''Missing SUPABASE_URL or SUPABASE_ANON_KEY in environment variables'')"
    by simp
  from b e2 have b1: "generator_script no_openai_key ?cfg id ?w
       = ([], Inl (Error ''Missing OPENAI_API_KEY in environment variables''))"
    by blast
  from c e3 t0 q s have c1: "generator_script sample_env ?blank id ?w
       = ([StoreQuery ''question_types'', StoreQuery ''pastpapers''],
          Inl (Error ''Topic must be specified for textbook content retrieval''))"
    by blast
  from c t0 have c2: "exit_code (snd (generator_script sample_env ?blank id ?w)) = 1"
    by blast
  from e1 a1 a2 a3 a4' e2 b1 t0 e3 c1 c2 show ?thesis
    by - (intro conjI, assumption+)
qed

text \<open>
  Counterexample to C6 as stated: with every credential set and the topic \<open>null\<close>, the
  generator queries the question types and samples the past papers before it rejects the
  configuration.
\<close>

theorem topic_checked_after_sampling_counterexample:
  "gc_topic (sample_gen_config None Easy 5) = None
   \<and> generator_script sample_env (sample_gen_config None Easy 5) id
        (sample_gen_world [sample_row ''a'' ''S'' ''T'' ''q1''] no_model)
       = ([StoreQuery ''question_types'', StoreQuery ''pastpapers''],
          Inl (Error ''Topic must be specified for textbook content retrieval''))
   \<and> fetchRandomQuestions id (sample_gen_world [sample_row ''a'' ''S'' ''T'' ''q1''] no_model)
        ''S'' None None 5 sample_types
       = Inr [sample_row ''a'' ''S'' ''T'' ''q1'']"
  by (simp add: generator_script_def generateMCQQuestions_def then_run_def
      fetchQuestionTypes_def fetchRandomQuestions_def pastpaper_query_def eq_rows_def
      slice0_def sample_gen_world_def sample_gen_config_def sample_env_def sample_types_def
      sample_row_def Let_def)

section \<open>Textbook upload (claim C10)\<close>










end
